(* ===== verification/Prelude.thy ===== *)
theory Prelude
  imports Main
begin

text \<open>
  Shared vocabulary of the portfolio-page development. The page
  (\<open>src/app/page.tsx\<close>) is one React component whose state is a set of
  independent \<open>useState\<close> slots; each later theory models the slots and handlers of
  one section. This theory holds what they share: the types that stand for
  JavaScript values (a plain object with string fields, an array read that may give
  \<open>undefined\<close>), the collection \<open>handler_simps\<close> into which every component puts
  the equations of its event handlers, and generic lemmas on maps and lists that the
  component proofs use through \<open>simp\<close>.
\<close>

named_theorems handler_simps
  "equations of the React event handlers, unfolded by the component proofs"

named_theorems guard_simps
  "browser-side enabling conditions of events (disabled buttons, rendered elements)"

subsection \<open>JavaScript values\<close>

text \<open>
  A JavaScript object whose fields hold strings, such as the contact form's
  \<open>formData\<close>, is a map from field names to strings. A computed-key spread
  \<open>{...o, [k]: v}\<close> is the map update \<open>o(k \<mapsto> v)\<close>; a missing field reads as
  \<open>None\<close> (\<open>undefined\<close>).
\<close>

type_synonym js_object = "string \<rightharpoonup> string"

text \<open>
  An array read \<open>xs[i]\<close> at a JavaScript number \<open>i\<close> gives \<open>undefined\<close> when
  \<open>i\<close> is negative or past the end; it never raises. The page only indexes with
  integral numbers, so \<open>i\<close> is an \<open>int\<close>.
\<close>

definition js_index :: "'a list \<Rightarrow> int \<Rightarrow> 'a option" where
  "js_index xs i = (if 0 \<le> i \<and> i < int (length xs) then Some (xs ! nat i) else None)"

text \<open>Removing the \<open>i\<close>-th element of a list (a settled promise leaving the queue).\<close>

definition remove_nth :: "nat \<Rightarrow> 'a list \<Rightarrow> 'a list" where
  "remove_nth i xs = take i xs @ drop (Suc i) xs"

subsection \<open>Generic lemmas\<close>

lemma js_index_Some_iff:
  "js_index xs i = Some x \<longleftrightarrow> 0 \<le> i \<and> i < int (length xs) \<and> x = xs ! nat i"
  by (auto simp: js_index_def)

lemma js_index_None_iff:
  "js_index xs i = None \<longleftrightarrow> i < 0 \<or> int (length xs) \<le> i"
  by (auto simp: js_index_def)

lemma js_index_of_nat [simp]:
  "n < length xs \<Longrightarrow> js_index xs (int n) = Some (xs ! n)"
  by (simp add: js_index_def)

lemma length_remove_nth [simp]:
  "i < length xs \<Longrightarrow> length (remove_nth i xs) = length xs - 1"
  by (simp add: remove_nth_def)

lemma remove_nth_singleton [simp]:
  "i < length [x] \<Longrightarrow> remove_nth i [x] = []"
  by (simp add: remove_nth_def)

lemma set_remove_nth_subset:
  "set (remove_nth i xs) \<subseteq> set xs"
  by (auto simp: remove_nth_def dest: in_set_takeD in_set_dropD)

lemma dom_upd_in_dom [simp]:
  "k \<in> dom m \<Longrightarrow> dom (m(k \<mapsto> v)) = dom m"
  by auto

end
