(* ===== verification/Contact_Spec.thy ===== *)
theory Contact_Spec
  imports Prelude
begin

text \<open>
  The contract of the contact form as the specification states it (its sections 3,
  4.1 and 7), independent of React and of the JavaScript object that holds the form:
  a record of four string fields, a submission status with four values, whether the
  email client is available, and the list of payloads handed to the email service.
  The submit event is enabled only when the four fields are filled (the HTML
  \<open>required\<close> check) and no send is in progress (the disabled button); a
  submission without the client fails at once; a send completes either way. The
  theory \<open>Contact_Form\<close> shows that the page's handlers implement this contract
  (\<open>contact_refines_spec\<close>).
\<close>

record form_fields =
  fld_name :: string
  fld_email :: string
  fld_subject :: string
  fld_message :: string

datatype field = F_Name | F_Email | F_Subject | F_Message

fun get_fld :: "field \<Rightarrow> form_fields \<Rightarrow> string" where
  "get_fld F_Name f = fld_name f"
| "get_fld F_Email f = fld_email f"
| "get_fld F_Subject f = fld_subject f"
| "get_fld F_Message f = fld_message f"

fun set_fld :: "field \<Rightarrow> string \<Rightarrow> form_fields \<Rightarrow> form_fields" where
  "set_fld F_Name v f = f\<lparr>fld_name := v\<rparr>"
| "set_fld F_Email v f = f\<lparr>fld_email := v\<rparr>"
| "set_fld F_Subject v f = f\<lparr>fld_subject := v\<rparr>"
| "set_fld F_Message v f = f\<lparr>fld_message := v\<rparr>"

definition blank_fields :: form_fields where
  "blank_fields = \<lparr>fld_name = '''', fld_email = '''', fld_subject = '''', fld_message = ''''\<rparr>"

definition all_filled :: "form_fields \<Rightarrow> bool" where
  "all_filled f \<longleftrightarrow> fld_name f \<noteq> '''' \<and> fld_email f \<noteq> '''' \<and> fld_subject f \<noteq> '''' \<and>
     fld_message f \<noteq> ''''"

datatype sub_status = Sub_Idle | Sub_Sending | Sub_Success | Sub_Error

record form_spec =
  sp_fields :: form_fields
  sp_status :: sub_status
  sp_client :: bool
  sp_calls :: "form_fields list"

definition spec_init :: form_spec where
  "spec_init = \<lparr>sp_fields = blank_fields, sp_status = Sub_Idle, sp_client = False, sp_calls = []\<rparr>"

datatype spec_event = Sp_Load | Sp_Edit field string | Sp_Submit | Sp_Complete bool

inductive spec_step :: "form_spec \<Rightarrow> spec_event \<Rightarrow> form_spec \<Rightarrow> bool" where
  load: "spec_step t Sp_Load (t\<lparr>sp_client := True\<rparr>)"
| edit: "spec_step t (Sp_Edit f v) (t\<lparr>sp_fields := set_fld f v (sp_fields t)\<rparr>)"
| submit_unavailable: "sp_status t \<noteq> Sub_Sending \<Longrightarrow> all_filled (sp_fields t) \<Longrightarrow>
    \<not> sp_client t \<Longrightarrow> spec_step t Sp_Submit (t\<lparr>sp_status := Sub_Error\<rparr>)"
| submit_send: "sp_status t \<noteq> Sub_Sending \<Longrightarrow> all_filled (sp_fields t) \<Longrightarrow>
    sp_client t \<Longrightarrow>
    spec_step t Sp_Submit (t\<lparr>sp_status := Sub_Sending, sp_calls := sp_calls t @ [sp_fields t]\<rparr>)"
| complete_ok: "sp_status t = Sub_Sending \<Longrightarrow>
    spec_step t (Sp_Complete True) (t\<lparr>sp_status := Sub_Success, sp_fields := blank_fields\<rparr>)"
| complete_error: "sp_status t = Sub_Sending \<Longrightarrow>
    spec_step t (Sp_Complete False) (t\<lparr>sp_status := Sub_Error\<rparr>)"

inductive spec_trace :: "form_spec \<Rightarrow> spec_event list \<Rightarrow> form_spec \<Rightarrow> bool" where
  nil: "spec_trace t [] t"
| cons: "spec_step t a t' \<Longrightarrow> spec_trace t' as t'' \<Longrightarrow> spec_trace t (a # as) t''"

lemma get_set_fld [simp]: "get_fld f (set_fld f v r) = v"
  by (cases f) simp_all

lemma get_set_fld_other [simp]: "g \<noteq> f \<Longrightarrow> get_fld g (set_fld f v r) = get_fld g r"
  by (cases f; cases g) simp_all

lemma form_fields_eqI:
  "(\<And>f. get_fld f r = get_fld f r') \<Longrightarrow> r = r'"
proof -
  assume h: "\<And>f. get_fld f r = get_fld f r'"
  from h [of F_Name] h [of F_Email] h [of F_Subject] h [of F_Message] show "r = r'"
    by (cases r; cases r') simp
qed

end
