(* ===== verification/Email_Input.thy ===== *)
theory Email_Input
  imports Prelude
begin

text \<open>
  What the browser does for the form's controls, which the page only declares:
  \<open><input type="email" required>\<close> (\<open>src/app/page.tsx\<close>, lines 1029--1037)
  accepts a value only if it is empty or a \<^emph>\<open>valid e-mail address\<close> of the HTML
  standard, and its value is sanitized (newlines removed, then leading and trailing
  ASCII whitespace stripped); a \<open>type="text"\<close> input only removes newlines; a
  \<open>textarea\<close> reports its value with every CR LF and lone CR turned into LF.

  The address check is given twice: \<open>valid_email\<close> is an executable checker that
  splits at \<open>@\<close> and at dots, \<open>email_lang\<close> is the standard's ABNF as an
  inductive grammar (\<open>1*( atext / "." ) "@" label *( "." label )\<close>, a label being
  \<open>let-dig [ [ ldh-str ] let-dig ]\<close> of at most 63 characters), and
  \<open>valid_email_iff\<close> proves them equal. The splitting functions come with their
  round trips, the sanitizers with idempotence.
\<close>


section \<open>Splitting and joining on a separator\<close>

fun split_on :: "char \<Rightarrow> string \<Rightarrow> string list" where
  "split_on c [] = [[]]"
| "split_on c (x # xs) =
     (if x = c then [] # split_on c xs
      else (case split_on c xs of w # ws \<Rightarrow> (x # w) # ws | [] \<Rightarrow> [[x]]))"

fun join_on :: "char \<Rightarrow> string list \<Rightarrow> string" where
  "join_on c [] = []"
| "join_on c [w] = w"
| "join_on c (w # ws) = w @ c # join_on c ws"

section \<open>Characters\<close>

definition let_dig :: "char \<Rightarrow> bool" where
  "let_dig c \<longleftrightarrow> (let n = (of_char c :: nat) in 48 \<le> n \<and> n \<le> 57 \<or> 65 \<le> n \<and> n \<le> 90 \<or> 97 \<le> n \<and> n \<le> 122)"

definition ldh :: "char \<Rightarrow> bool" where
  "ldh c \<longleftrightarrow> let_dig c \<or> c = CHR ''-''"

definition atext :: "char \<Rightarrow> bool" where
  "atext c \<longleftrightarrow> let_dig c \<or> c \<in> set ''!#$%&'*+-/=?^_`{|}~''"

definition local_char :: "char \<Rightarrow> bool" where
  "local_char c \<longleftrightarrow> atext c \<or> c = CHR ''.''"

definition label_ok :: "string \<Rightarrow> bool" where
  "label_ok l \<longleftrightarrow> l \<noteq> [] \<and> length l \<le> 63 \<and> let_dig (hd l) \<and> let_dig (last l) \<and> list_all ldh l"

definition valid_email :: "string \<Rightarrow> bool" where
  "valid_email s =
     (case split_on (CHR ''@'') s of
        [lp, dm] \<Rightarrow> lp \<noteq> [] \<and> list_all local_char lp \<and> list_all label_ok (split_on (CHR ''.'') dm)
      | _ \<Rightarrow> False)"

section \<open>The grammar\<close>

inductive label_lang :: "string \<Rightarrow> bool" where
  single: "let_dig c \<Longrightarrow> label_lang [c]"
| inner: "let_dig c \<Longrightarrow> list_all ldh mid \<Longrightarrow> length mid \<le> 61 \<Longrightarrow> let_dig d \<Longrightarrow>
    label_lang (c # mid @ [d])"

inductive domain_lang :: "string \<Rightarrow> bool" where
  last_label: "label_lang l \<Longrightarrow> domain_lang l"
| dot: "label_lang l \<Longrightarrow> domain_lang d \<Longrightarrow> domain_lang (l @ CHR ''.'' # d)"

inductive email_lang :: "string \<Rightarrow> bool" where
  addr: "lp \<noteq> [] \<Longrightarrow> list_all local_char lp \<Longrightarrow> domain_lang d \<Longrightarrow> email_lang (lp @ CHR ''@'' # d)"

section \<open>Value sanitization\<close>

definition ascii_ws :: "char \<Rightarrow> bool" where
  "ascii_ws c \<longleftrightarrow> c \<in> set [CHR 0x09, CHR 0x0A, CHR 0x0C, CHR 0x0D, CHR 0x20]"

definition strip_newlines :: "string \<Rightarrow> string" where
  "strip_newlines v = filter (\<lambda>c. c \<noteq> CHR 0x0A \<and> c \<noteq> CHR 0x0D) v"

definition strip_ws :: "string \<Rightarrow> string" where
  "strip_ws v = rev (dropWhile ascii_ws (rev (dropWhile ascii_ws v)))"

definition sanitize_email :: "string \<Rightarrow> string" where
  "sanitize_email v = strip_ws (strip_newlines v)"

text \<open>
  A \<open>textarea\<close>'s API value: every CR LF pair and every lone CR become LF.
\<close>

fun normalize_newlines :: "string \<Rightarrow> string" where
  "normalize_newlines [] = []"
| "normalize_newlines [c] = (if c = CHR 0x0D then [CHR 0x0A] else [c])"
| "normalize_newlines (c # d # xs) =
     (if c = CHR 0x0D \<and> d = CHR 0x0A then CHR 0x0A # normalize_newlines xs
      else (if c = CHR 0x0D then CHR 0x0A else c) # normalize_newlines (d # xs))"

section \<open>Lemmas\<close>

text \<open>The definitions that evaluate the checks on a concrete string.\<close>

lemmas email_eval = valid_email_def label_ok_def let_dig_def ldh_def local_char_def atext_def
  sanitize_email_def strip_ws_def strip_newlines_def ascii_ws_def

subsection \<open>Splitting and joining\<close>

lemma split_on_not_Nil [simp]: "split_on c s \<noteq> []"
  by (induction s) (auto split: list.splits)

lemma join_on_Cons: "ws \<noteq> [] \<Longrightarrow> join_on c (w # ws) = w @ c # join_on c ws"
  by (cases ws) simp_all

lemma join_split_on: "join_on c (split_on c s) = s"
proof (induction s)
  case Nil
  then show ?case by simp
next
  case (Cons x xs)
  show ?case
  proof (cases "x = c")
    case True
    with Cons.IH show ?thesis by (simp add: join_on_Cons)
  next
    case False
    obtain w ws where e: "split_on c xs = w # ws"
      using split_on_not_Nil by (cases "split_on c xs") auto
    with Cons.IH have "join_on c (w # ws) = xs" by simp
    with False e show ?thesis by (cases ws) simp_all
  qed
qed

lemma split_on_no_sep: "w \<in> set (split_on c s) \<Longrightarrow> c \<notin> set w"
proof (induction s arbitrary: w)
  case Nil
  then show ?case by simp
next
  case (Cons x xs)
  then show ?case by (auto split: if_splits list.splits)
qed

lemma split_on_no_sep_id: "c \<notin> set w \<Longrightarrow> split_on c w = [w]"
  by (induction w) auto

lemma split_on_append_sep:
  "c \<notin> set w \<Longrightarrow> split_on c (w @ c # s) = w # split_on c s"
proof (induction w)
  case Nil
  then show ?case by simp
next
  case (Cons x xs)
  then show ?case by (auto split: list.splits)
qed

lemma split_join_on:
  "ws \<noteq> [] \<Longrightarrow> (\<And>w. w \<in> set ws \<Longrightarrow> c \<notin> set w) \<Longrightarrow> split_on c (join_on c ws) = ws"
proof (induction ws)
  case Nil
  then show ?case by simp
next
  case (Cons w ws)
  show ?case
  proof (cases "ws = []")
    case True
    with Cons.prems show ?thesis by (simp add: split_on_no_sep_id)
  next
    case False
    with Cons show ?thesis by (simp add: join_on_Cons split_on_append_sep)
  qed
qed


subsection \<open>The address grammar\<close>

lemma sep_chars [simp]:
  "\<not> let_dig (CHR ''.'')" "\<not> let_dig (CHR ''@'')" "\<not> let_dig (CHR ''-'')"
  "\<not> ldh (CHR ''.'')" "\<not> ldh (CHR ''@'')" "\<not> local_char (CHR ''@'')"
  by (simp_all add: let_dig_def ldh_def local_char_def atext_def)

lemma let_dig_ldh: "let_dig c \<Longrightarrow> ldh c"
  by (simp add: ldh_def)

lemma label_ok_iff: "label_ok l \<longleftrightarrow> label_lang l"
proof
  assume ok: "label_ok l"
  show "label_lang l"
  proof (cases "length l = 1")
    case True
    then obtain c where "l = [c]" by (cases l) auto
    with ok show ?thesis by (auto simp: label_ok_def intro: label_lang.single)
  next
    case False
    with ok have "2 \<le> length l" by (cases l) (auto simp: label_ok_def Suc_le_eq)
    then obtain c mid d where l: "l = c # mid @ [d]"
      by (metis Suc_le_length_iff append_butlast_last_id list.distinct(1) numeral_2_eq_2)
    with ok show ?thesis by (auto simp: label_ok_def intro!: label_lang.inner)
  qed
next
  assume "label_lang l"
  then show "label_ok l"
    by (cases rule: label_lang.cases) (auto simp: label_ok_def let_dig_ldh)
qed

lemma label_lang_chars: "label_lang l \<Longrightarrow> list_all ldh l"
  by (auto simp: label_ok_def simp flip: label_ok_iff)

lemma list_all_ldh_no_sep: "list_all ldh l \<Longrightarrow> CHR ''.'' \<notin> set l \<and> CHR ''@'' \<notin> set l"
  by (auto simp: list_all_iff)

lemma domain_lang_split: "domain_lang d \<Longrightarrow> list_all label_ok (split_on (CHR ''.'') d)"
proof (induction rule: domain_lang.induct)
  case (last_label l)
  then show ?case
    using list_all_ldh_no_sep [OF label_lang_chars] by (simp add: split_on_no_sep_id label_ok_iff)
next
  case (dot l d)
  then show ?case
    using list_all_ldh_no_sep [OF label_lang_chars [OF dot.hyps(1)]]
    by (simp add: split_on_append_sep label_ok_iff)
qed

lemma domain_lang_join:
  "ws \<noteq> [] \<Longrightarrow> list_all label_ok ws \<Longrightarrow> domain_lang (join_on (CHR ''.'') ws)"
proof (induction ws)
  case Nil
  then show ?case by simp
next
  case (Cons w ws)
  then show ?case
    by (cases "ws = []")
      (auto simp: join_on_Cons label_ok_iff intro: domain_lang.last_label domain_lang.dot)
qed

lemma domain_lang_iff: "domain_lang d \<longleftrightarrow> list_all label_ok (split_on (CHR ''.'') d)"
  using domain_lang_split domain_lang_join [of "split_on (CHR ''.'') d"] join_split_on by auto

lemma domain_lang_no_at: "domain_lang d \<Longrightarrow> CHR ''@'' \<notin> set d"
  by (induction rule: domain_lang.induct) (auto dest!: label_lang_chars list_all_ldh_no_sep)

lemma valid_email_iff: "valid_email s \<longleftrightarrow> email_lang s"
proof
  assume v: "valid_email s"
  then obtain lp dm where sp: "split_on (CHR ''@'') s = [lp, dm]"
    by (auto simp: valid_email_def split: list.splits)
  then have s: "s = lp @ CHR ''@'' # dm"
    using join_split_on [of "CHR ''@''" s] by simp
  from v sp show "email_lang s"
    unfolding s by (auto simp: valid_email_def domain_lang_iff intro!: email_lang.addr)
next
  assume "email_lang s"
  then obtain lp d where s: "s = lp @ CHR ''@'' # d" and lp: "lp \<noteq> []" "list_all local_char lp"
    and d: "domain_lang d"
    by (auto elim: email_lang.cases)
  from lp have "CHR ''@'' \<notin> set lp" by (auto simp: list_all_iff)
  with domain_lang_no_at [OF d] have "split_on (CHR ''@'') s = [lp, d]"
    by (simp add: s split_on_append_sep split_on_no_sep_id)
  with lp d show "valid_email s" by (simp add: valid_email_def domain_lang_iff)
qed

subsection \<open>Sanitization\<close>

lemma last_dropWhile: "dropWhile P xs \<noteq> [] \<Longrightarrow> last (dropWhile P xs) = last xs"
  by (induction xs) auto

lemma dropWhile_idem [simp]: "dropWhile P (dropWhile P xs) = dropWhile P xs"
  by (induction xs) auto

lemma strip_ws_hd: "strip_ws v \<noteq> [] \<Longrightarrow> \<not> ascii_ws (hd (strip_ws v))"
proof -
  let ?t = "dropWhile ascii_ws v"
  assume ne: "strip_ws v \<noteq> []"
  then have ne2: "dropWhile ascii_ws (rev ?t) \<noteq> []" by (simp add: strip_ws_def)
  then have "?t \<noteq> []" by (cases ?t) simp_all
  then have "\<not> ascii_ws (hd ?t)" by (rule hd_dropWhile)
  moreover have "hd (strip_ws v) = last (dropWhile ascii_ws (rev ?t))"
    using ne2 by (simp add: strip_ws_def hd_rev)
  moreover have "last (dropWhile ascii_ws (rev ?t)) = hd ?t"
    using ne2 by (simp add: last_dropWhile last_rev)
  ultimately show ?thesis by simp
qed

lemma strip_ws_last: "strip_ws v \<noteq> [] \<Longrightarrow> \<not> ascii_ws (last (strip_ws v))"
proof -
  assume "strip_ws v \<noteq> []"
  then have "dropWhile ascii_ws (rev (dropWhile ascii_ws v)) \<noteq> []" by (simp add: strip_ws_def)
  then show ?thesis by (simp add: strip_ws_def last_rev hd_dropWhile)
qed

lemma strip_ws_id:
  assumes "w \<noteq> [] \<Longrightarrow> \<not> ascii_ws (hd w) \<and> \<not> ascii_ws (last w)"
  shows "strip_ws w = w"
proof (cases "w = []")
  case True
  then show ?thesis by (simp add: strip_ws_def)
next
  case False
  with assms have "dropWhile ascii_ws w = w" and "dropWhile ascii_ws (rev w) = rev w"
    by (simp_all add: dropWhile_eq_self_iff hd_rev)
  then show ?thesis by (simp add: strip_ws_def)
qed

lemma strip_ws_idem: "strip_ws (strip_ws v) = strip_ws v"
  by (rule strip_ws_id) (simp add: strip_ws_hd strip_ws_last)

lemma set_dropWhile_subset: "set (dropWhile P xs) \<subseteq> set xs"
  by (auto dest: set_dropWhileD)

lemma set_strip_ws: "set (strip_ws v) \<subseteq> set v"
  using set_dropWhile_subset [of ascii_ws "rev (dropWhile ascii_ws v)"]
    set_dropWhile_subset [of ascii_ws v] by (auto simp: strip_ws_def)

lemma strip_newlines_id:
  "(\<And>c. c \<in> set w \<Longrightarrow> c \<noteq> CHR 0x0A \<and> c \<noteq> CHR 0x0D) \<Longrightarrow> strip_newlines w = w"
  by (induction w) (auto simp: strip_newlines_def)

lemma strip_newlines_strip_ws:
  "strip_newlines (strip_ws (strip_newlines v)) = strip_ws (strip_newlines v)"
proof (rule strip_newlines_id)
  fix c
  assume "c \<in> set (strip_ws (strip_newlines v))"
  then have "c \<in> set (strip_newlines v)" using set_strip_ws by blast
  then show "c \<noteq> CHR 0x0A \<and> c \<noteq> CHR 0x0D" by (simp add: strip_newlines_def)
qed

lemma normalize_newlines_no_CR: "CHR 0x0D \<notin> set (normalize_newlines v)"
  by (induction v rule: normalize_newlines.induct) auto

lemma normalize_newlines_id: "CHR 0x0D \<notin> set v \<Longrightarrow> normalize_newlines v = v"
  by (induction v rule: normalize_newlines.induct) auto

lemma normalize_newlines_idem: "normalize_newlines (normalize_newlines v) = normalize_newlines v"
  by (rule normalize_newlines_id [OF normalize_newlines_no_CR])

lemma sanitize_email_idem: "sanitize_email (sanitize_email v) = sanitize_email v"
  by (simp add: sanitize_email_def strip_newlines_strip_ws strip_ws_idem)

lemma sanitize_email_empty [simp]: "sanitize_email [] = []"
  by (simp add: sanitize_email_def strip_ws_def strip_newlines_def)

lemma sanitize_email_shape:
  assumes "sanitize_email e = e"
  shows "CHR 0x0A \<notin> set e \<and> CHR 0x0D \<notin> set e \<and>
         (e \<noteq> [] \<longrightarrow> \<not> ascii_ws (hd e) \<and> \<not> ascii_ws (last e))"
proof -
  have e: "strip_ws (strip_newlines e) = e" using assms by (simp add: sanitize_email_def)
  have "set e \<subseteq> set (strip_newlines e)" using set_strip_ws [of "strip_newlines e"] e by simp
  then have "CHR 0x0A \<notin> set e \<and> CHR 0x0D \<notin> set e" by (auto simp: strip_newlines_def)
  moreover have "e \<noteq> [] \<longrightarrow> \<not> ascii_ws (hd e) \<and> \<not> ascii_ws (last e)"
    using strip_ws_hd [of "strip_newlines e"] strip_ws_last [of "strip_newlines e"] e by simp
  ultimately show ?thesis by blast
qed

lemma valid_email_bounds:
  assumes "valid_email e"
  shows "\<exists>lp dm. e = lp @ CHR ''@'' # dm \<and> 1 \<le> length lp \<and>
           list_all (\<lambda>l. 1 \<le> length l \<and> length l \<le> 63) (split_on (CHR ''.'') dm)"
proof -
  from assms obtain lp dm where sp: "split_on (CHR ''@'') e = [lp, dm]" and lp: "lp \<noteq> []"
    and dm: "list_all label_ok (split_on (CHR ''.'') dm)"
    by (auto simp: valid_email_def split: list.splits)
  have "e = lp @ CHR ''@'' # dm" using join_split_on [of "CHR ''@''" e] sp by simp
  moreover have "list_all (\<lambda>l. 1 \<le> length l \<and> length l \<le> 63) (split_on (CHR ''.'') dm)"
    using dm by (auto simp: list_all_iff label_ok_def Suc_le_eq)
  ultimately show ?thesis using lp by (auto simp: Suc_le_eq)
qed

end
