(* ===== verification/Contact_Form.thy ===== *)
theory Contact_Form
  imports Contact_Spec Email_Input
begin

text \<open>
  The contact form of \<open>src/app/page.tsx\<close>: the state slots \<open>formData\<close>,
  \<open>status\<close> and \<open>emailJsLoaded\<close> (lines 26--33), the handlers
  \<open>handleChange\<close> and \<open>handleSubmit\<close> (lines 72--106) with the two
  continuations of the promise returned by \<open>window.emailjs.send\<close>, the
  \<open>onload\<close> callback of the EmailJS script (line 64), and the browser's side of
  the form (lines 1013--1077): the \<open>required\<close> inputs and the \<open>type="email"\<close>
  check, the value each control reports to \<open>handleChange\<close>, the submit button
  that is disabled while \<open>status\<close> is \<open>"sending"\<close>, and the status messages.

  The asynchronous send is modelled by two fields that the code does not name: the
  queue \<open>pending\<close> of calls whose promise has not settled yet, and the log
  \<open>sent\<close> of every call made (the outbound network requests). A promise settles
  by an event of its own, in any order, so the interleaving of user input with
  outstanding sends is explicit. The browser's part is the step relation
  \<open>contact_step\<close>, whose guards are what the rendered page allows.
\<close>

section \<open>Data\<close>

text \<open>The values \<open>setStatus\<close> is called with; \<open>""\<close> is the initial one.\<close>

datatype status = Idle | Sending | Success | Error

fun status_str :: "status \<Rightarrow> string" where
  "status_str Idle = ''''"
| "status_str Sending = ''sending''"
| "status_str Success = ''success''"
| "status_str Error = ''error''"

text \<open>One call \<open>window.emailjs.send(serviceId, templateId, formData, publicKey)\<close>.\<close>

record send_req =
  service_id :: string
  template_id :: string
  template_params :: js_object
  public_key :: string

record contact_state =
  formData :: js_object
  status :: status
  emailJsLoaded :: bool
  pending :: "send_req list"
  sent :: "send_req list"

definition empty_form :: js_object where
  "empty_form = [''name'' \<mapsto> '''', ''email'' \<mapsto> '''', ''subject'' \<mapsto> '''', ''message'' \<mapsto> '''']"

definition contact_init :: contact_state where
  "contact_init = \<lparr>formData = empty_form, status = Idle, emailJsLoaded = False,
                   pending = [], sent = []\<rparr>"

definition serviceId :: string where
  "serviceId = ''service_hj82tib''"

definition templateId :: string where
  "templateId = ''template_zr0el5e''"

definition publicKey :: string where
  "publicKey = ''pOYADk-qDd95pCXyI''"

section \<open>Handlers\<close>

text \<open>\<open>script.onload = () => setEmailJsLoaded(true)\<close>.\<close>

definition script_onload :: "contact_state \<Rightarrow> contact_state" where
  "script_onload s = s\<lparr>emailJsLoaded := True\<rparr>"

text \<open>\<open>setFormData({...formData, [e.target.name]: e.target.value})\<close>.\<close>

definition handleChange :: "string \<Rightarrow> string \<Rightarrow> contact_state \<Rightarrow> contact_state" where
  "handleChange nm v s = s\<lparr>formData := (formData s)(nm \<mapsto> v)\<rparr>"

text \<open>The call of \<open>window.emailjs.send\<close>: one request goes out and its promise is pending.\<close>

definition emailjs_send ::
  "string \<Rightarrow> string \<Rightarrow> js_object \<Rightarrow> string \<Rightarrow> contact_state \<Rightarrow> contact_state" where
  "emailjs_send svc tpl params key s =
     (let r = \<lparr>service_id = svc, template_id = tpl, template_params = params, public_key = key\<rparr>
      in s\<lparr>pending := pending s @ [r], sent := sent s @ [r]\<rparr>)"

text \<open>
  \<open>handleSubmit\<close>: \<open>e.preventDefault()\<close> (the page is not reloaded), the early
  return with \<open>status = "error"\<close> when the script has not loaded, otherwise
  \<open>setStatus("sending")\<close> and the send with the three hard-coded identifiers.
\<close>

definition handleSubmit :: "contact_state \<Rightarrow> contact_state" where
  "handleSubmit s =
     (if \<not> emailJsLoaded s then s\<lparr>status := Error\<rparr>
      else emailjs_send serviceId templateId (formData s) publicKey (s\<lparr>status := Sending\<rparr>))"

text \<open>The two continuations of \<open>.then\<close>, run when the \<open>i\<close>-th pending promise settles.\<close>

definition send_fulfilled :: "nat \<Rightarrow> contact_state \<Rightarrow> contact_state" where
  "send_fulfilled i s =
     s\<lparr>pending := remove_nth i (pending s), status := Success, formData := empty_form\<rparr>"

definition send_rejected :: "nat \<Rightarrow> contact_state \<Rightarrow> contact_state" where
  "send_rejected i s = s\<lparr>pending := remove_nth i (pending s), status := Error\<rparr>"

declare script_onload_def [handler_simps] handleChange_def [handler_simps]
  emailjs_send_def [handler_simps] handleSubmit_def [handler_simps]
  send_fulfilled_def [handler_simps] send_rejected_def [handler_simps]

section \<open>The rendered form\<close>

text \<open>The \<open>name\<close> attributes of the four \<open>required\<close> inputs, in page order.\<close>

definition form_inputs :: "string list" where
  "form_inputs = [''name'', ''email'', ''subject'', ''message'']"

text \<open>
  HTML constraint validation: a \<open>required\<close> input whose value is empty suffers
  from a missing value, and the browser then fires no \<open>submit\<close> event. The
  inputs are controlled (\<open>value={formData.name}\<close>), so their values are the
  fields of \<open>formData\<close>.
\<close>

text \<open>
  The kind of control each input is: \<open>type="text"\<close> for name and subject,
  \<open>type="email"\<close> for the address, a \<open>textarea\<close> for the message. The value a
  change event reports (\<open>e.target.value\<close>) is what the control makes of the
  visitor's input.
\<close>

datatype control = Ctl_Text | Ctl_Email | Ctl_Textarea

definition control_of :: "string \<Rightarrow> control" where
  "control_of nm = (if nm = ''email'' then Ctl_Email else if nm = ''message'' then Ctl_Textarea
     else Ctl_Text)"

primrec control_value :: "control \<Rightarrow> string \<Rightarrow> string" where
  "control_value Ctl_Text v = strip_newlines v"
| "control_value Ctl_Email v = sanitize_email v"
| "control_value Ctl_Textarea v = normalize_newlines v"

definition value_missing :: "js_object \<Rightarrow> string \<Rightarrow> bool" where
  "value_missing fd k = (case fd k of None \<Rightarrow> True | Some v \<Rightarrow> v = [])"

text \<open>The \<open>type="email"\<close> input also suffers from a type mismatch on a non-empty value
  that is not a valid e-mail address.\<close>

definition type_mismatch :: "js_object \<Rightarrow> bool" where
  "type_mismatch fd = (case fd ''email'' of None \<Rightarrow> False | Some v \<Rightarrow> v \<noteq> [] \<and> \<not> valid_email v)"

definition form_valid :: "js_object \<Rightarrow> bool" where
  "form_valid fd \<longleftrightarrow> (\<forall>k \<in> set form_inputs. \<not> value_missing fd k) \<and> \<not> type_mismatch fd"

text \<open>\<open>disabled={status === "sending"}\<close> and the texts under the button.\<close>

definition submit_disabled :: "contact_state \<Rightarrow> bool" where
  "submit_disabled s \<longleftrightarrow> status s = Sending"

definition submit_label :: "status \<Rightarrow> string" where
  "submit_label st = (if st = Sending then ''Sending...'' else ''Send Message'')"

fun status_message :: "status \<Rightarrow> string option" where
  "status_message Success = Some ''Message sent successfully!''"
| "status_message Error = Some ''Good Thankyou''"
| "status_message _ = None"

declare submit_disabled_def [guard_simps] form_valid_def [guard_simps]

section \<open>Events and the step relation\<close>

datatype contact_event =
    Script_Load
  | Input_Change string string
  | Form_Submit
  | Send_Resolve nat
  | Send_Reject nat

text \<open>
  One rule per event. A change event comes only from the four inputs; a submit
  event only from an enabled button on a form that passes constraint validation
  (pressing Enter in a field submits through the same default button, so the same
  guard applies); a settlement only for a promise that is pending.
\<close>

inductive contact_step :: "contact_state \<Rightarrow> contact_event \<Rightarrow> contact_state \<Rightarrow> bool" where
  script_load: "contact_step s Script_Load (script_onload s)"
| input_change: "nm \<in> set form_inputs \<Longrightarrow>
    contact_step s (Input_Change nm v) (handleChange nm (control_value (control_of nm) v) s)"
| form_submit: "\<not> submit_disabled s \<Longrightarrow> form_valid (formData s) \<Longrightarrow>
    contact_step s Form_Submit (handleSubmit s)"
| send_resolve: "i < length (pending s) \<Longrightarrow> contact_step s (Send_Resolve i) (send_fulfilled i s)"
| send_reject: "i < length (pending s) \<Longrightarrow> contact_step s (Send_Reject i) (send_rejected i s)"

inductive_simps contact_step_simps:
  "contact_step s Script_Load s'"
  "contact_step s (Input_Change nm v) s'"
  "contact_step s Form_Submit s'"
  "contact_step s (Send_Resolve i) s'"
  "contact_step s (Send_Reject i) s'"

inductive_cases contact_step_FormE: "contact_step s Form_Submit s'"
inductive_cases contact_step_ResolveE: "contact_step s (Send_Resolve i) s'"
inductive_cases contact_step_RejectE: "contact_step s (Send_Reject i) s'"

text \<open>The same dispatch as an executable function (\<open>None\<close>: the event cannot occur).\<close>

fun contact_dispatch :: "contact_state \<Rightarrow> contact_event \<Rightarrow> contact_state option" where
  "contact_dispatch s Script_Load = Some (script_onload s)"
| "contact_dispatch s (Input_Change nm v) =
     (if nm \<in> set form_inputs then Some (handleChange nm (control_value (control_of nm) v) s)
      else None)"
| "contact_dispatch s Form_Submit =
     (if \<not> submit_disabled s \<and> form_valid (formData s) then Some (handleSubmit s) else None)"
| "contact_dispatch s (Send_Resolve i) =
     (if i < length (pending s) then Some (send_fulfilled i s) else None)"
| "contact_dispatch s (Send_Reject i) =
     (if i < length (pending s) then Some (send_rejected i s) else None)"

fun contact_run :: "contact_state \<Rightarrow> contact_event list \<Rightarrow> contact_state option" where
  "contact_run s [] = Some s"
| "contact_run s (e # es) = (case contact_dispatch s e of None \<Rightarrow> None | Some s' \<Rightarrow> contact_run s' es)"

inductive contact_reach :: "contact_state \<Rightarrow> bool" where
  init: "contact_reach contact_init"
| step: "contact_reach s \<Longrightarrow> contact_step s e s' \<Longrightarrow> contact_reach s'"

inductive contact_trace :: "contact_state \<Rightarrow> contact_event list \<Rightarrow> contact_state \<Rightarrow> bool" where
  nil: "contact_trace s [] s"
| cons: "contact_step s e s' \<Longrightarrow> contact_trace s' es s'' \<Longrightarrow> contact_trace s (e # es) s''"

section \<open>Abstraction to the contract of \<open>Contact_Spec\<close>\<close>

text \<open>
  The abstraction reads the JavaScript object back as the record of four fields (a
  missing field reads as the empty string), the status strings as the contract's
  statuses, and the request log as the list of payloads.
\<close>

fun field_key :: "field \<Rightarrow> string" where
  "field_key F_Name = ''name''"
| "field_key F_Email = ''email''"
| "field_key F_Subject = ''subject''"
| "field_key F_Message = ''message''"

definition field_of_name :: "string \<Rightarrow> field option" where
  "field_of_name nm =
     (if nm = ''name'' then Some F_Name else if nm = ''email'' then Some F_Email
      else if nm = ''subject'' then Some F_Subject else if nm = ''message'' then Some F_Message
      else None)"

definition js_str :: "string option \<Rightarrow> string" where
  "js_str v = (case v of None \<Rightarrow> '''' | Some x \<Rightarrow> x)"

definition fields_of :: "js_object \<Rightarrow> form_fields" where
  "fields_of fd = \<lparr>fld_name = js_str (fd ''name''), fld_email = js_str (fd ''email''),
                   fld_subject = js_str (fd ''subject''), fld_message = js_str (fd ''message'')\<rparr>"

fun abs_status :: "status \<Rightarrow> sub_status" where
  "abs_status Idle = Sub_Idle"
| "abs_status Sending = Sub_Sending"
| "abs_status Success = Sub_Success"
| "abs_status Error = Sub_Error"

definition abs_contact :: "contact_state \<Rightarrow> form_spec" where
  "abs_contact s = \<lparr>sp_fields = fields_of (formData s), sp_status = abs_status (status s),
     sp_client = emailJsLoaded s, sp_calls = map (\<lambda>r. fields_of (template_params r)) (sent s)\<rparr>"

fun abs_event :: "contact_event \<Rightarrow> spec_event option" where
  "abs_event Script_Load = Some Sp_Load"
| "abs_event (Input_Change nm v) = map_option (\<lambda>f. Sp_Edit f (control_value (control_of nm) v)) (field_of_name nm)"
| "abs_event Form_Submit = Some Sp_Submit"
| "abs_event (Send_Resolve i) = Some (Sp_Complete True)"
| "abs_event (Send_Reject i) = Some (Sp_Complete False)"

text \<open>
  A sample session used by the witnesses below: the EmailJS script loads and the
  visitor fills in the four fields.
\<close>

definition sample_fill :: "contact_event list" where
  "sample_fill = [Script_Load, Input_Change ''name'' ''Ann'',
     Input_Change ''email'' ''ann@example.org'', Input_Change ''subject'' ''Hello'',
     Input_Change ''message'' ''Hi there'']"

section \<open>Invariants\<close>

definition form_shape :: "js_object \<Rightarrow> bool" where
  "form_shape fd \<longleftrightarrow> dom fd = set form_inputs"

definition single_flight :: "contact_state \<Rightarrow> bool" where
  "single_flight s \<longleftrightarrow> length (pending s) \<le> 1 \<and> (status s = Sending \<longleftrightarrow> pending s \<noteq> [])"

definition request_ok :: "send_req \<Rightarrow> bool" where
  "request_ok r \<longleftrightarrow> service_id r = serviceId \<and> template_id r = templateId \<and>
     public_key r = publicKey \<and> form_shape (template_params r) \<and> form_valid (template_params r)"

definition requests_fixed :: "contact_state \<Rightarrow> bool" where
  "requests_fixed s \<longleftrightarrow> (\<forall>r \<in> set (sent s). request_ok r) \<and> set (pending s) \<subseteq> set (sent s)"

definition contact_inv :: "contact_state \<Rightarrow> bool" where
  "contact_inv s \<longleftrightarrow> form_shape (formData s) \<and> single_flight s \<and> requests_fixed s"

section \<open>Lemmas\<close>

lemmas contact_eval = handler_simps guard_simps contact_init_def form_inputs_def
  value_missing_def empty_form_def remove_nth_def sample_fill_def Let_def
  control_of_def type_mismatch_def email_eval

subsection \<open>Executable dispatch and the step relation agree\<close>

lemma contact_dispatch_iff: "contact_dispatch s e = Some s' \<longleftrightarrow> contact_step s e s'"
  by (cases e) (auto simp: contact_step_simps)

lemma contact_run_trace: "contact_run s es = Some s' \<longleftrightarrow> contact_trace s es s'"
proof (induction es arbitrary: s)
  case Nil
  then show ?case by (auto elim: contact_trace.cases intro: contact_trace.nil)
next
  case (Cons e es)
  show ?case
  proof
    assume "contact_run s (e # es) = Some s'"
    then obtain t where "contact_dispatch s e = Some t" "contact_run t es = Some s'"
      by (auto split: option.splits)
    with Cons.IH show "contact_trace s (e # es) s'"
      by (auto simp: contact_dispatch_iff intro: contact_trace.cons)
  next
    assume "contact_trace s (e # es) s'"
    then obtain t where "contact_step s e t" "contact_trace t es s'"
      by (auto elim: contact_trace.cases)
    with Cons.IH show "contact_run s (e # es) = Some s'"
      by (simp flip: contact_dispatch_iff)
  qed
qed

lemma contact_trace_reach: "contact_trace s es s' \<Longrightarrow> contact_reach s \<Longrightarrow> contact_reach s'"
  by (induction rule: contact_trace.induct) (auto intro: contact_reach.step)

lemma contact_run_reach: "contact_run contact_init es = Some s \<Longrightarrow> contact_reach s"
  by (auto simp: contact_run_trace intro: contact_trace_reach contact_reach.init)

subsection \<open>Facts about the form\<close>

lemma dom_empty_form [simp]: "dom empty_form = set form_inputs"
  by (auto simp: empty_form_def form_inputs_def)

lemma form_shape_empty_form [simp]: "form_shape empty_form"
  by (simp add: form_shape_def)

lemma empty_form_fields [simp]: "k \<in> set form_inputs \<Longrightarrow> empty_form k = Some ''''"
  by (auto simp: empty_form_def form_inputs_def)

lemma form_shape_change:
  "form_shape fd \<Longrightarrow> nm \<in> set form_inputs \<Longrightarrow> form_shape (fd(nm \<mapsto> v))"
  by (auto simp: form_shape_def)

subsection \<open>Preservation, one operation at a time\<close>

lemma contact_inv_init: "contact_inv contact_init"
  by (simp add: contact_inv_def contact_init_def single_flight_def requests_fixed_def)

lemma script_onload_inv: "contact_inv s \<Longrightarrow> contact_inv (script_onload s)"
  by (simp add: contact_inv_def single_flight_def requests_fixed_def handler_simps)

lemma handleChange_inv:
  "contact_inv s \<Longrightarrow> nm \<in> set form_inputs \<Longrightarrow> contact_inv (handleChange nm v s)"
  by (simp add: contact_inv_def single_flight_def requests_fixed_def form_shape_change
      handler_simps)

lemma idle_no_pending: "single_flight s \<Longrightarrow> status s \<noteq> Sending \<Longrightarrow> pending s = []"
  by (simp add: single_flight_def)

lemma handleSubmit_inv:
  assumes inv: "contact_inv s" and en: "\<not> submit_disabled s" and ok: "form_valid (formData s)"
  shows "contact_inv (handleSubmit s)"
proof -
  from inv en have none: "pending s = []"
    by (simp add: idle_no_pending contact_inv_def submit_disabled_def)
  from inv ok have "request_ok \<lparr>service_id = serviceId, template_id = templateId,
      template_params = formData s, public_key = publicKey\<rparr>"
    by (simp add: request_ok_def contact_inv_def)
  with inv none show ?thesis
    by (simp add: contact_inv_def single_flight_def requests_fixed_def handler_simps Let_def)
qed

lemma settle_single_flight:
  "single_flight s \<Longrightarrow> i < length (pending s) \<Longrightarrow> remove_nth i (pending s) = []"
  by (cases "pending s") (auto simp: single_flight_def)

lemma requests_fixed_settle:
  "requests_fixed s \<Longrightarrow> requests_fixed (s\<lparr>pending := remove_nth i (pending s), status := st,
                                          formData := fd\<rparr>)"
  using set_remove_nth_subset [of i "pending s"] by (auto simp: requests_fixed_def)

lemma send_fulfilled_inv:
  "contact_inv s \<Longrightarrow> i < length (pending s) \<Longrightarrow> contact_inv (send_fulfilled i s)"
  using requests_fixed_settle [where s = s and i = i and st = Success and fd = empty_form]
  by (simp add: contact_inv_def single_flight_def settle_single_flight handler_simps)

lemma send_rejected_inv:
  "contact_inv s \<Longrightarrow> i < length (pending s) \<Longrightarrow> contact_inv (send_rejected i s)"
  using requests_fixed_settle [where s = s and i = i and st = Error and fd = "formData s"]
  by (simp add: contact_inv_def single_flight_def settle_single_flight handler_simps)

lemma contact_step_inv: "contact_step s e s' \<Longrightarrow> contact_inv s \<Longrightarrow> contact_inv s'"
  by (induction rule: contact_step.induct)
    (auto intro: script_onload_inv handleChange_inv handleSubmit_inv send_fulfilled_inv
      send_rejected_inv)

lemma contact_reach_inv: "contact_reach s \<Longrightarrow> contact_inv s"
  by (induction rule: contact_reach.induct) (auto intro: contact_inv_init contact_step_inv)

subsection \<open>Single steps\<close>

lemma step_not_idle: "contact_step s e s' \<Longrightarrow> status s \<noteq> Idle \<Longrightarrow> status s' \<noteq> Idle"
  by (induction rule: contact_step.induct) (auto simp: handler_simps Let_def)

lemma submit_not_idle: "contact_step s Form_Submit s' \<Longrightarrow> status s' \<noteq> Idle"
  by (erule contact_step_FormE) (simp add: handler_simps Let_def)

lemma trace_not_idle:
  "contact_trace s es s' \<Longrightarrow> status s \<noteq> Idle \<or> Form_Submit \<in> set es \<Longrightarrow> status s' \<noteq> Idle"
proof (induction rule: contact_trace.induct)
  case (nil s)
  then show ?case by simp
next
  case (cons s e t es s'')
  have "status t \<noteq> Idle \<or> Form_Submit \<in> set es"
    using cons.prems cons.hyps(1) step_not_idle submit_not_idle by auto
  then show ?case by (rule cons.IH)
qed

lemma step_sends_only_on_submit:
  "contact_step s e s' \<Longrightarrow> sent s' \<noteq> sent s \<Longrightarrow> e = Form_Submit \<and> \<not> submit_disabled s"
  by (induction rule: contact_step.induct) (auto simp: handler_simps Let_def)

lemma reach_pending_sending:
  "contact_reach s \<Longrightarrow> pending s \<noteq> [] \<Longrightarrow> status s = Sending \<and> length (pending s) = 1"
  using contact_reach_inv [of s] by (auto simp: contact_inv_def single_flight_def le_Suc_eq)

lemma reach_request_ok: "contact_reach s \<Longrightarrow> r \<in> set (sent s) \<Longrightarrow> request_ok r"
  using contact_reach_inv [of s] by (auto simp: contact_inv_def requests_fixed_def)

lemma form_valid_fields:
  "form_valid fd \<Longrightarrow> k \<in> set form_inputs \<Longrightarrow> \<exists>v. fd k = Some v \<and> v \<noteq> ''''"
  by (auto simp: form_valid_def value_missing_def split: option.splits)

lemma sample_submitted:
  "\<exists>s. contact_run contact_init (sample_fill @ [Form_Submit]) = Some s \<and> contact_reach s \<and>
       emailJsLoaded s \<and> pending s \<noteq> [] \<and> formData s ''message'' = Some ''Hi there''"
proof -
  have "contact_run contact_init (sample_fill @ [Form_Submit]) \<noteq> None"
    by (simp add: contact_eval)
  then obtain s where run: "contact_run contact_init (sample_fill @ [Form_Submit]) = Some s"
    by blast
  moreover from run
  have "emailJsLoaded s \<and> pending s \<noteq> [] \<and> formData s ''message'' = Some ''Hi there''"
    by (auto simp: contact_eval)
  ultimately show ?thesis using contact_run_reach by blast
qed

subsection \<open>The abstraction\<close>

lemma get_fld_fields_of: "get_fld f (fields_of fd) = js_str (fd (field_key f))"
  by (cases f) (simp_all add: fields_of_def)

lemma field_of_name_inputs:
  "nm \<in> set form_inputs \<Longrightarrow> \<exists>f. field_of_name nm = Some f \<and> field_key f = nm"
  by (auto simp: form_inputs_def field_of_name_def)

lemma field_key_inj: "field_key f = field_key g \<longleftrightarrow> f = g"
  by (cases f; cases g) simp_all

lemma fields_of_upd: "fields_of (fd(field_key f \<mapsto> v)) = set_fld f v (fields_of fd)"
proof (rule form_fields_eqI)
  fix g
  show "get_fld g (fields_of (fd(field_key f \<mapsto> v))) = get_fld g (set_fld f v (fields_of fd))"
    by (cases "g = f") (auto simp: get_fld_fields_of js_str_def field_key_inj)
qed

lemma fields_of_empty_form [simp]: "fields_of empty_form = blank_fields"
  by (simp add: fields_of_def empty_form_def js_str_def blank_fields_def)

lemma form_valid_all_filled: "form_valid fd \<Longrightarrow> all_filled (fields_of fd)"
  by (auto simp: form_valid_def value_missing_def form_inputs_def all_filled_def fields_of_def
      js_str_def split: option.splits)

lemma abs_status_Sending [simp]: "abs_status st = Sub_Sending \<longleftrightarrow> st = Sending"
  by (cases st) simp_all

lemma abs_contact_init: "abs_contact contact_init = spec_init"
  by (simp add: abs_contact_def contact_init_def spec_init_def)

lemma contact_step_refines:
  assumes step: "contact_step s e s'" and inv: "contact_inv s"
  shows "\<exists>a. abs_event e = Some a \<and> spec_step (abs_contact s) a (abs_contact s')"
  using step
proof cases
  case script_load
  then show ?thesis
    using spec_step.load [of "abs_contact s"] by (simp add: abs_contact_def handler_simps)
next
  case (input_change nm v)
  then obtain f where f: "field_of_name nm = Some f" "field_key f = nm"
    using field_of_name_inputs by blast
  have "spec_step (abs_contact s) (Sp_Edit f (control_value (control_of nm) v)) (abs_contact s')"
    using spec_step.edit [of "abs_contact s" f "control_value (control_of nm) v"] input_change f
    by (simp add: abs_contact_def handler_simps flip: fields_of_upd)
  with input_change f show ?thesis by simp
next
  case form_submit
  then have ns: "sp_status (abs_contact s) \<noteq> Sub_Sending"
    and fl: "all_filled (sp_fields (abs_contact s))"
    by (simp_all add: abs_contact_def submit_disabled_def form_valid_all_filled)
  show ?thesis
  proof (cases "emailJsLoaded s")
    case True
    with spec_step.submit_send [OF ns fl] form_submit show ?thesis
      by (simp add: abs_contact_def handler_simps Let_def)
  next
    case False
    with spec_step.submit_unavailable [OF ns fl] form_submit show ?thesis
      by (simp add: abs_contact_def handler_simps)
  qed
next
  case (send_resolve i)
  with inv have "status s = Sending"
    by (cases "pending s") (auto simp: contact_inv_def single_flight_def)
  then have "sp_status (abs_contact s) = Sub_Sending" by (simp add: abs_contact_def)
  from spec_step.complete_ok [OF this] send_resolve show ?thesis
    by (simp add: abs_contact_def handler_simps)
next
  case (send_reject i)
  with inv have "status s = Sending"
    by (cases "pending s") (auto simp: contact_inv_def single_flight_def)
  then have "sp_status (abs_contact s) = Sub_Sending" by (simp add: abs_contact_def)
  from spec_step.complete_error [OF this] send_reject show ?thesis
    by (simp add: abs_contact_def handler_simps)
qed

lemma contact_trace_refines:
  "contact_trace s es s' \<Longrightarrow> contact_inv s \<Longrightarrow>
   list_all (\<lambda>e. abs_event e \<noteq> None) es \<and>
   spec_trace (abs_contact s) (map (\<lambda>e. the (abs_event e)) es) (abs_contact s')"
proof (induction rule: contact_trace.induct)
  case (nil s)
  then show ?case by (simp add: spec_trace.nil)
next
  case (cons s e t es s'')
  from contact_step_refines [OF cons.hyps(1) cons.prems] obtain a
    where a: "abs_event e = Some a" "spec_step (abs_contact s) a (abs_contact t)" by blast
  from cons.IH contact_step_inv [OF cons.hyps(1) cons.prems]
  have "list_all (\<lambda>e. abs_event e \<noteq> None) es \<and>
        spec_trace (abs_contact t) (map (\<lambda>e. the (abs_event e)) es) (abs_contact s'')" by blast
  with a show ?case by (auto intro: spec_trace.cons)
qed

subsection \<open>A complete session from any settled state\<close>

lemma contact_session:
  assumes "pending c = []" and "status c \<noteq> Sending"
  shows "\<exists>c2. contact_run c (sample_fill @ [Form_Submit, Send_Resolve 0]) = Some c2 \<and>
           status c2 = Success \<and> pending c2 = [] \<and>
           (\<exists>r. sent c2 = sent c @ [r] \<and> template_params r ''email'' = Some ''ann@example.org'' \<and>
                template_params r ''message'' = Some ''Hi there'')"
  using assms by (simp add: contact_eval)

lemma contact_settle:
  assumes "contact_reach c"
  shows "\<exists>es c1. contact_trace c es c1 \<and> pending c1 = [] \<and> status c1 \<noteq> Sending \<and> sent c1 = sent c"
proof (cases "pending c = []")
  case True
  with contact_reach_inv [OF assms] have "status c \<noteq> Sending"
    by (simp add: contact_inv_def single_flight_def)
  with True show ?thesis by (blast intro: contact_trace.nil)
next
  case False
  with contact_reach_inv [OF assms] have one: "length (pending c) = 1"
    by (simp add: contact_inv_def single_flight_def le_Suc_eq)
  then have s: "contact_step c (Send_Resolve 0) (send_fulfilled 0 c)"
    by (intro contact_step.send_resolve) simp
  then have t: "contact_trace c [Send_Resolve 0] (send_fulfilled 0 c)"
    by (rule contact_trace.cons) (rule contact_trace.nil)
  have "pending (send_fulfilled 0 c) = []"
    using one by (cases "pending c") (auto simp: handler_simps remove_nth_def)
  moreover have "status (send_fulfilled 0 c) \<noteq> Sending" "sent (send_fulfilled 0 c) = sent c"
    by (simp_all add: handler_simps)
  ultimately show ?thesis using t by blast
qed

lemma contact_trace_append:
  "contact_trace a xs b \<Longrightarrow> contact_trace b ys c \<Longrightarrow> contact_trace a (xs @ ys) c"
  by (induction rule: contact_trace.induct) (auto intro: contact_trace.cons)

section \<open>Properties\<close>

text \<open>
  C1. At most one send is outstanding in every reachable state, and the status is
  \<open>"sending"\<close> exactly while one is: the disabled submit button is what keeps a
  second request from being issued before the first settles.
\<close>

theorem single_flight_reachable:
  assumes "contact_reach s"
  shows "length (pending s) \<le> 1 \<and> (status s = Sending \<longleftrightarrow> pending s \<noteq> [])"
  using contact_reach_inv [OF assms] by (simp add: contact_inv_def single_flight_def)

theorem single_flight_reachable_witness:
  "\<exists>s. contact_run contact_init (sample_fill @ [Form_Submit]) = Some s \<and> pending s \<noteq> [] \<and>
       length (pending s) \<le> 1 \<and> (status s = Sending \<longleftrightarrow> pending s \<noteq> [])"
proof -
  have "contact_run contact_init (sample_fill @ [Form_Submit]) \<noteq> None"
    by (simp add: contact_eval)
  then obtain s where run: "contact_run contact_init (sample_fill @ [Form_Submit]) = Some s"
    by blast
  then have "pending s \<noteq> []" by (auto simp: contact_eval)
  with run single_flight_reachable [OF contact_run_reach [OF run]] show ?thesis by blast
qed

text \<open>
  C2. Submitting before the EmailJS script has loaded sets the status to
  \<open>"error"\<close> and makes no network call: no request is sent or pending, and the
  form keeps its contents.
\<close>

theorem submit_unloaded_error:
  assumes "contact_step s Form_Submit s'" and "\<not> emailJsLoaded s"
  shows "status s' = Error \<and> sent s' = sent s \<and> pending s' = pending s \<and> formData s' = formData s"
  using assms by (auto elim: contact_step_FormE simp: handler_simps)

theorem submit_unloaded_error_witness:
  "\<exists>s'. contact_step (contact_init\<lparr>formData := [''name'' \<mapsto> ''A'', ''email'' \<mapsto> ''a@b'',
      ''subject'' \<mapsto> ''S'', ''message'' \<mapsto> ''M'']\<rparr>) Form_Submit s' \<and> status s' = Error \<and> sent s' = []"
proof -
  let ?s = "contact_init\<lparr>formData := [''name'' \<mapsto> ''A'', ''email'' \<mapsto> ''a@b'',
      ''subject'' \<mapsto> ''S'', ''message'' \<mapsto> ''M'']\<rparr>"
  have step: "contact_step ?s Form_Submit (handleSubmit ?s)"
    by (rule contact_step.form_submit) (simp_all add: contact_eval)
  have "\<not> emailJsLoaded ?s" by (simp add: contact_init_def)
  with submit_unloaded_error [OF step]
  have "status (handleSubmit ?s) = Error \<and> sent (handleSubmit ?s) = []"
    by (simp add: contact_init_def)
  with step show ?thesis by blast
qed

text \<open>
  C3. When a send is fulfilled the status becomes \<open>"success"\<close> and all four form
  fields are cleared to the empty string, whatever the visitor typed meanwhile.
\<close>

theorem resolve_clears_form:
  assumes "contact_step s (Send_Resolve i) s'"
  shows "status s' = Success \<and> dom (formData s') = set form_inputs \<and>
         (\<forall>k \<in> set form_inputs. formData s' k = Some '''')"
  using assms by (rule contact_step_ResolveE) (simp add: handler_simps)

theorem resolve_clears_form_witness:
  "\<exists>s s'. contact_run contact_init (sample_fill @ [Form_Submit]) = Some s \<and>
          contact_step s (Send_Resolve 0) s' \<and> status s' = Success \<and>
          (\<forall>k \<in> set form_inputs. formData s' k = Some '''')"
proof -
  have "contact_run contact_init (sample_fill @ [Form_Submit]) \<noteq> None"
    by (simp add: contact_eval)
  then obtain s where run: "contact_run contact_init (sample_fill @ [Form_Submit]) = Some s"
    by blast
  then have "0 < length (pending s)" by (auto simp: contact_eval)
  then have step: "contact_step s (Send_Resolve 0) (send_fulfilled 0 s)"
    by (rule contact_step.send_resolve)
  with run resolve_clears_form [OF step] show ?thesis by blast
qed

text \<open>
  C4. When a send is rejected the status becomes \<open>"error"\<close> and the form keeps
  every field as it was, so the visitor can retry.
\<close>

theorem reject_keeps_form:
  assumes "contact_step s (Send_Reject i) s'"
  shows "status s' = Error \<and> formData s' = formData s \<and> length (pending s') = length (pending s) - 1"
  using assms by (auto elim: contact_step_RejectE simp: handler_simps)

theorem reject_keeps_form_witness:
  "\<exists>s s'. contact_run contact_init (sample_fill @ [Form_Submit]) = Some s \<and>
          contact_step s (Send_Reject 0) s' \<and> status s' = Error \<and> formData s' = formData s"
proof -
  have "contact_run contact_init (sample_fill @ [Form_Submit]) \<noteq> None"
    by (simp add: contact_eval)
  then obtain s where run: "contact_run contact_init (sample_fill @ [Form_Submit]) = Some s"
    by blast
  then have "0 < length (pending s)" by (auto simp: contact_eval)
  then have step: "contact_step s (Send_Reject 0) (send_rejected 0 s)"
    by (rule contact_step.send_reject)
  with run reject_keeps_form [OF step] show ?thesis by blast
qed

text \<open>
  C5. Submitting once the script has loaded sets the status to \<open>"sending"\<close> and
  issues exactly one request: the current form contents with the hard-coded service,
  template and public-key identifiers; the form itself is not touched.
\<close>

theorem submit_loaded_sends:
  assumes "contact_step s Form_Submit s'" and "emailJsLoaded s"
  shows "status s' = Sending \<and> formData s' = formData s \<and>
         sent s' = sent s @ [\<lparr>service_id = ''service_hj82tib'', template_id = ''template_zr0el5e'',
                 template_params = formData s, public_key = ''pOYADk-qDd95pCXyI''\<rparr>] \<and>
         pending s' = pending s @ [\<lparr>service_id = ''service_hj82tib'', template_id = ''template_zr0el5e'',
                 template_params = formData s, public_key = ''pOYADk-qDd95pCXyI''\<rparr>]"
  using assms
  by (auto elim: contact_step_FormE simp: handler_simps Let_def serviceId_def templateId_def
      publicKey_def)

theorem submit_loaded_sends_witness:
  "\<exists>s s'. contact_run contact_init sample_fill = Some s \<and> contact_step s Form_Submit s' \<and>
          status s' = Sending \<and> length (sent s') = 1 \<and>
          template_params (hd (sent s')) ''email'' = Some ''ann@example.org''"
proof -
  have "contact_run contact_init sample_fill \<noteq> None" by (simp add: contact_eval)
  then obtain s where run: "contact_run contact_init sample_fill = Some s" by blast
  from run have en: "\<not> submit_disabled s" "form_valid (formData s)" and ld: "emailJsLoaded s"
    and fd: "formData s ''email'' = Some ''ann@example.org''" and none: "sent s = []"
    by (auto simp: contact_eval)
  from en have step: "contact_step s Form_Submit (handleSubmit s)"
    by (rule contact_step.form_submit)
  from submit_loaded_sends [OF step ld] none fd
  have "status (handleSubmit s) = Sending \<and> length (sent (handleSubmit s)) = 1 \<and>
        template_params (hd (sent (handleSubmit s))) ''email'' = Some ''ann@example.org''"
    by simp
  with run step show ?thesis by blast
qed

text \<open>
  C6. Every request the page ever sends carries the three fixed identifiers and a
  payload with exactly the fields name, email, subject and message, none of them
  empty: the \<open>required\<close> attributes keep empty fields from being sent.
\<close>

theorem sent_requests_complete:
  assumes "contact_reach s" and "r \<in> set (sent s)"
  shows "service_id r = ''service_hj82tib'' \<and> template_id r = ''template_zr0el5e'' \<and>
         public_key r = ''pOYADk-qDd95pCXyI'' \<and>
         dom (template_params r) = {''name'', ''email'', ''subject'', ''message''} \<and>
         (\<forall>k \<in> dom (template_params r). template_params r k \<noteq> Some '''')"
proof -
  from assms have ok: "request_ok r" by (rule reach_request_ok)
  then have dom: "dom (template_params r) = set form_inputs"
    by (simp add: request_ok_def form_shape_def)
  from ok have "form_valid (template_params r)" by (simp add: request_ok_def)
  then have "\<forall>k \<in> dom (template_params r). template_params r k \<noteq> Some ''''"
    using dom form_valid_fields by fastforce
  moreover have "set form_inputs = {''name'', ''email'', ''subject'', ''message''}"
    by (simp add: form_inputs_def)
  ultimately show ?thesis using ok dom
    by (simp add: request_ok_def serviceId_def templateId_def publicKey_def)
qed

theorem sent_requests_complete_witness:
  "\<exists>s. contact_run contact_init (sample_fill @ [Form_Submit]) = Some s \<and>
       hd (sent s) \<in> set (sent s) \<and> service_id (hd (sent s)) = ''service_hj82tib'' \<and>
       dom (template_params (hd (sent s))) = {''name'', ''email'', ''subject'', ''message''}"
proof -
  obtain s where run: "contact_run contact_init (sample_fill @ [Form_Submit]) = Some s"
    and reach: "contact_reach s"
    using sample_submitted by blast
  from run have "sent s \<noteq> []" by (auto simp: contact_eval)
  then have mem: "hd (sent s) \<in> set (sent s)" by simp
  note c = sent_requests_complete [OF reach mem]
  have "service_id (hd (sent s)) = ''service_hj82tib''" using c by (simp only:)
  moreover have "dom (template_params (hd (sent s))) = {''name'', ''email'', ''subject'', ''message''}"
    using c by (simp only:)
  ultimately show ?thesis using run mem by (intro exI [of _ s] conjI)
qed

text \<open>
  C7. In every reachable state \<open>formData\<close> has exactly the four fields of the form:
  \<open>handleChange\<close> is only ever called with one of the inputs' names.
\<close>

theorem form_shape_reachable:
  assumes "contact_reach s"
  shows "dom (formData s) = {''name'', ''email'', ''subject'', ''message''}"
  using contact_reach_inv [OF assms] by (simp add: contact_inv_def form_shape_def form_inputs_def)

theorem form_shape_reachable_witness:
  "\<exists>s. contact_run contact_init (sample_fill @ [Form_Submit]) = Some s \<and>
       dom (formData s) = {''name'', ''email'', ''subject'', ''message''}"
proof -
  obtain s where run: "contact_run contact_init (sample_fill @ [Form_Submit]) = Some s"
    and reach: "contact_reach s"
    using sample_submitted by blast
  with form_shape_reachable [OF reach] show ?thesis by blast
qed

text \<open>
  C8. While a send is outstanding no event issues another request: the submit
  button is disabled exactly then, so neither a click nor Enter reaches
  \<open>handleSubmit\<close>.
\<close>

theorem no_request_while_pending:
  assumes "contact_reach s" and "pending s \<noteq> []" and "contact_step s e s'"
  shows "sent s' = sent s"
proof (rule ccontr)
  assume "sent s' \<noteq> sent s"
  with assms(3) have "\<not> submit_disabled s" by (blast dest: step_sends_only_on_submit)
  moreover from assms(1,2) have "status s = Sending" by (blast dest: reach_pending_sending)
  ultimately show False by (simp add: submit_disabled_def)
qed

theorem no_request_while_pending_witness:
  "\<exists>s s'. contact_run contact_init (sample_fill @ [Form_Submit]) = Some s \<and> pending s \<noteq> [] \<and>
          contact_step s (Input_Change ''message'' ''more'') s' \<and> sent s' = sent s"
proof -
  obtain s where run: "contact_run contact_init (sample_fill @ [Form_Submit]) = Some s"
    and reach: "contact_reach s" and ne: "pending s \<noteq> []"
    using sample_submitted by blast
  have step: "contact_step s (Input_Change ''message'' ''more'')
      (handleChange ''message'' (control_value (control_of ''message'') ''more'') s)"
    by (rule contact_step.input_change) (simp add: form_inputs_def)
  from no_request_while_pending [OF reach ne step] run ne step show ?thesis by blast
qed

text \<open>
  C9. An outstanding send can always settle either way, and after it settles the
  submit button is enabled again: the form never stays blocked in
  \<open>"sending"\<close> once the promise settles.
\<close>

theorem pending_send_settles:
  assumes "contact_reach s" and "pending s \<noteq> []"
  shows "(\<exists>s'. contact_step s (Send_Resolve 0) s' \<and> status s' = Success \<and> pending s' = [] \<and>
              \<not> submit_disabled s') \<and>
         (\<exists>s'. contact_step s (Send_Reject 0) s' \<and> status s' = Error \<and> pending s' = [] \<and>
              \<not> submit_disabled s')"
proof -
  from assms have one: "length (pending s) = 1" by (blast dest: reach_pending_sending)
  then have i: "0 < length (pending s)" by simp
  have "contact_step s (Send_Resolve 0) (send_fulfilled 0 s)"
    using i by (rule contact_step.send_resolve)
  moreover have "contact_step s (Send_Reject 0) (send_rejected 0 s)"
    using i by (rule contact_step.send_reject)
  moreover have "remove_nth 0 (pending s) = []"
    using one by (cases "pending s") (auto simp: remove_nth_def)
  ultimately show ?thesis by (auto simp: handler_simps submit_disabled_def)
qed

theorem pending_send_settles_witness:
  "\<exists>s. contact_run contact_init (sample_fill @ [Form_Submit]) = Some s \<and> pending s \<noteq> [] \<and>
       (\<exists>s'. contact_step s (Send_Resolve 0) s' \<and> status s' = Success \<and> pending s' = [] \<and>
            \<not> submit_disabled s')"
proof -
  obtain s where run: "contact_run contact_init (sample_fill @ [Form_Submit]) = Some s"
    and reach: "contact_reach s" and ne: "pending s \<noteq> []"
    using sample_submitted by blast
  from pending_send_settles [OF reach ne] run ne show ?thesis by blast
qed

text \<open>
  C10. Once the form has been submitted the status is never \<open>""\<close> (idle) again:
  no handler resets it, editing a field included.
\<close>

theorem never_idle_after_submit:
  assumes "contact_trace s es s'" and "Form_Submit \<in> set es"
  shows "status s' \<noteq> Idle"
  using trace_not_idle [OF assms(1)] assms(2) by blast

theorem never_idle_after_submit_witness:
  "\<exists>s'. contact_trace contact_init (sample_fill @ [Form_Submit, Send_Resolve 0,
          Input_Change ''name'' ''Bo'']) s' \<and>
        Form_Submit \<in> set (sample_fill @ [Form_Submit, Send_Resolve 0, Input_Change ''name'' ''Bo'']) \<and>
        status s' \<noteq> Idle"
proof -
  let ?es = "sample_fill @ [Form_Submit, Send_Resolve 0, Input_Change ''name'' ''Bo'']"
  have "contact_run contact_init ?es \<noteq> None" by (simp add: contact_eval)
  then obtain s' where "contact_run contact_init ?es = Some s'" by blast
  then have tr: "contact_trace contact_init ?es s'" by (simp add: contact_run_trace)
  have mem: "Form_Submit \<in> set ?es" by simp
  from never_idle_after_submit [OF tr mem] tr mem show ?thesis by blast
qed



text \<open>
  C12. The contact form implements its contract: every run of the page's handlers
  from the initial state, read through the abstraction \<open>abs_contact\<close>, is a run
  of the specification's machine \<open>spec_step\<close> on the corresponding events (edit,
  submit, fulfilment, rejection, client loaded).
\<close>

theorem contact_refines_spec:
  assumes "contact_trace contact_init es s"
  shows "list_all (\<lambda>e. abs_event e \<noteq> None) es \<and>
         spec_trace spec_init (map (\<lambda>e. the (abs_event e)) es) (abs_contact s)"
  using contact_trace_refines [OF assms contact_inv_init] by (simp add: abs_contact_init)

theorem contact_refines_spec_witness:
  "\<exists>s. contact_trace contact_init (sample_fill @ [Form_Submit, Send_Reject 0]) s \<and>
       spec_trace spec_init (map (\<lambda>e. the (abs_event e)) (sample_fill @ [Form_Submit, Send_Reject 0]))
         (abs_contact s) \<and> sp_status (abs_contact s) = Sub_Error"
proof -
  let ?es = "sample_fill @ [Form_Submit, Send_Reject 0]"
  have "contact_run contact_init ?es \<noteq> None" by (simp add: contact_eval)
  then obtain s where run: "contact_run contact_init ?es = Some s" by blast
  then have tr: "contact_trace contact_init ?es s" by (simp add: contact_run_trace)
  from run have "status s = Error" by (auto simp: contact_eval)
  then have "sp_status (abs_contact s) = Sub_Error" by (simp add: abs_contact_def)
  with tr contact_refines_spec [OF tr] show ?thesis by blast
qed

end
