(* ===== verification/Cert_Modal.thy ===== *)
theory Cert_Modal
  imports Prelude
begin

text \<open>
  The certification gallery and its lightbox (\<open>src/app/page.tsx\<close>): the state
  slots \<open>modalOpen\<close>, \<open>modalImageSrc\<close> and \<open>modalImageAlt\<close> (lines 40--42),
  \<open>openModal\<close> and \<open>closeModal\<close> (lines 44--58), the four certificate cards whose
  \<open>onClick\<close> opens the modal (lines 809--959), and the modal's markup (lines
  1088--1107): a backdrop \<open>div\<close> and a close button, both with
  \<open>onClick={closeModal}\<close>, around a frame holding the image.

  A click is dispatched as the DOM does: the event bubbles from its target through
  the ancestors (\<open>bubble_path\<close>), and each element with a handler runs it with
  \<open>currentTarget\<close> set to itself. \<open>closeModal\<close> acts only when the target is the
  element whose handler runs (\<open>e.target === e.currentTarget\<close>), so a click on the
  image or the frame bubbles to the backdrop and does nothing there. React batches
  the state updates of one event; \<open>closeModal\<close> only writes constants, so running
  the handlers one after the other gives the batched result.
\<close>

section \<open>State and handlers\<close>

record modal_state =
  modalOpen :: bool
  modalImageSrc :: string
  modalImageAlt :: string

definition modal_init :: modal_state where
  "modal_init = \<lparr>modalOpen = False, modalImageSrc = '''', modalImageAlt = ''''\<rparr>"

definition openModal :: "string \<Rightarrow> string \<Rightarrow> modal_state \<Rightarrow> modal_state" where
  "openModal src alt m = m\<lparr>modalImageSrc := src, modalImageAlt := alt, modalOpen := True\<rparr>"

text \<open>The elements of the modal, innermost last.\<close>

datatype modal_elem = Backdrop | Frame | Modal_Img | Close_Button

definition closeModal :: "modal_elem \<Rightarrow> modal_elem \<Rightarrow> modal_state \<Rightarrow> modal_state" where
  "closeModal target currentTarget m =
     (if target = currentTarget
      then m\<lparr>modalOpen := False, modalImageSrc := '''', modalImageAlt := ''''\<rparr>
      else m)"

declare openModal_def [handler_simps] closeModal_def [handler_simps]

section \<open>The modal's DOM and click dispatch\<close>

fun modal_parent :: "modal_elem \<Rightarrow> modal_elem option" where
  "modal_parent Backdrop = None"
| "modal_parent Frame = Some Backdrop"
| "modal_parent Modal_Img = Some Frame"
| "modal_parent Close_Button = Some Frame"

text \<open>Which elements carry \<open>onClick={closeModal}\<close>.\<close>

fun has_close_handler :: "modal_elem \<Rightarrow> bool" where
  "has_close_handler Backdrop = True"
| "has_close_handler Close_Button = True"
| "has_close_handler _ = False"

fun elem_depth :: "modal_elem \<Rightarrow> nat" where
  "elem_depth Backdrop = 0"
| "elem_depth Frame = 1"
| "elem_depth Modal_Img = 2"
| "elem_depth Close_Button = 2"

text \<open>The propagation path of a click: the target, then its ancestors up to the backdrop.\<close>

function bubble_path :: "modal_elem \<Rightarrow> modal_elem list" where
  "bubble_path e = e # (case modal_parent e of None \<Rightarrow> [] | Some p \<Rightarrow> bubble_path p)"
  by pat_completeness auto
termination
proof (relation "measure elem_depth")
  show "wf (measure elem_depth)" by simp
next
  fix e p
  assume "modal_parent e = Some p"
  then show "(p, e) \<in> measure elem_depth" by (cases e) auto
qed

fun run_handlers :: "modal_elem \<Rightarrow> modal_elem list \<Rightarrow> modal_state \<Rightarrow> modal_state" where
  "run_handlers t [] m = m"
| "run_handlers t (c # cs) m =
     run_handlers t cs (if has_close_handler c then closeModal t c m else m)"

definition modal_click :: "modal_elem \<Rightarrow> modal_state \<Rightarrow> modal_state" where
  "modal_click t m = run_handlers t (bubble_path t) m"

section \<open>The certificate cards\<close>

text \<open>
  Each card shows an image and three lines of text, has a placeholder shown when
  the image fails to load, and opens the modal with the two arguments of its
  \<open>openModal\<close> call.
\<close>

record cert_card =
  card_img_src :: string
  card_img_alt :: string
  card_fallback :: string
  card_title :: string
  card_issuer :: string
  card_note :: string
  card_open_src :: string
  card_open_alt :: string

definition cert_cards :: "cert_card list" where
  "cert_cards =
    [\<lparr>card_img_src = ''/aws-cloud-practitioner.jpg'',
      card_img_alt = ''IBM Certified Cloud Practitioner'',
      card_fallback = ''IBM Certificate'',
      card_title = ''IBM Certified Cloud Practitioner'',
      card_issuer = ''Amazon Web Services'',
      card_note = ''Issued: November 2024'',
      card_open_src = ''/aws-cloud-practitioner.jpg'',
      card_open_alt = ''IBM Certified Cloud Practitioner''\<rparr>,
     \<lparr>card_img_src = ''/moringa-software-engineering.jpeg'',
      card_img_alt = ''Software Engineering Certificate - Moringa School'',
      card_fallback = ''Moringa Certificate'',
      card_title = ''Software Engineering Certificate'',
      card_issuer = ''Moringa School'',
      card_note = ''Issued: August 2024'',
      card_open_src = ''/moringa-software-engineering.jpeg'',
      card_open_alt = ''Software Engineering Certificate - Moringa School''\<rparr>,
     \<lparr>card_img_src = ''/kenya-music-festival-appreciation.jpeg'',
      card_img_alt = ''Certificate of Appreciation - Kenya Music Festival'',
      card_fallback = ''Appreciation Certificate'',
      card_title = ''Certificate of Appreciation'',
      card_issuer = ''Ministry of Education - Kenya'',
      card_note = ''97th Kenya Music Festival (National Level)'',
      card_open_src = ''/kenya-music-festival-appreciation.jpeg'',
      card_open_alt = ''Certificate of Appreciation - Kenya Music Festival''\<rparr>,
     \<lparr>card_img_src = ''/kenya-music-festival-participation.jpeg'',
      card_img_alt = ''Certificate of Participation - Kenya Music Festival Conference'',
      card_fallback = ''Participation Certificate'',
      card_title = ''Certificate of Participation'',
      card_issuer = ''Kenya Music Festival'',
      card_note = ''2nd International Conference'',
      card_open_src = ''/kenya-music-festival-participation.jpeg'',
      card_open_alt = ''Certificate of Participation - Kenya Music Festival Conference''\<rparr>]"

text \<open>The card's \<open>onClick\<close>: a click anywhere inside the card bubbles to it.\<close>

definition card_click :: "cert_card \<Rightarrow> modal_state \<Rightarrow> modal_state" where
  "card_click c m = openModal (card_open_src c) (card_open_alt c) m"

section \<open>Events\<close>

text \<open>
  The modal's elements exist only while \<open>modalOpen\<close> holds (\<open>{modalOpen && ...}\<close>),
  so a click on them needs an open modal. The cards are always rendered; the fixed
  backdrop covering them while the modal is open is not modelled, which only adds
  behaviours, so the invariants below hold a fortiori.
\<close>

datatype modal_event = Card_Click nat | Modal_Click modal_elem

inductive modal_step :: "modal_state \<Rightarrow> modal_event \<Rightarrow> modal_state \<Rightarrow> bool" where
  card: "i < length cert_cards \<Longrightarrow> modal_step m (Card_Click i) (card_click (cert_cards ! i) m)"
| click: "modalOpen m \<Longrightarrow> modal_step m (Modal_Click t) (modal_click t m)"

inductive_cases modal_step_CardE: "modal_step m (Card_Click i) m'"
inductive_cases modal_step_ClickE: "modal_step m (Modal_Click t) m'"

text \<open>The same dispatch as an executable function (\<open>None\<close>: the event cannot occur).\<close>

fun modal_dispatch :: "modal_state \<Rightarrow> modal_event \<Rightarrow> modal_state option" where
  "modal_dispatch m (Card_Click i) =
     (if i < length cert_cards then Some (card_click (cert_cards ! i) m) else None)"
| "modal_dispatch m (Modal_Click t) = (if modalOpen m then Some (modal_click t m) else None)"

inductive modal_reach :: "modal_state \<Rightarrow> bool" where
  init: "modal_reach modal_init"
| step: "modal_reach m \<Longrightarrow> modal_step m e m' \<Longrightarrow> modal_reach m'"

definition modal_inv :: "modal_state \<Rightarrow> bool" where
  "modal_inv m \<longleftrightarrow>
     (if modalOpen m
      then (modalImageSrc m, modalImageAlt m) \<in> set (map (\<lambda>c. (card_img_src c, card_img_alt c)) cert_cards)
      else modalImageSrc m = '''' \<and> modalImageAlt m = '''')"

section \<open>Lemmas\<close>

lemma bubble_path_simps [simp]:
  "bubble_path Backdrop = [Backdrop]"
  "bubble_path Frame = [Frame, Backdrop]"
  "bubble_path Modal_Img = [Modal_Img, Frame, Backdrop]"
  "bubble_path Close_Button = [Close_Button, Frame, Backdrop]"
  by simp_all

declare bubble_path.simps [simp del]

lemma bubble_path_ends_at_backdrop: "last (bubble_path e) = Backdrop \<and> hd (bubble_path e) = e"
  by (cases e) simp_all

lemma closed_state_idem:
  "closeModal t c (m\<lparr>modalOpen := False, modalImageSrc := '''', modalImageAlt := ''''\<rparr>) =
   m\<lparr>modalOpen := False, modalImageSrc := '''', modalImageAlt := ''''\<rparr>"
  by (simp add: closeModal_def)

lemma modal_click_eq:
  "modal_click t m =
     (if t = Backdrop \<or> t = Close_Button
      then m\<lparr>modalOpen := False, modalImageSrc := '''', modalImageAlt := ''''\<rparr> else m)"
  by (cases t) (simp_all add: modal_click_def closeModal_def)

lemma cert_cards_open_own_image:
  "map card_open_src cert_cards = map card_img_src cert_cards \<and>
   map card_open_alt cert_cards = map card_img_alt cert_cards"
  by (simp add: cert_cards_def)

lemma modal_inv_init: "modal_inv modal_init"
  by (simp add: modal_inv_def modal_init_def)

lemma card_click_inv:
  assumes "i < length cert_cards"
  shows "modal_inv (card_click (cert_cards ! i) m)"
proof -
  from cert_cards_open_own_image have
    "card_open_src (cert_cards ! i) = card_img_src (cert_cards ! i) \<and>
     card_open_alt (cert_cards ! i) = card_img_alt (cert_cards ! i)"
    using assms by (metis nth_map)
  with assms show ?thesis
    by (auto simp: modal_inv_def card_click_def openModal_def)
qed

lemma modal_step_inv: "modal_step m e m' \<Longrightarrow> modal_inv m \<Longrightarrow> modal_inv m'"
proof (induction rule: modal_step.induct)
  case (card i m)
  from card.hyps show ?case by (rule card_click_inv)
next
  case (click m t)
  then show ?case by (auto simp: modal_click_eq modal_inv_def)
qed

lemma modal_reach_inv: "modal_reach m \<Longrightarrow> modal_inv m"
  by (induction rule: modal_reach.induct) (auto intro: modal_inv_init modal_step_inv)

lemma modal_dispatch_iff: "modal_dispatch m e = Some m' \<longleftrightarrow> modal_step m e m'"
  by (cases e) (auto elim: modal_step_CardE modal_step_ClickE intro: modal_step.intros)

lemma modal_step_click_eq:
  "modal_step m (Modal_Click t) m' \<longleftrightarrow> modalOpen m \<and> m' = modal_click t m"
  by (auto elim: modal_step_ClickE intro: modal_step.click)

section \<open>Properties\<close>

text \<open>
  C13. Once the lightbox is open with \<open>(src, alt)\<close>, a click on the backdrop or on
  the close button closes it and clears all three fields, while a click on the
  image or on the frame around it leaves the modal as it is, although that click
  bubbles up to the backdrop's handler.
\<close>

theorem modal_close_targets:
  "(\<forall>m'. modal_step (openModal src alt m) (Modal_Click Backdrop) m' \<longrightarrow>
          \<not> modalOpen m' \<and> modalImageSrc m' = '''' \<and> modalImageAlt m' = '''') \<and>
   (\<forall>m'. modal_step (openModal src alt m) (Modal_Click Close_Button) m' \<longrightarrow>
          \<not> modalOpen m' \<and> modalImageSrc m' = '''' \<and> modalImageAlt m' = '''') \<and>
   (\<forall>m'. modal_step (openModal src alt m) (Modal_Click Modal_Img) m' \<longrightarrow>
          m' = openModal src alt m) \<and>
   (\<forall>m'. modal_step (openModal src alt m) (Modal_Click Frame) m' \<longrightarrow>
          m' = openModal src alt m)"
  by (simp add: modal_step_click_eq modal_click_eq)

theorem modal_close_targets_witness:
  "modal_step (openModal ''/a.jpg'' ''A'' modal_init) (Modal_Click Backdrop) modal_init \<and>
   modal_step (openModal ''/a.jpg'' ''A'' modal_init) (Modal_Click Modal_Img)
     (openModal ''/a.jpg'' ''A'' modal_init) \<and>
   \<not> modalOpen modal_init \<and> modalImageSrc modal_init = '''' \<and> modalImageAlt modal_init = ''''"
proof -
  have open_: "modalOpen (openModal ''/a.jpg'' ''A'' modal_init)" by (simp add: openModal_def)
  have "modal_click Backdrop (openModal ''/a.jpg'' ''A'' modal_init) = modal_init"
    by (simp add: modal_click_eq openModal_def modal_init_def)
  then have b: "modal_step (openModal ''/a.jpg'' ''A'' modal_init) (Modal_Click Backdrop) modal_init"
    using modal_step.click [OF open_, of Backdrop] by simp
  have "modal_click Modal_Img (openModal ''/a.jpg'' ''A'' modal_init) = openModal ''/a.jpg'' ''A'' modal_init"
    by (simp add: modal_click_eq)
  then have i: "modal_step (openModal ''/a.jpg'' ''A'' modal_init) (Modal_Click Modal_Img)
      (openModal ''/a.jpg'' ''A'' modal_init)"
    using modal_step.click [OF open_, of Modal_Img] by simp
  from modal_close_targets [of "''/a.jpg''" "''A''" modal_init] b i show ?thesis by blast
qed

text \<open>
  C14. In every reachable state the modal's fields are cleared whenever it is
  closed, and whenever it is open they hold the image and caption of one of the
  four certificate cards.
\<close>

theorem modal_fields_reachable:
  assumes "modal_reach m"
  shows "(\<not> modalOpen m \<longrightarrow> modalImageSrc m = '''' \<and> modalImageAlt m = '''') \<and>
         (modalOpen m \<longrightarrow> (\<exists>c \<in> set cert_cards.
             modalImageSrc m = card_img_src c \<and> modalImageAlt m = card_img_alt c))"
  using modal_reach_inv [OF assms] by (auto simp: modal_inv_def)

theorem modal_fields_reachable_witness:
  "modal_reach (card_click (cert_cards ! 1) modal_init) \<and>
   modalOpen (card_click (cert_cards ! 1) modal_init) \<and>
   (\<exists>c \<in> set cert_cards. modalImageSrc (card_click (cert_cards ! 1) modal_init) = card_img_src c \<and>
      modalImageAlt (card_click (cert_cards ! 1) modal_init) = card_img_alt c)"
proof -
  have "modal_step modal_init (Card_Click 1) (card_click (cert_cards ! 1) modal_init)"
    by (rule modal_step.card) (simp add: cert_cards_def)
  then have r: "modal_reach (card_click (cert_cards ! 1) modal_init)"
    by (rule modal_reach.step [OF modal_reach.init])
  have o: "modalOpen (card_click (cert_cards ! 1) modal_init)"
    by (simp add: card_click_def openModal_def)
  from modal_fields_reachable [OF r] r o show ?thesis by blast
qed

text \<open>
  C15. Clicking a certificate card opens the lightbox on that card's own image and
  caption: the arguments of each card's \<open>openModal\<close> call are the \<open>src\<close> and
  \<open>alt\<close> of the image the card shows.
\<close>

theorem card_opens_own_image:
  assumes "modal_step m (Card_Click i) m'"
  shows "modalOpen m' \<and> i < length cert_cards \<and>
         modalImageSrc m' = card_img_src (cert_cards ! i) \<and>
         modalImageAlt m' = card_img_alt (cert_cards ! i)"
proof -
  from assms have i: "i < length cert_cards" and m': "m' = card_click (cert_cards ! i) m"
    by (auto elim: modal_step_CardE)
  from cert_cards_open_own_image i have
    "card_open_src (cert_cards ! i) = card_img_src (cert_cards ! i) \<and>
     card_open_alt (cert_cards ! i) = card_img_alt (cert_cards ! i)"
    by (metis nth_map)
  with i m' show ?thesis by (simp add: card_click_def openModal_def)
qed

theorem card_opens_own_image_witness:
  "modal_step modal_init (Card_Click 3) (card_click (cert_cards ! 3) modal_init) \<and>
   modalImageSrc (card_click (cert_cards ! 3) modal_init) = ''/kenya-music-festival-participation.jpeg''"
proof -
  have s: "modal_step modal_init (Card_Click 3) (card_click (cert_cards ! 3) modal_init)"
    by (rule modal_step.card) (simp add: cert_cards_def)
  from card_opens_own_image [OF s] s show ?thesis by (simp add: cert_cards_def)
qed

end
