(* ===== verification/Work_Process.thy ===== *)
theory Work_Process
  imports Prelude
begin

text \<open>
  The "My Work Process" section of \<open>src/app/page.tsx\<close>: the state slot
  \<open>activeStep\<close> (line 34, initially 1), the seven clickable step tabs built from
  a list of labels (lines 409--437, \<open>onClick={() => setActiveStep(index + 1)}\<close>,
  highlighted when \<open>activeStep === index + 1\<close>), and \<open>renderTerminalOutput\<close>
  (lines 108--170), which reads \<open>steps[activeStep - 1]\<close> from a second, separate
  list of seven records and prints its title after \<open>"$ "\<close> and its output
  lines. An out-of-range read gives \<open>undefined\<close> and \<open>step.title\<close> then throws a
  \<open>TypeError\<close>, the error branch of \<open>renderTerminalOutput\<close>. The emoji that
  open the output lines are written as their UTF-8 bytes.
\<close>

section \<open>Data\<close>

record work_step =
  step_title :: string
  step_output :: "string list"

definition steps :: "work_step list" where
  "steps =
    [\<lparr>step_title = ''Initial Consultation'',
      step_output =
        [[CHR 0xF0, CHR 0x9F, CHR 0x91, CHR 0x8B] @
           '' Welcome! Let's discuss your project goals, requirements, and vision.'',
         [CHR 0xE2, CHR 0x9C, CHR 0x94, CHR 0xEF, CHR 0xB8, CHR 0x8F] @
           '' Understanding your needs and expectations.'']\<rparr>,
     \<lparr>step_title = ''Prototyping & Design'',
      step_output =
        [[CHR 0xF0, CHR 0x9F, CHR 0x93, CHR 0x9D] @ '' Creating wireframes and design prototypes.'',
         [CHR 0xF0, CHR 0x9F, CHR 0x8E, CHR 0xA8] @ '' Collaborating on UI/UX decisions.'']\<rparr>,
     \<lparr>step_title = ''Development'',
      step_output =
        [[CHR 0xF0, CHR 0x9F, CHR 0x92, CHR 0xBB] @
           '' Coding the application using chosen technologies.'',
         [CHR 0xF0, CHR 0x9F, CHR 0x94, CHR 0x84] @ '' Regular updates and feedback loops.'']\<rparr>,
     \<lparr>step_title = ''Testing & Quality Assurance'',
      step_output =
        [[CHR 0xF0, CHR 0x9F, CHR 0xA7, CHR 0xAA] @
           '' Running tests to ensure reliability and performance.'',
         [CHR 0xE2, CHR 0x9C, CHR 0x85] @ '' Fixing bugs and polishing features.'']\<rparr>,
     \<lparr>step_title = ''Deployment'',
      step_output =
        [[CHR 0xF0, CHR 0x9F, CHR 0x9A, CHR 0x80] @ '' Deploying the application to production.'',
         [CHR 0xF0, CHR 0x9F, CHR 0x8C, CHR 0x90] @ '' Setting up hosting and domain.'']\<rparr>,
     \<lparr>step_title = ''Review & Finalization'',
      step_output =
        [[CHR 0xF0, CHR 0x9F, CHR 0x94, CHR 0x8D] @ '' Final review and walkthrough.'',
         [CHR 0xF0, CHR 0x9F, CHR 0x93, CHR 0xA6] @ '' Delivering the finished product.'']\<rparr>,
     \<lparr>step_title = ''Ongoing Support'',
      step_output =
        [[CHR 0xF0, CHR 0x9F, CHR 0x94, CHR 0xA7] @ '' Providing maintenance and support.'',
         [CHR 0xF0, CHR 0x9F, CHR 0x93, CHR 0x88] @
           '' Helping with future updates and improvements.'']\<rparr>]"

definition tab_labels :: "string list" where
  "tab_labels = [''Initial Consultation'', ''Prototyping & Design'', ''Development'',
     ''Testing & Quality Assurance'', ''Deployment'', ''Review & Finalization'', ''Ongoing Support'']"

definition activeStep_init :: int where
  "activeStep_init = 1"

section \<open>Handlers and rendering\<close>

text \<open>The tab with array index \<open>index\<close>: \<open>setActiveStep(index + 1)\<close>.\<close>

definition tab_click :: "nat \<Rightarrow> int" where
  "tab_click index = int index + 1"

definition tab_highlighted :: "int \<Rightarrow> nat \<Rightarrow> bool" where
  "tab_highlighted activeStep index \<longleftrightarrow> activeStep = int index + 1"

datatype render_error = TypeError

definition renderTerminalOutput :: "int \<Rightarrow> render_error + string list" where
  "renderTerminalOutput activeStep =
     (case js_index steps (activeStep - 1) of
        None \<Rightarrow> Inl TypeError
      | Some step \<Rightarrow> Inr ((''$ '' @ step_title step) # step_output step))"

text \<open>The tabs as rendered: number, label and whether each is highlighted.\<close>

definition render_tabs :: "int \<Rightarrow> (int \<times> string \<times> bool) list" where
  "render_tabs activeStep =
     map (\<lambda>(index, label). (int index + 1, label, tab_highlighted activeStep index))
       (enumerate 0 tab_labels)"

inductive step_reach :: "int \<Rightarrow> bool" where
  init: "step_reach activeStep_init"
| click: "step_reach a \<Longrightarrow> index < length tab_labels \<Longrightarrow> step_reach (tab_click index)"

section \<open>Lemmas\<close>

lemma length_steps [simp]: "length steps = 7"
  by (simp add: steps_def)

lemma length_tab_labels [simp]: "length tab_labels = 7"
  by (simp add: tab_labels_def)

lemma tab_labels_titles: "map step_title steps = tab_labels"
  by (simp add: steps_def tab_labels_def)

lemma steps_distinct: "distinct steps"
  by (simp add: steps_def)

lemma step_reach_range: "step_reach a \<Longrightarrow> 1 \<le> a \<and> a \<le> 7"
  by (induction rule: step_reach.induct) (auto simp: activeStep_init_def tab_click_def)

lemma renderTerminalOutput_in_range:
  "1 \<le> a \<Longrightarrow> a \<le> 7 \<Longrightarrow>
   renderTerminalOutput a =
     Inr ((''$ '' @ step_title (steps ! nat (a - 1))) # step_output (steps ! nat (a - 1)))"
  by (simp add: renderTerminalOutput_def js_index_def)

lemma renderTerminalOutput_tab:
  "index < 7 \<Longrightarrow>
   renderTerminalOutput (tab_click index) =
     Inr ((''$ '' @ step_title (steps ! index)) # step_output (steps ! index))"
  by (simp add: renderTerminalOutput_in_range tab_click_def)

lemma distinct_tab_labels: "distinct tab_labels"
  by (simp add: tab_labels_def)

lemma tab_label_title: "index < 7 \<Longrightarrow> step_title (steps ! index) = tab_labels ! index"
  using tab_labels_titles by (metis length_steps nth_map)

section \<open>Properties\<close>

text \<open>
  C16. \<open>renderTerminalOutput\<close> never throws in a reachable state: the tabs only
  ever set \<open>activeStep\<close> to a value between 1 and 7, so \<open>steps[activeStep - 1]\<close>
  is always defined.
\<close>

theorem terminal_output_never_throws:
  assumes "step_reach a"
  shows "1 \<le> a \<and> a \<le> 7 \<and> (\<exists>lines. renderTerminalOutput a = Inr lines)"
  using step_reach_range [OF assms] renderTerminalOutput_in_range by blast

theorem terminal_output_never_throws_witness:
  "step_reach (tab_click 6) \<and> renderTerminalOutput (tab_click 6) \<noteq> Inl TypeError"
proof -
  have r: "step_reach (tab_click 6)"
    by (rule step_reach.click [OF step_reach.init]) simp
  from terminal_output_never_throws [OF r] r show ?thesis by auto
qed

text \<open>
  C17. Clicking the step tab with index \<open>i\<close> makes the terminal show exactly that
  step: the title printed is the label of the tab clicked, followed by that step's
  output lines, and any other tab gives a different output.
\<close>

theorem tab_click_renders_step:
  assumes "i < length tab_labels"
  shows "renderTerminalOutput (tab_click i) = Inr ((''$ '' @ tab_labels ! i) # step_output (steps ! i)) \<and>
         (\<forall>j < length tab_labels. j \<noteq> i \<longrightarrow>
            renderTerminalOutput (tab_click j) \<noteq> renderTerminalOutput (tab_click i))"
proof -
  from assms have i: "i < 7" by simp
  have "j < 7 \<Longrightarrow> j \<noteq> i \<Longrightarrow> tab_labels ! j \<noteq> tab_labels ! i" for j
    using distinct_tab_labels i by (simp add: nth_eq_iff_index_eq)
  with i show ?thesis by (simp add: renderTerminalOutput_tab tab_label_title)
qed

theorem tab_click_renders_step_witness:
  "renderTerminalOutput (tab_click 2) =
     Inr (''$ Development'' # step_output (steps ! 2)) \<and>
   renderTerminalOutput (tab_click 3) \<noteq> renderTerminalOutput (tab_click 2)"
proof -
  have i: "2 < length tab_labels" by simp
  have l: "tab_labels ! 2 = ''Development''" by (simp add: tab_labels_def)
  from tab_click_renders_step [OF i] have r: "renderTerminalOutput (tab_click 2) =
      Inr ((''$ '' @ tab_labels ! 2) # step_output (steps ! 2))"
    and d: "\<forall>j < length tab_labels. j \<noteq> 2 \<longrightarrow>
      renderTerminalOutput (tab_click j) \<noteq> renderTerminalOutput (tab_click 2)"
    by blast+
  from d have "renderTerminalOutput (tab_click 3) \<noteq> renderTerminalOutput (tab_click 2)"
    by simp
  with r l show ?thesis by simp
qed

text \<open>
  C18. In every reachable state exactly one tab is highlighted, and the terminal
  shows the step of that tab.
\<close>

theorem one_tab_highlighted:
  assumes "step_reach a"
  shows "\<exists>i < length tab_labels. {j. j < length tab_labels \<and> tab_highlighted a j} = {i} \<and>
           renderTerminalOutput a = Inr ((''$ '' @ tab_labels ! i) # step_output (steps ! i))"
proof -
  from step_reach_range [OF assms] have a: "1 \<le> a" "a \<le> 7" by simp_all
  define i where "i = nat (a - 1)"
  from a have i: "i < 7" "a = int i + 1" by (simp_all add: i_def)
  then have "{j. j < length tab_labels \<and> tab_highlighted a j} = {i}"
    by (auto simp: tab_highlighted_def)
  moreover from i have "renderTerminalOutput a = Inr ((''$ '' @ tab_labels ! i) # step_output (steps ! i))"
    using renderTerminalOutput_tab [of i] by (simp add: tab_click_def tab_label_title)
  ultimately show ?thesis using i by auto
qed

theorem one_tab_highlighted_witness:
  "step_reach activeStep_init \<and>
   renderTerminalOutput activeStep_init = Inr ((''$ '' @ tab_labels ! 0) # step_output (steps ! 0))"
proof -
  from one_tab_highlighted [OF step_reach.init] obtain i where
    i: "{j. j < length tab_labels \<and> tab_highlighted activeStep_init j} = {i}"
    and r: "renderTerminalOutput activeStep_init = Inr ((''$ '' @ tab_labels ! i) # step_output (steps ! i))"
    by blast
  have "0 \<in> {j. j < length tab_labels \<and> tab_highlighted activeStep_init j}"
    by (simp add: tab_highlighted_def activeStep_init_def)
  with i have "i = 0" by simp
  with r step_reach.init show ?thesis by simp
qed

text \<open>
  C19. \<open>renderTerminalOutput\<close> throws exactly when \<open>activeStep\<close> is outside
  1..7: \<open>steps[activeStep - 1]\<close> is then \<open>undefined\<close> and reading its title raises.
\<close>

theorem terminal_output_error_iff:
  "renderTerminalOutput a = Inl TypeError \<longleftrightarrow> a < 1 \<or> 7 < a"
  by (auto simp: renderTerminalOutput_def js_index_def split: option.splits)

end
