(* ===== verification/Nav_Menu.thy ===== *)
theory Nav_Menu
  imports Prelude
begin

text \<open>
  The fixed navigation bar of \<open>src/app/page.tsx\<close> (lines 174--248): seven in-page
  links shown in a row on wide screens (\<open>hidden md:flex\<close>, lines 180--208), a
  hamburger button shown on narrow screens (\<open>md:hidden\<close>) that toggles the state
  slot \<open>menuOpen\<close> (line 37, \<open>onClick={() => setMenuOpen(!menuOpen)}\<close>, line
  213) and whose icon shows the current state, and the dropdown with its own copy of
  the seven links, rendered only while \<open>menuOpen\<close> holds (lines 220--247). The
  links point at the \<open>id\<close> attributes of the page's sections.
\<close>

section \<open>Data\<close>

record nav_link =
  link_href :: string
  link_label :: string

definition desktop_links :: "nav_link list" where
  "desktop_links =
    [\<lparr>link_href = ''#about'', link_label = ''About Me''\<rparr>,
     \<lparr>link_href = ''#services'', link_label = ''Services''\<rparr>,
     \<lparr>link_href = ''#skills'', link_label = ''Skills & Technologies''\<rparr>,
     \<lparr>link_href = ''#experience'', link_label = ''Experience''\<rparr>,
     \<lparr>link_href = ''#projects'', link_label = ''Projects''\<rparr>,
     \<lparr>link_href = ''#certifications'', link_label = ''Certifications''\<rparr>,
     \<lparr>link_href = ''#contact'', link_label = ''Contact''\<rparr>]"

definition mobile_links :: "nav_link list" where
  "mobile_links =
    [\<lparr>link_href = ''#about'', link_label = ''About Me''\<rparr>,
     \<lparr>link_href = ''#services'', link_label = ''Services''\<rparr>,
     \<lparr>link_href = ''#skills'', link_label = ''Skills & Technologies''\<rparr>,
     \<lparr>link_href = ''#experience'', link_label = ''Experience''\<rparr>,
     \<lparr>link_href = ''#projects'', link_label = ''Projects''\<rparr>,
     \<lparr>link_href = ''#certifications'', link_label = ''Certifications''\<rparr>,
     \<lparr>link_href = ''#contact'', link_label = ''Contact''\<rparr>]"

text \<open>The \<open>id\<close> attributes of the page's sections, in page order.\<close>

definition page_sections :: "string list" where
  "page_sections = [''about'', ''services'', ''work-process'', ''skills'', ''experience'',
     ''projects'', ''certifications'', ''contact'']"

definition menuOpen_init :: bool where
  "menuOpen_init = False"

section \<open>Handler and rendering\<close>

definition toggle_menu :: "bool \<Rightarrow> bool" where
  "toggle_menu menuOpen = (\<not> menuOpen)"

datatype icon = Icon_X | Icon_Menu

definition menu_icon :: "bool \<Rightarrow> icon" where
  "menu_icon menuOpen = (if menuOpen then Icon_X else Icon_Menu)"

text \<open>Screens below the \<open>md\<close> breakpoint are narrow.\<close>

datatype viewport = Narrow | Wide

definition visible_links :: "viewport \<Rightarrow> bool \<Rightarrow> nav_link list" where
  "visible_links vp menuOpen =
     (case vp of Wide \<Rightarrow> desktop_links | Narrow \<Rightarrow> (if menuOpen then mobile_links else []))"

text \<open>Where an in-page link leads: the section whose \<open>id\<close> follows the \<open>#\<close>.\<close>

definition link_target :: "nav_link \<Rightarrow> string option" where
  "link_target l =
     (case link_href l of
        c # sid \<Rightarrow> if c = CHR ''#'' \<and> sid \<in> set page_sections then Some sid else None
      | [] \<Rightarrow> None)"

section \<open>Lemmas\<close>

lemma toggle_menu_twice [simp]: "toggle_menu (toggle_menu m) = m"
  by (simp add: toggle_menu_def)

lemma mobile_links_eq_desktop: "mobile_links = desktop_links"
  by (simp add: mobile_links_def desktop_links_def)

text \<open>
  Every navigation link, in the wide menu and in the dropdown, leads to a
  section of the page, and the two menus offer the same seven links in the same
  order: no link is broken and the hand-copied dropdown does not drift from the row.
\<close>

lemma nav_links_resolve:
  "mobile_links = desktop_links \<and> length desktop_links = 7 \<and>
   map link_target desktop_links = map (\<lambda>l. Some (tl (link_href l))) desktop_links"
  by (simp add: mobile_links_def desktop_links_def link_target_def page_sections_def)

section \<open>Properties\<close>

text \<open>
  C21. On a narrow screen the links are reachable through the hamburger button:
  from either state, one click shows the dropdown with all seven links if it was
  hidden and hides it if it was shown, and the icon always tells which.
\<close>

theorem hamburger_toggles_links:
  "visible_links Narrow (toggle_menu m) = (if m then [] else desktop_links) \<and>
   menu_icon (toggle_menu m) = (if m then Icon_Menu else Icon_X) \<and>
   visible_links Wide (toggle_menu m) = desktop_links"
  by (simp add: visible_links_def toggle_menu_def menu_icon_def mobile_links_eq_desktop)

end
