(* ===== verification/Script_Loader.thy ===== *)
theory Script_Loader
  imports Prelude
begin

text \<open>
  The effect of \<open>src/app/page.tsx\<close> lines 60--70 that loads the EmailJS browser
  bundle: on mount it creates a \<open>script\<close> element with the CDN URL, sets its
  \<open>onload\<close> callback and appends it to \<open>document.body\<close>; the cleanup it returns
  removes that same element with \<open>document.body.removeChild(script)\<close>, which
  throws \<open>NotFoundError\<close> when the element is no longer a child of the body.

  The body is a list of nodes with identities; the effect's state is the identity of
  the script it created (the closure variable \<open>script\<close>), kept until its cleanup
  runs, and the log \<open>created\<close> of every script element the effect has inserted:
  a script that has started loading keeps loading after it is removed, so its
  \<open>onload\<close> can still fire. React runs the effect once per mount and the cleanup once per unmount; in
  development Strict Mode it runs mount, cleanup, mount.
\<close>

section \<open>Data\<close>

datatype node = Node nat | Script nat string

fun node_id :: "node \<Rightarrow> nat" where
  "node_id (Node i) = i"
| "node_id (Script i src) = i"

record loader_state =
  body :: "node list"
  next_id :: nat
  effect_script :: "nat option"
  created :: "nat list"

datatype dom_error = NotFoundError

definition emailjs_cdn :: string where
  "emailjs_cdn = ''https://cdn.jsdelivr.net/npm/@emailjs/browser@4/dist/email.min.js''"

section \<open>Operations\<close>

text \<open>\<open>document.body.appendChild\<close> of a fresh \<open>script\<close> element.\<close>

definition effect_mount :: "loader_state \<Rightarrow> loader_state" where
  "effect_mount s =
     s\<lparr>body := body s @ [Script (next_id s) emailjs_cdn], next_id := Suc (next_id s),
       effect_script := Some (next_id s), created := created s @ [next_id s]\<rparr>"

text \<open>\<open>parent.removeChild(child)\<close>: the first child with that identity, or an error.\<close>

fun removeChild :: "nat \<Rightarrow> node list \<Rightarrow> dom_error + node list" where
  "removeChild i [] = Inl NotFoundError"
| "removeChild i (n # ns) =
     (if node_id n = i then Inr ns
      else (case removeChild i ns of Inl e \<Rightarrow> Inl e | Inr ns' \<Rightarrow> Inr (n # ns')))"

definition effect_cleanup :: "loader_state \<Rightarrow> dom_error + loader_state" where
  "effect_cleanup s =
     (case effect_script s of
        None \<Rightarrow> Inr s
      | Some i \<Rightarrow>
          (case removeChild i (body s) of
             Inl e \<Rightarrow> Inl e
           | Inr b \<Rightarrow> Inr (s\<lparr>body := b, effect_script := None\<rparr>)))"

definition count_emailjs :: "node list \<Rightarrow> nat" where
  "count_emailjs ns = length (filter (\<lambda>n. \<exists>i. n = Script i emailjs_cdn) ns)"

text \<open>A body whose nodes have distinct identities all below the allocation counter.\<close>

definition fresh_ids :: "loader_state \<Rightarrow> bool" where
  "fresh_ids s \<longleftrightarrow> distinct (map node_id (body s)) \<and> (\<forall>n \<in> set (body s). node_id n < next_id s)"

section \<open>Lemmas\<close>

lemma removeChild_append_last:
  "i \<notin> set (map node_id ns) \<Longrightarrow> removeChild i (ns @ [n]) = (if node_id n = i then Inr ns else Inl NotFoundError)"
  by (induction ns) auto

lemma removeChild_Inl_iff: "removeChild i ns = Inl NotFoundError \<longleftrightarrow> i \<notin> set (map node_id ns)"
  by (induction ns) (auto split: sum.splits)

lemma removeChild_Inr_split:
  "removeChild i ns = Inr ns' \<Longrightarrow> \<exists>a n b. ns = a @ n # b \<and> ns' = a @ b \<and> node_id n = i"
proof (induction ns arbitrary: ns')
  case Nil
  then show ?case by simp
next
  case (Cons m ms)
  show ?case
  proof (cases "node_id m = i")
    case True
    with Cons.prems show ?thesis by (auto intro: exI [of _ "[]"])
  next
    case False
    with Cons.prems obtain ms' where r: "removeChild i ms = Inr ms'" and e: "ns' = m # ms'"
      by (auto split: sum.splits)
    from Cons.IH [OF r] obtain a n b where "ms = a @ n # b" "ms' = a @ b" "node_id n = i"
      by blast
    with e show ?thesis by (metis append_Cons)
  qed
qed

lemma removeChild_present:
  "i \<in> set (map node_id ns) \<Longrightarrow> \<exists>ns'. removeChild i ns = Inr ns'"
proof (cases "removeChild i ns")
  case (Inl e)
  then have "removeChild i ns = Inl NotFoundError" by (cases e) simp
  moreover assume "i \<in> set (map node_id ns)"
  ultimately show ?thesis by (simp add: removeChild_Inl_iff)
qed simp

lemma fresh_not_in_body: "fresh_ids s \<Longrightarrow> next_id s \<notin> set (map node_id (body s))"
  by (auto simp: fresh_ids_def)

lemma removeChild_skip_tail:
  "node_id n = i \<Longrightarrow> i \<notin> set (map node_id ns) \<Longrightarrow> removeChild i (ns @ n # extra) = Inr (ns @ extra)"
  by (induction ns) auto

lemma effect_mount_fresh: "fresh_ids s \<Longrightarrow> fresh_ids (effect_mount s)"
  by (auto simp: fresh_ids_def effect_mount_def)

section \<open>Properties\<close>

text \<open>
  C22. Mounting and then cleaning up restores the body: the cleanup removes exactly
  the script element the mount appended, even when other nodes were appended to the
  body in between, and forgets it.
\<close>

theorem mount_cleanup_roundtrip:
  assumes "fresh_ids s" and "next_id s \<notin> set (map node_id extra)"
  shows "effect_cleanup ((effect_mount s)\<lparr>body := body (effect_mount s) @ extra\<rparr>) =
         Inr (s\<lparr>body := body s @ extra, next_id := Suc (next_id s), effect_script := None,
                 created := created s @ [next_id s]\<rparr>)"
proof -
  have "removeChild (next_id s) (body s @ Script (next_id s) emailjs_cdn # extra) = Inr (body s @ extra)"
    using fresh_not_in_body [OF assms(1)] by (simp add: removeChild_skip_tail)
  then show ?thesis by (simp add: effect_cleanup_def effect_mount_def)
qed

theorem mount_cleanup_roundtrip_witness:
  "effect_cleanup ((effect_mount \<lparr>body = [Node 0], next_id = 1, effect_script = None, created = []\<rparr>)
      \<lparr>body := body (effect_mount \<lparr>body = [Node 0], next_id = 1, effect_script = None, created = []\<rparr>) @ [Node 7]\<rparr>) =
   Inr \<lparr>body = [Node 0, Node 7], next_id = 2, effect_script = None, created = [1]\<rparr>"
proof -
  have f: "fresh_ids \<lparr>body = [Node 0], next_id = 1, effect_script = None, created = []\<rparr>"
    by (simp add: fresh_ids_def)
  have e: "next_id \<lparr>body = [Node 0], next_id = 1, effect_script = None, created = []\<rparr> \<notin> set (map node_id [Node 7])"
    by simp
  from mount_cleanup_roundtrip [OF f e] show ?thesis by simp
qed

text \<open>
  C23. Under Strict Mode's mount, cleanup, mount sequence the body ends up with
  exactly one more EmailJS script element than it had, and the effect remembers that
  element.
\<close>

theorem strict_mode_single_script:
  assumes "fresh_ids s" and "effect_script s = None"
  shows "\<exists>s'. effect_cleanup (effect_mount s) = Inr s' \<and>
           count_emailjs (body (effect_mount s')) = Suc (count_emailjs (body s)) \<and>
           effect_script (effect_mount s') = Some (Suc (next_id s))"
proof -
  from mount_cleanup_roundtrip [OF assms(1), of "[]"]
  have "effect_cleanup (effect_mount s) =
        Inr (s\<lparr>next_id := Suc (next_id s), effect_script := None,
                 created := created s @ [next_id s]\<rparr>)" by simp
  then show ?thesis by (simp add: effect_mount_def count_emailjs_def)
qed

theorem strict_mode_single_script_witness:
  "\<exists>s'. effect_cleanup (effect_mount \<lparr>body = [], next_id = 0, effect_script = None, created = []\<rparr>) = Inr s' \<and>
        count_emailjs (body (effect_mount s')) = 1"
proof -
  have f: "fresh_ids \<lparr>body = [], next_id = 0, effect_script = None, created = []\<rparr>" by (simp add: fresh_ids_def)
  have n: "effect_script \<lparr>body = [], next_id = 0, effect_script = None, created = []\<rparr> = None" by simp
  have z: "count_emailjs [] = 0" by (simp add: count_emailjs_def)
  from strict_mode_single_script [OF f n] z show ?thesis by auto
qed

text \<open>
  C24. If the script element has already left the body when the component unmounts,
  the cleanup's \<open>removeChild\<close> throws \<open>NotFoundError\<close>: the effect does not guard
  against the element having been removed.
\<close>

theorem cleanup_detached_error:
  assumes "effect_script s = Some i" and "i \<notin> set (map node_id (body s))"
  shows "effect_cleanup s = Inl NotFoundError"
  using assms by (simp add: effect_cleanup_def removeChild_Inl_iff [THEN iffD2])

theorem cleanup_detached_error_witness:
  "effect_cleanup \<lparr>body = [Node 0], next_id = 2, effect_script = Some 1, created = [1]\<rparr> = Inl NotFoundError"
proof -
  have "effect_script \<lparr>body = [Node 0], next_id = 2, effect_script = Some 1, created = [1]\<rparr> = Some 1" by simp
  moreover have "(1::nat) \<notin> set (map node_id (body \<lparr>body = [Node 0], next_id = 2, effect_script = Some 1, created = [1]\<rparr>))"
    by simp
  ultimately show ?thesis by (rule cleanup_detached_error)
qed

end
