(* ===== verification/Image_Fallback.thy ===== *)
theory Image_Fallback
  imports Cert_Modal
begin

text \<open>
  The \<open>onError\<close> handlers of the page's six images (\<open>src/app/page.tsx\<close>): the
  profile picture in the hero (lines 291--303) and in the about section (lines
  333--345), and the four certificate images (lines 820--838, 857--875, 894--912,
  935--953). Each image sits in a frame \<open>div\<close> followed by a placeholder \<open>div\<close>
  with \<open>style={{display: 'none'}}\<close>; when the image fails to load the handler
  hides the image and sets the display of \<open>img.nextElementSibling\<close> to
  \<open>'flex'\<close>. The two profile handlers do so without a check, so a missing sibling
  would make them throw a \<open>TypeError\<close> (reading \<open>style\<close> of \<open>null\<close>) after the
  image is already hidden; the certificate handlers test the sibling first.

  A frame is the list of its children with their \<open>style.display\<close> (\<open>''''\<close> when
  the attribute sets none); an uncaught exception of a React event handler is a
  value next to the state the handler leaves behind.
\<close>

section \<open>The DOM of a frame\<close>

datatype elem_kind = Img string | Fallback string

record elem =
  kind :: elem_kind
  display :: string

definition img_elem :: "string \<Rightarrow> elem" where
  "img_elem src = \<lparr>kind = Img src, display = ''''\<rparr>"

definition fallback_elem :: "string \<Rightarrow> elem" where
  "fallback_elem t = \<lparr>kind = Fallback t, display = ''none''\<rparr>"

definition next_sibling :: "elem list \<Rightarrow> nat \<Rightarrow> nat option" where
  "next_sibling es i = (if Suc i < length es then Some (Suc i) else None)"

definition set_display :: "nat \<Rightarrow> string \<Rightarrow> elem list \<Rightarrow> elem list" where
  "set_display i d es = (if i < length es then es[i := (es ! i)\<lparr>display := d\<rparr>] else es)"

text \<open>What the visitor sees of a frame: the children not hidden by \<open>display: none\<close>.\<close>

definition shown :: "elem list \<Rightarrow> elem_kind list" where
  "shown es = map kind (filter (\<lambda>e. display e \<noteq> ''none'') es)"

text \<open>
  A well-formed frame: an image followed by its placeholder, exactly one of the two
  shown.
\<close>

fun frame_pair :: "elem_kind list \<Rightarrow> bool" where
  "frame_pair [Img s, Fallback t] = True"
| "frame_pair _ = False"

definition frame_ok :: "elem list \<Rightarrow> bool" where
  "frame_ok es \<longleftrightarrow> frame_pair (map kind es) \<and> length (shown es) = 1"

section \<open>The handlers\<close>

datatype fallback_error = Null_TypeError

definition onError_unchecked :: "nat \<Rightarrow> elem list \<Rightarrow> fallback_error option \<times> elem list" where
  "onError_unchecked i es =
     (let es1 = set_display i ''none'' es in
      case next_sibling es1 i of
        None \<Rightarrow> (Some Null_TypeError, es1)
      | Some j \<Rightarrow> (None, set_display j ''flex'' es1))"

definition onError_checked :: "nat \<Rightarrow> elem list \<Rightarrow> elem list" where
  "onError_checked i es =
     (let es1 = set_display i ''none'' es in
      case next_sibling es1 i of
        None \<Rightarrow> es1
      | Some j \<Rightarrow> set_display j ''flex'' es1)"

section \<open>The page's frames\<close>

datatype frame_id = Hero | About | Card nat

definition hero_frame :: "elem list" where
  "hero_frame = [img_elem ''/profile.jpg'', fallback_elem ''KT'']"

definition about_frame :: "elem list" where
  "about_frame = [img_elem ''/profile.jpg'', fallback_elem ''KT'']"

definition card_frame :: "cert_card \<Rightarrow> elem list" where
  "card_frame c = [img_elem (card_img_src c), fallback_elem (card_fallback c)]"

definition page_frames :: "(frame_id \<times> elem list) list" where
  "page_frames = (Hero, hero_frame) # (About, about_frame) #
     map (\<lambda>(k, c). (Card k, card_frame c)) (enumerate 0 cert_cards)"

text \<open>The handler each frame's image has; the image is the frame's first child.\<close>

fun frame_onError :: "frame_id \<Rightarrow> elem list \<Rightarrow> fallback_error option \<times> elem list" where
  "frame_onError Hero es = onError_unchecked 0 es"
| "frame_onError About es = onError_unchecked 0 es"
| "frame_onError (Card k) es = (None, onError_checked 0 es)"

section \<open>Lemmas\<close>

lemma length_set_display [simp]: "length (set_display i d es) = length es"
  by (simp add: set_display_def)

lemma frame_pair_onError:
  "frame_onError fid [a, b] = (None, [a\<lparr>display := ''none''\<rparr>, b\<lparr>display := ''flex''\<rparr>])"
  by (cases fid) (simp_all add: onError_unchecked_def onError_checked_def next_sibling_def
      set_display_def Let_def)

lemma frame_pair_length: "frame_pair ks \<Longrightarrow> length ks = 2"
  by (induction ks rule: frame_pair.induct) auto

lemma frame_ok_onError:
  assumes "frame_ok es"
  shows "\<exists>es'. frame_onError fid es = (None, es') \<and> frame_ok es' \<and> map kind es' = map kind es"
proof -
  from assms have "length (map kind es) = 2" by (auto simp: frame_ok_def dest: frame_pair_length)
  then obtain a b where "es = [a, b]" by (auto simp: numeral_2_eq_2 length_Suc_conv)
  with assms show ?thesis by (simp add: frame_pair_onError frame_ok_def shown_def)
qed

lemma page_frames_ok: "(fid, es) \<in> set page_frames \<Longrightarrow> frame_ok es"
  by (auto simp: page_frames_def hero_frame_def about_frame_def card_frame_def frame_ok_def
      shown_def img_elem_def fallback_elem_def)

lemma page_frames_shape:
  "(fid, es) \<in> set page_frames \<Longrightarrow> \<exists>s t. es = [img_elem s, fallback_elem t]"
  by (auto simp: page_frames_def hero_frame_def about_frame_def card_frame_def)

text \<open>
  The two versions of the handler have the same effect on the frame: the
  profile pictures' unchecked handler leaves the frame exactly as the certificates'
  checked one does, and differs only in throwing a \<open>TypeError\<close> when the image
  has no next sibling.
\<close>

lemma onError_unchecked_checked:
  "onError_unchecked i es =
     (if Suc i < length es then None else Some Null_TypeError, onError_checked i es)"
  by (simp add: onError_unchecked_def onError_checked_def next_sibling_def Let_def)

section \<open>Properties\<close>

text \<open>
  C31. On the page as written every image's fallback works: for each of the six
  frames the image is shown at first, and when it fails to load the handler
  throws nothing and leaves exactly the frame's placeholder visible.
\<close>

theorem image_error_shows_fallback:
  assumes "(fid, es) \<in> set page_frames"
  shows "\<exists>src t es'. shown es = [Img src] \<and> frame_onError fid es = (None, es') \<and>
           shown es' = [Fallback t]"
proof -
  from page_frames_shape [OF assms] obtain s t where es: "es = [img_elem s, fallback_elem t]"
    by blast
  show ?thesis
    by (simp add: es frame_pair_onError) (simp add: shown_def img_elem_def fallback_elem_def)
qed

theorem image_error_shows_fallback_witness:
  "(Hero, hero_frame) \<in> set page_frames \<and>
   (\<exists>src t es'. shown hero_frame = [Img src] \<and> frame_onError Hero hero_frame = (None, es') \<and>
      shown es' = [Fallback t])"
  using image_error_shows_fallback [of Hero hero_frame] by (simp add: page_frames_def)

text \<open>
  C33. Without a placeholder after it, a failing profile picture makes the handler
  throw, and the frame is left showing nothing in the image's place: the image is
  already hidden when \<open>nextElementSibling.style\<close> is read.
\<close>

theorem unchecked_error_hides_image:
  assumes "Suc i = length es"
  shows "fst (onError_unchecked i es) = Some Null_TypeError \<and>
         shown (snd (onError_unchecked i es)) = shown (take i es)"
proof -
  from assms obtain xs x where es: "es = xs @ [x]" and len: "length xs = i"
    by (cases es rule: rev_cases) auto
  then show ?thesis
    by (simp add: onError_unchecked_def next_sibling_def set_display_def shown_def Let_def
        list_update_append)
qed

theorem unchecked_error_hides_image_witness:
  "Suc 0 = length [img_elem ''/profile.jpg''] \<and>
   fst (onError_unchecked 0 [img_elem ''/profile.jpg'']) = Some Null_TypeError \<and>
   shown (snd (onError_unchecked 0 [img_elem ''/profile.jpg''])) = []"
  using unchecked_error_hides_image [of 0 "[img_elem ''/profile.jpg'']"] by (simp add: shown_def)

end
