(* ===== verification/Page.thy ===== *)
theory Page
  imports Contact_Form Cert_Modal Work_Process Nav_Menu Script_Loader Image_Fallback
begin

text \<open>
  The \<open>App\<close> component of \<open>src/app/page.tsx\<close> as a whole: its state is the union of
  the slices modelled by the component theories (contact form, modal, active step,
  menu with the location's fragment that its links set, the six image frames with
  the exceptions their handlers throw, and the script loader's effect together with
  the component's mount state),
  and one page step is one event handled by the section that owns it; the sections'
  events need the component to be mounted (before the mount and after the unmount
  there is no markup to click and React ignores state updates). The only link
  between slices is the one the code has: the EmailJS script's \<open>onload\<close>, set up by
  the effect, is what sets \<open>emailJsLoaded\<close>, so that event can only happen after the
  effect has inserted a script. Events of other code on the page that append nodes
  to \<open>document.body\<close> are included, since the effect's cleanup must cope with them.
\<close>

section \<open>State and events\<close>

record page_state =
  contact :: contact_state
  modal :: modal_state
  activeStep :: int
  menuOpen :: bool
  hash :: string
  frames :: "elem list list"
  uncaught :: "fallback_error list"
  loader :: loader_state
  mounted :: bool

definition loader_init :: loader_state where
  "loader_init = \<lparr>body = [], next_id = 0, effect_script = None, created = []\<rparr>"

definition page_init :: page_state where
  "page_init = \<lparr>contact = contact_init, modal = modal_init, activeStep = activeStep_init,
     menuOpen = menuOpen_init, hash = '''', frames = map snd page_frames, uncaught = [],
     loader = loader_init, mounted = False\<rparr>"

datatype page_event =
    Mount
  | Unmount
  | Dom_Append
  | Contact_Ev contact_event
  | Modal_Ev modal_event
  | Tab_Click nat
  | Menu_Click
  | Link_Click viewport nat
  | Img_Error nat

text \<open>An uncaught exception is reported (to the console) and the page goes on.\<close>

definition option_list :: "'a option \<Rightarrow> 'a list" where
  "option_list x = (case x of None \<Rightarrow> [] | Some y \<Rightarrow> [y])"

text \<open>Another part of the page appends a node to the body.\<close>

definition dom_append :: "loader_state \<Rightarrow> loader_state" where
  "dom_append l = l\<lparr>body := body l @ [Node (next_id l)], next_id := Suc (next_id l)\<rparr>"

inductive page_step :: "page_state \<Rightarrow> page_event \<Rightarrow> page_state \<Rightarrow> bool" where
  mount: "\<not> mounted p \<Longrightarrow> page_step p Mount (p\<lparr>loader := effect_mount (loader p), mounted := True\<rparr>)"
| unmount: "mounted p \<Longrightarrow> effect_cleanup (loader p) = Inr l \<Longrightarrow>
    page_step p Unmount (p\<lparr>loader := l, mounted := False\<rparr>)"
| append: "page_step p Dom_Append (p\<lparr>loader := dom_append (loader p)\<rparr>)"
| contact: "mounted p \<Longrightarrow> contact_step (contact p) e c' \<Longrightarrow>
    (e = Script_Load \<longrightarrow> created (loader p) \<noteq> []) \<Longrightarrow> page_step p (Contact_Ev e) (p\<lparr>contact := c'\<rparr>)"
| modal: "mounted p \<Longrightarrow> modal_step (modal p) e m' \<Longrightarrow> page_step p (Modal_Ev e) (p\<lparr>modal := m'\<rparr>)"
| tab: "mounted p \<Longrightarrow> i < length tab_labels \<Longrightarrow>
    page_step p (Tab_Click i) (p\<lparr>activeStep := tab_click i\<rparr>)"
| menu: "mounted p \<Longrightarrow> page_step p Menu_Click (p\<lparr>menuOpen := toggle_menu (menuOpen p)\<rparr>)"
| link: "mounted p \<Longrightarrow> i < length (visible_links vp (menuOpen p)) \<Longrightarrow>
    page_step p (Link_Click vp i) (p\<lparr>hash := link_href (visible_links vp (menuOpen p) ! i)\<rparr>)"
| img_error: "mounted p \<Longrightarrow> k < length (frames p) \<Longrightarrow> k < length page_frames \<Longrightarrow>
    frame_onError (fst (page_frames ! k)) (frames p ! k) = (err, es') \<Longrightarrow>
    page_step p (Img_Error k)
      (p\<lparr>frames := (frames p)[k := es'], uncaught := uncaught p @ option_list err\<rparr>)"

inductive_simps page_step_simps:
  "page_step p Mount p'" "page_step p Unmount p'" "page_step p Dom_Append p'"
  "page_step p (Contact_Ev e) p'" "page_step p (Modal_Ev me) p'" "page_step p (Tab_Click i) p'"
  "page_step p Menu_Click p'" "page_step p (Link_Click vp i) p'" "page_step p (Img_Error k) p'"

inductive_cases page_step_MountE: "page_step p Mount p'"
inductive_cases page_step_UnmountE: "page_step p Unmount p'"
inductive_cases page_step_ContactE: "page_step p (Contact_Ev e) p'"
inductive_cases page_step_LinkE: "page_step p (Link_Click vp i) p'"
inductive_cases page_step_ImgE: "page_step p (Img_Error k) p'"

text \<open>The same dispatch as an executable function (\<open>None\<close>: the event cannot occur).\<close>

fun page_dispatch :: "page_state \<Rightarrow> page_event \<Rightarrow> page_state option" where
  "page_dispatch p Mount =
     (if mounted p then None else Some (p\<lparr>loader := effect_mount (loader p), mounted := True\<rparr>))"
| "page_dispatch p Unmount =
     (if \<not> mounted p then None
      else case effect_cleanup (loader p) of Inl _ \<Rightarrow> None | Inr l \<Rightarrow> Some (p\<lparr>loader := l, mounted := False\<rparr>))"
| "page_dispatch p Dom_Append = Some (p\<lparr>loader := dom_append (loader p)\<rparr>)"
| "page_dispatch p (Contact_Ev e) =
     (if \<not> mounted p \<or> e = Script_Load \<and> created (loader p) = [] then None
      else map_option (\<lambda>c'. p\<lparr>contact := c'\<rparr>) (contact_dispatch (contact p) e))"
| "page_dispatch p (Modal_Ev e) =
     (if \<not> mounted p then None else map_option (\<lambda>m'. p\<lparr>modal := m'\<rparr>) (modal_dispatch (modal p) e))"
| "page_dispatch p (Tab_Click i) =
     (if mounted p \<and> i < length tab_labels then Some (p\<lparr>activeStep := tab_click i\<rparr>) else None)"
| "page_dispatch p Menu_Click =
     (if mounted p then Some (p\<lparr>menuOpen := toggle_menu (menuOpen p)\<rparr>) else None)"
| "page_dispatch p (Link_Click vp i) =
     (if mounted p \<and> i < length (visible_links vp (menuOpen p))
      then Some (p\<lparr>hash := link_href (visible_links vp (menuOpen p) ! i)\<rparr>) else None)"
| "page_dispatch p (Img_Error k) =
     (if mounted p \<and> k < length (frames p) \<and> k < length page_frames
      then (case frame_onError (fst (page_frames ! k)) (frames p ! k) of (err, es') \<Rightarrow>
              Some (p\<lparr>frames := (frames p)[k := es'], uncaught := uncaught p @ option_list err\<rparr>))
      else None)"

fun page_run :: "page_state \<Rightarrow> page_event list \<Rightarrow> page_state option" where
  "page_run p [] = Some p"
| "page_run p (e # es) = (case page_dispatch p e of None \<Rightarrow> None | Some p' \<Rightarrow> page_run p' es)"

inductive page_reach :: "page_state \<Rightarrow> bool" where
  init: "page_reach page_init"
| step: "page_reach p \<Longrightarrow> page_step p e p' \<Longrightarrow> page_reach p'"

section \<open>Invariant of the loader slice\<close>

definition loader_inv :: "page_state \<Rightarrow> bool" where
  "loader_inv p \<longleftrightarrow> fresh_ids (loader p) \<and>
     (if mounted p then \<exists>i. effect_script (loader p) = Some i \<and> Script i emailjs_cdn \<in> set (body (loader p))
      else effect_script (loader p) = None)"

definition link_inv :: "page_state \<Rightarrow> bool" where
  "link_inv p \<longleftrightarrow> (sent (contact p) \<noteq> [] \<longrightarrow> emailJsLoaded (contact p)) \<and>
     (emailJsLoaded (contact p) \<longrightarrow> created (loader p) \<noteq> [])"

definition frames_inv :: "page_state \<Rightarrow> bool" where
  "frames_inv p \<longleftrightarrow> uncaught p = [] \<and> map (map kind) (frames p) = map (map kind \<circ> snd) page_frames \<and>
     list_all frame_ok (frames p)"

section \<open>Lemmas\<close>

lemma page_dispatch_iff: "page_dispatch p e = Some p' \<longleftrightarrow> page_step p e p'"
  by (cases e) (auto simp: page_step_simps contact_dispatch_iff modal_dispatch_iff
      split: sum.splits prod.splits)

lemma page_run_reach: "page_run p es = Some p' \<Longrightarrow> page_reach p \<Longrightarrow> page_reach p'"
proof (induction es arbitrary: p)
  case Nil
  then show ?case by simp
next
  case (Cons e es)
  then obtain q where "page_dispatch p e = Some q" and "page_run q es = Some p'"
    by (auto split: option.splits)
  with Cons show ?case by (blast intro: page_reach.step dest: iffD1 [OF page_dispatch_iff])
qed

lemma frames_inv_init: "frames_inv page_init"
  by (auto simp: frames_inv_def page_init_def list_all_iff intro: page_frames_ok)

lemma frames_inv_step: "page_step p e p' \<Longrightarrow> frames_inv p \<Longrightarrow> frames_inv p'"
proof (induction rule: page_step.induct)
  case (img_error p k err es')
  then have ok: "frame_ok (frames p ! k)" by (simp add: frames_inv_def list_all_length)
  from frame_ok_onError [OF ok, of "fst (page_frames ! k)"] img_error.hyps(4)
  have "err = None" "frame_ok es'" "map kind es' = map kind (frames p ! k)" by auto
  moreover have "map (map kind) ((frames p)[k := es']) = map (map kind) (frames p)"
    using img_error.hyps(2) \<open>map kind es' = map kind (frames p ! k)\<close>
    by (simp add: map_update) (metis list_update_id nth_map)
  ultimately show ?case
    using img_error.prems img_error.hyps(2)
    by (simp add: frames_inv_def option_list_def list_all_length nth_list_update)
qed (simp_all add: frames_inv_def)

lemma frames_inv_reach: "page_reach p \<Longrightarrow> frames_inv p"
  by (induction rule: page_reach.induct) (auto intro: frames_inv_init frames_inv_step)

lemma page_reach_slices:
  "page_reach p \<Longrightarrow> contact_reach (contact p) \<and> modal_reach (modal p) \<and> step_reach (activeStep p)"
proof (induction rule: page_reach.induct)
  case init
  show ?case
    by (simp add: page_init_def contact_reach.init modal_reach.init step_reach.init)
next
  case (step p e p')
  from step.hyps(2) step.IH show ?case
    by (induction rule: page_step.induct)
      (auto intro: contact_reach.step modal_reach.step step_reach.click)
qed

lemma fresh_ids_cleanup:
  "fresh_ids l \<Longrightarrow> effect_cleanup l = Inr l' \<Longrightarrow> fresh_ids l' \<and> effect_script l' = None"
  by (auto simp: effect_cleanup_def fresh_ids_def split: option.splits sum.splits
      dest!: removeChild_Inr_split)

lemma loader_inv_init: "loader_inv page_init"
  by (simp add: loader_inv_def page_init_def loader_init_def fresh_ids_def)

lemma loader_inv_step: "page_step p e p' \<Longrightarrow> loader_inv p \<Longrightarrow> loader_inv p'"
proof (induction rule: page_step.induct)
  case (mount p)
  then show ?case by (auto simp: loader_inv_def effect_mount_def fresh_ids_def)
next
  case (unmount p l)
  then show ?case by (auto simp: loader_inv_def dest: fresh_ids_cleanup)
next
  case (append p)
  then show ?case
    by (auto simp: loader_inv_def dom_append_def fresh_ids_def less_Suc_eq)
qed (simp_all add: loader_inv_def)

lemma loader_inv_reach: "page_reach p \<Longrightarrow> loader_inv p"
  by (induction rule: page_reach.induct) (auto intro: loader_inv_init loader_inv_step)

lemma contact_step_loaded:
  "contact_step c e c' \<Longrightarrow> emailJsLoaded c' \<longleftrightarrow> emailJsLoaded c \<or> e = Script_Load"
  by (induction rule: contact_step.induct) (auto simp: handler_simps Let_def)

lemma contact_step_sent:
  "contact_step c e c' \<Longrightarrow> sent c' \<noteq> [] \<Longrightarrow> sent c \<noteq> [] \<or> emailJsLoaded c"
  by (induction rule: contact_step.induct) (auto simp: handler_simps Let_def split: if_splits)

lemma link_inv_step: "page_step p e p' \<Longrightarrow> link_inv p \<Longrightarrow> link_inv p'"
proof (induction rule: page_step.induct)
  case (contact p e c')
  then show ?case
    using contact_step_loaded [OF contact.hyps(2)] contact_step_sent [OF contact.hyps(2)]
    by (auto simp: link_inv_def)
next
  case (mount p)
  then show ?case by (auto simp: link_inv_def effect_mount_def)
next
  case (unmount p l)
  then show ?case
    by (auto simp: link_inv_def effect_cleanup_def split: option.splits sum.splits)
qed (simp_all add: link_inv_def dom_append_def)

lemma link_inv_init: "link_inv page_init"
  by (simp add: link_inv_def page_init_def contact_init_def)

lemma link_inv_reach: "page_reach p \<Longrightarrow> link_inv p"
  by (induction rule: page_reach.induct) (auto intro: link_inv_init link_inv_step)

lemma distinct_ids_same:
  "distinct (map node_id ns) \<Longrightarrow> x \<in> set ns \<Longrightarrow> y \<in> set ns \<Longrightarrow> node_id x = node_id y \<Longrightarrow> x = y"
  by (auto simp: distinct_map dest: inj_onD)

lemma count_emailjs_remove:
  "count_emailjs (a @ Script i emailjs_cdn # b) = Suc (count_emailjs (a @ b))"
  by (simp add: count_emailjs_def)

lemma mounted_cleanup_ok:
  assumes "loader_inv p" and "mounted p"
  shows "\<exists>l. effect_cleanup (loader p) = Inr l \<and>
             Suc (count_emailjs (body l)) = count_emailjs (body (loader p))"
proof -
  from assms obtain i where i: "effect_script (loader p) = Some i"
    and sc: "Script i emailjs_cdn \<in> set (body (loader p))"
    and d: "distinct (map node_id (body (loader p)))"
    by (auto simp: loader_inv_def fresh_ids_def)
  from sc have "i \<in> set (map node_id (body (loader p)))" by force
  then obtain ns' where r: "removeChild i (body (loader p)) = Inr ns'"
    using removeChild_present by blast
  then obtain a n b where split: "body (loader p) = a @ n # b" "ns' = a @ b" "node_id n = i"
    using removeChild_Inr_split by blast
  have "n = Script i emailjs_cdn"
    using distinct_ids_same [OF d, of n "Script i emailjs_cdn"] split sc by simp
  with split i r show ?thesis
    by (simp add: effect_cleanup_def count_emailjs_remove)
qed

lemma page_reach_contact_trace:
  "contact_trace c es c' \<Longrightarrow> page_reach p \<Longrightarrow> contact p = c \<Longrightarrow> mounted p \<Longrightarrow>
   created (loader p) \<noteq> [] \<Longrightarrow> page_reach (p\<lparr>contact := c'\<rparr>)"
proof (induction arbitrary: p rule: contact_trace.induct)
  case (nil c)
  then have "p\<lparr>contact := c\<rparr> = p" by (cases p) auto
  with nil.prems(1) show ?case by simp
next
  case (cons c e t es c'')
  from cons.hyps(1) cons.prems have "page_step p (Contact_Ev e) (p\<lparr>contact := t\<rparr>)"
    by (auto intro: page_step.contact)
  with cons.prems(1) have "page_reach (p\<lparr>contact := t\<rparr>)" by (rule page_reach.step)
  from cons.IH [OF this] cons.prems(3,4) show ?case by simp
qed

lemma mounted_created: "page_reach p \<Longrightarrow> mounted p \<Longrightarrow> created (loader p) \<noteq> []"
proof (induction rule: page_reach.induct)
  case init
  then show ?case by (simp add: page_init_def)
next
  case (step p e p')
  from step.hyps(2) step.IH step.prems show ?case
    by (cases rule: page_step.cases) (auto simp: effect_mount_def dom_append_def)
qed
end
