(* ===== verification/Contact_Email.thy ===== *)
theory Contact_Email
  imports Contact_Form
begin

text \<open>
  The address field of the contact form (\<open>src/app/page.tsx\<close>, lines 1029--1037) and
  what the browser's \<open>type="email"\<close> input adds to the flow of \<open>Contact_Form\<close>: the
  value stored by \<open>handleChange\<close> is the sanitized one, and \<open>handleSubmit\<close> is only
  reached with an address of the standard's grammar, so every request the page
  sends carries one. The invariant \<open>email_clean\<close> says that the stored address is
  a fixed point of the sanitization.
\<close>

definition email_clean :: "js_object \<Rightarrow> bool" where
  "email_clean fd \<longleftrightarrow> (case fd ''email'' of None \<Rightarrow> True | Some e \<Rightarrow> sanitize_email e = e)"

section \<open>Lemmas\<close>

lemma email_clean_change:
  "email_clean fd \<Longrightarrow> email_clean (fd(nm \<mapsto> control_value (control_of nm) v))"
  by (auto simp: email_clean_def control_of_def sanitize_email_idem)

lemma email_clean_step: "contact_step s e s' \<Longrightarrow> email_clean (formData s) \<Longrightarrow> email_clean (formData s')"
proof (induction rule: contact_step.induct)
  case (input_change nm s v)
  then show ?case using email_clean_change [of "formData s" nm v] by (simp add: handleChange_def fun_upd_def)
qed (auto simp: handler_simps Let_def email_clean_def empty_form_def)

lemma email_clean_reach: "contact_reach s \<Longrightarrow> email_clean (formData s)"
proof (induction rule: contact_reach.induct)
  case init
  show ?case by (simp add: contact_init_def empty_form_def email_clean_def)
next
  case (step s e s')
  then show ?case by (blast intro: email_clean_step)
qed

lemma form_valid_email:
  "form_valid fd \<Longrightarrow> \<exists>e. fd ''email'' = Some e \<and> e \<noteq> [] \<and> email_lang e"
  by (auto simp: form_valid_def form_inputs_def value_missing_def type_mismatch_def valid_email_iff
      split: option.splits)

lemma form_valid_checker: "form_valid fd \<Longrightarrow> \<exists>e. fd ''email'' = Some e \<and> valid_email e"
  by (auto simp: form_valid_def form_inputs_def value_missing_def type_mismatch_def
      split: option.splits)

text \<open>
  The constraint \<open>type="email"\<close> adds to the form is exactly the standard's
  grammar: the input suffers from a type mismatch if and only if its value is
  non-empty and not derivable in \<open>email_lang\<close>.
\<close>

lemma type_mismatch_grammar:
  "type_mismatch fd \<longleftrightarrow> (\<exists>e. fd ''email'' = Some e \<and> e \<noteq> [] \<and> \<not> email_lang e)"
  by (auto simp: type_mismatch_def valid_email_iff split: option.splits)

text \<open>
  The controlled inputs are stable: React writes the stored value back into the
  control (\<open>value={formData.x}\<close>), and the control's sanitization leaves a value it
  produced unchanged, for each of the three kinds of control.
\<close>

lemma controlled_value_stable:
  "control_value c (control_value c v) = control_value c v"
  by (cases c) (simp_all add: sanitize_email_idem normalize_newlines_idem strip_newlines_def)

section \<open>Properties\<close>

text \<open>
  C28. Every request the page sends carries an e-mail address of the HTML standard's
  grammar: the browser fires \<open>submit\<close> only when the \<open>type="email"\<close> input is
  filled and does not suffer from a type mismatch, and \<open>handleSubmit\<close> sends
  \<open>formData\<close> as it is.
\<close>

theorem sent_email_valid:
  assumes "contact_reach s" and "r \<in> set (sent s)"
  shows "\<exists>e. template_params r ''email'' = Some e \<and> email_lang e"
proof -
  have "form_valid (template_params r)"
    using reach_request_ok [OF assms] by (simp add: request_ok_def)
  then show ?thesis by (blast dest: form_valid_email)
qed

theorem sent_email_valid_witness:
  "\<exists>s. contact_run contact_init (sample_fill @ [Form_Submit]) = Some s \<and> hd (sent s) \<in> set (sent s) \<and>
       (\<exists>e. template_params (hd (sent s)) ''email'' = Some e \<and> email_lang e)"
proof -
  obtain s where run: "contact_run contact_init (sample_fill @ [Form_Submit]) = Some s"
    and reach: "contact_reach s"
    using sample_submitted by blast
  from run have "sent s \<noteq> []" by (auto simp: contact_eval)
  then have mem: "hd (sent s) \<in> set (sent s)" by simp
  from sent_email_valid [OF reach mem] run mem show ?thesis by blast
qed

text \<open>
  C29. The address kept in \<open>formData.email\<close> is always sanitized: it contains no
  line feed or carriage return and neither starts nor ends with ASCII whitespace,
  whatever the visitor typed.
\<close>

theorem email_field_sanitized:
  assumes "contact_reach s" and "formData s ''email'' = Some e"
  shows "CHR 0x0A \<notin> set e \<and> CHR 0x0D \<notin> set e \<and>
         (e \<noteq> [] \<longrightarrow> \<not> ascii_ws (hd e) \<and> \<not> ascii_ws (last e))"
  using email_clean_reach [OF assms(1)] assms(2) by (intro sanitize_email_shape) (simp add: email_clean_def)

theorem email_field_sanitized_witness:
  "\<exists>s. contact_run contact_init [Script_Load, Input_Change ''email'' '' ann@example.org  ''] = Some s \<and>
       formData s ''email'' = Some ''ann@example.org'' \<and>
       CHR 0x0A \<notin> set ''ann@example.org'' \<and> CHR 0x0D \<notin> set ''ann@example.org'' \<and>
       (''ann@example.org'' \<noteq> [] \<longrightarrow> \<not> ascii_ws (hd ''ann@example.org'') \<and>
          \<not> ascii_ws (last ''ann@example.org''))"
proof -
  let ?es = "[Script_Load, Input_Change ''email'' '' ann@example.org  '']"
  have "contact_run contact_init ?es \<noteq> None" by (simp add: contact_eval)
  then obtain s where run: "contact_run contact_init ?es = Some s" by blast
  then have reach: "contact_reach s" by (rule contact_run_reach)
  from run have fd: "formData s ''email'' = Some ''ann@example.org''" by (auto simp: contact_eval)
  from email_field_sanitized [OF reach fd] run fd show ?thesis by blast
qed

text \<open>
  C30. A non-empty malformed address blocks the submission: no \<open>submit\<close> event
  reaches \<open>handleSubmit\<close>, so no request is made and the status does not change.
\<close>

theorem malformed_email_blocks_submit:
  assumes "formData s ''email'' = Some e" and "e \<noteq> []" and "\<not> email_lang e"
  shows "\<not> contact_step s Form_Submit s'"
proof
  assume "contact_step s Form_Submit s'"
  then have "form_valid (formData s)" by (auto elim: contact_step_FormE)
  with assms show False using form_valid_email [of "formData s"] by auto
qed

theorem malformed_email_blocks_submit_witness:
  "formData (contact_init\<lparr>formData := [''name'' \<mapsto> ''A'', ''email'' \<mapsto> ''ann.example.org'',
      ''subject'' \<mapsto> ''S'', ''message'' \<mapsto> ''M'']\<rparr>) ''email'' = Some ''ann.example.org'' \<and>
   ''ann.example.org'' \<noteq> [] \<and> \<not> email_lang ''ann.example.org'' \<and>
   (\<forall>s'. \<not> contact_step (contact_init\<lparr>formData := [''name'' \<mapsto> ''A'', ''email'' \<mapsto> ''ann.example.org'',
      ''subject'' \<mapsto> ''S'', ''message'' \<mapsto> ''M'']\<rparr>) Form_Submit s')"
proof -
  let ?s = "contact_init\<lparr>formData := [''name'' \<mapsto> ''A'', ''email'' \<mapsto> ''ann.example.org'',
      ''subject'' \<mapsto> ''S'', ''message'' \<mapsto> ''M'']\<rparr>"
  have fd: "formData ?s ''email'' = Some ''ann.example.org''" by simp
  have bad: "\<not> email_lang ''ann.example.org''" by (simp add: valid_email_iff [symmetric] valid_email_def)
  have ne: "''ann.example.org'' \<noteq> []" by simp
  have "\<forall>s'. \<not> contact_step ?s Form_Submit s'"
    using malformed_email_blocks_submit [OF fd ne bad] by blast
  with fd ne bad show ?thesis by blast
qed

end
