(* ===== verification/Layout.thy ===== *)
theory Layout
  imports Prelude
begin

text \<open>
  The root layout of \<open>src/app/layout.tsx\<close>: the page metadata (lines 4--7), which
  Next.js turns into the document's title and description, and \<open>RootLayout\<close>
  (lines 9--17), which wraps the rendered page in \<open>html\<close> and \<open>body\<close> elements.
  Markup is a tree of elements with their attributes, and text. The layout has no
  state and no handler; the page it wraps is \<open>App\<close>, the subject of \<open>Page\<close>.
\<close>

record page_metadata =
  md_title :: string
  md_description :: string

definition metadata :: page_metadata where
  "metadata = \<lparr>md_title = ''Ken Tuei Portfolio'', md_description = ''Portfolio of Ken Kipkirui Tuei''\<rparr>"

datatype markup = Element string "(string \<times> string) list" "markup list" | Text string

definition RootLayout :: "markup list \<Rightarrow> markup" where
  "RootLayout children =
     Element ''html'' [(''lang'', ''en'')]
       [Element ''body'' [(''className'', ''bg-white text-gray-900 dark:bg-gray-900 dark:text-white'')]
          children]"

end
