(* ===== verification/Projects.thy ===== *)
theory Projects
  imports Prelude
begin

text \<open>
  The "Featured Projects" section of \<open>src/app/page.tsx\<close> (lines 656--800): three
  cards, each with an image, a badge, a title, technology tags and two links opened
  in a new tab (\<open>target="_blank"\<close>), one to the GitHub repository and one to a live
  demo. Where a link leads is read off its \<open>href\<close> as the browser resolves it
  against the page's URL \<open>/\<close>; the application has the single route \<open>/\<close>
  (\<open>src/app/page.tsx\<close> is its only page).
\<close>

record project =
  proj_img_src :: string
  proj_img_alt :: string
  proj_badge :: string
  proj_title :: string
  proj_tags :: "string list"
  proj_github :: string
  proj_demo :: string

definition projects :: "project list" where
  "projects =
    [\<lparr>proj_img_src = ''https://i.ibb.co/LzgD1LTm/cyber-monday-shopping-sales.jpg'',
      proj_img_alt = ''Moringa School Marketplace'', proj_badge = ''Full Stack'',
      proj_title = ''Moringa School Marketplace'',
      proj_tags = [''React'', ''Tailwind CSS'', ''Python Flask'', ''M-Pesa API''],
      proj_github = ''https://github.com/Dean14692-prog/Moringa-Marketplace'',
      proj_demo = ''YOUR_LIVE_DEMO_LINK_HERE''\<rparr>,
     \<lparr>proj_img_src = ''https://i.ibb.co/8nKF0Jhk/COFEE.jpg'',
      proj_img_alt = ''Coffee Shop OOP Model'', proj_badge = ''Python OOP'',
      proj_title = ''Coffee Shop OOP Model'', proj_tags = [''Python'', ''OOP''],
      proj_github = ''https://github.com/KenTuei/Coffee_Shop'',
      proj_demo = ''YOUR_LIVE_DEMO_LINK_HERE''\<rparr>,
     \<lparr>proj_img_src = ''https://i.ibb.co/q3DVd6nR/VIVID.jpg'',
      proj_img_alt = ''ECOM API'', proj_badge = ''Backend API'',
      proj_title = ''Vivid Cosmetics'',
      proj_tags = [''Python Flask'', ''SQLAlchemy'', ''SQLite'', ''REST API''],
      proj_github = ''https://github.com/KenTuei/Vivid-Vibe-Cosmetics'',
      proj_demo = ''YOUR_LIVE_DEMO_LINK_HERE''\<rparr>]"

text \<open>How the browser reads an \<open>href\<close>: an absolute URL, a fragment of the current page,
  or a path relative to the page's URL.\<close>

datatype href_kind = Absolute string | Fragment string | Relative string

definition href_kind :: "string \<Rightarrow> href_kind" where
  "href_kind h =
     (if take 8 h = ''https://'' \<or> take 7 h = ''http://'' then Absolute h
      else case h of CHR ''#'' # f \<Rightarrow> Fragment f | _ \<Rightarrow> Relative h)"

definition app_routes :: "string list" where
  "app_routes = [''/'']"

text \<open>The path a relative link opens when the page is at \<open>/\<close>.\<close>

definition relative_target :: "string \<Rightarrow> string option" where
  "relative_target h = (case href_kind h of Relative p \<Rightarrow> Some (CHR ''/'' # p) | _ \<Rightarrow> None)"

section \<open>Lemmas\<close>

lemma project_links:
  "map (\<lambda>p. href_kind (proj_github p)) projects = map (\<lambda>p. Absolute (proj_github p)) projects \<and>
   map (\<lambda>p. relative_target (proj_demo p)) projects = replicate 3 (Some ''/YOUR_LIVE_DEMO_LINK_HERE'') \<and>
   ''/YOUR_LIVE_DEMO_LINK_HERE'' \<notin> set app_routes"
  by (simp add: projects_def href_kind_def relative_target_def app_routes_def numeral_3_eq_3)

end
