(* ===== verification/Js_Time.thy ===== *)
theory Js_Time
  imports Prelude
begin

text \<open>
  The date arithmetic of ECMAScript (ECMA-262, section "Date Objects"), which
  \<open>new Date().getFullYear()\<close> in the page's footer runs: a time value is an integer
  number of milliseconds since 1970-01-01 UTC, \<open>Day(t)\<close> is its day number (floor
  division), and \<open>DayFromYear(y)\<close> is the day number of the first day of year
  \<open>y\<close> in the proleptic Gregorian calendar, given by the standard's closed formula.
  JavaScript numbers that hold integers are \<open>int\<close>; \<open>div\<close> on \<open>int\<close> is
  floor division, as the standard's \<open>floor\<close> of a quotient. The lemmas show that
  consecutive years differ by \<open>DaysInYear\<close>, so \<open>DayFromYear\<close> is strictly
  increasing, which is what makes the standard's "largest year" well defined.
\<close>

definition msPerDay :: int where
  "msPerDay = 86400000"

text \<open>\<open>Day(t) = floor(t / msPerDay)\<close>.\<close>

definition Day :: "int \<Rightarrow> int" where
  "Day t = t div msPerDay"

definition DaysInYear :: "int \<Rightarrow> int" where
  "DaysInYear y =
     (if y mod 4 \<noteq> 0 then 365 else if y mod 100 \<noteq> 0 then 366 else if y mod 400 \<noteq> 0 then 365 else 366)"

definition DayFromYear :: "int \<Rightarrow> int" where
  "DayFromYear y = 365 * (y - 1970) + (y - 1969) div 4 - (y - 1901) div 100 + (y - 1601) div 400"

definition TimeFromYear :: "int \<Rightarrow> int" where
  "TimeFromYear y = msPerDay * DayFromYear y"

section \<open>Lemmas\<close>

lemma div_succ:
  fixes x k :: int
  assumes k: "0 < k"
  shows "(x + 1) div k = x div k + (if (x + 1) mod k = 0 then 1 else 0)"
proof -
  have x: "x = k * (x div k) + x mod k" by simp
  have r: "0 \<le> x mod k" "x mod k < k" using k by simp_all
  show ?thesis
  proof (cases "x mod k + 1 = k")
    case True
    have "x + 1 = k * (x div k) + k" using x True by linarith
    then have "x + 1 = k * (x div k + 1) + 0" by (simp add: distrib_left)
    with k have "(x + 1) div k = x div k + 1" "(x + 1) mod k = 0"
      by (auto intro: int_div_pos_eq int_mod_pos_eq)
    then show ?thesis by simp
  next
    case False
    with r have r1: "0 \<le> x mod k + 1" "x mod k + 1 < k" by linarith+
    have e: "x + 1 = k * (x div k) + (x mod k + 1)" using x by linarith
    from r have "x mod k + 1 \<noteq> 0" by linarith
    with int_div_pos_eq [OF e r1] int_mod_pos_eq [OF e r1] show ?thesis by simp
  qed
qed
lemma div_succ_at:
  fixes y c k :: int
  assumes "0 < k" and "k dvd c - 1"
  shows "(y + 1 - c) div k = (y - c) div k + (if y mod k = 0 then 1 else 0)"
proof -
  have e: "y + 1 - c = (y - c) + 1" by simp
  have "k dvd (y - c) + 1 \<longleftrightarrow> k dvd y"
  proof -
    have eq: "(y - c) + 1 = y - (c - 1)" by simp
    show ?thesis unfolding eq by (rule dvd_diff_left_iff [OF assms(2)])
  qed
  then have "((y - c) + 1) mod k = 0 \<longleftrightarrow> y mod k = 0" by (simp add: dvd_eq_mod_eq_0)
  then show ?thesis unfolding e using div_succ [OF assms(1), of "y - c"] by simp
qed

lemma leap_mods:
  fixes y :: int
  shows "y mod 100 = 0 \<Longrightarrow> y mod 4 = 0" and "y mod 400 = 0 \<Longrightarrow> y mod 100 = 0"
proof -
  show "y mod 100 = 0 \<Longrightarrow> y mod 4 = 0"
    using dvd_trans [of 4 100 y] by (simp add: dvd_eq_mod_eq_0)
  show "y mod 400 = 0 \<Longrightarrow> y mod 100 = 0"
    using dvd_trans [of 100 400 y] by (simp add: dvd_eq_mod_eq_0)
qed

lemma DayFromYear_step: "DayFromYear (y + 1) = DayFromYear y + DaysInYear y"
proof -
  have f: "(y + 1 - 1969) div 4 = (y - 1969) div 4 + (if y mod 4 = 0 then 1 else 0)"
    "(y + 1 - 1901) div 100 = (y - 1901) div 100 + (if y mod 100 = 0 then 1 else 0)"
    "(y + 1 - 1601) div 400 = (y - 1601) div 400 + (if y mod 400 = 0 then 1 else 0)"
    by (rule div_succ_at; simp)+
  have e: "365 * (y + 1 - 1970) = 365 * (y - 1970) + (365::int)" by (simp add: algebra_simps)
  show ?thesis
    unfolding DayFromYear_def DaysInYear_def f e
    using leap_mods [of y] by (simp split: if_split)
qed

lemma DayFromYear_less: "DayFromYear y < DayFromYear (y + 1)"
  using DayFromYear_step [of y] by (simp add: DaysInYear_def)

lemma DayFromYear_strict_mono: "a < b \<Longrightarrow> DayFromYear a < DayFromYear b"
proof -
  assume "a < b"
  then obtain n where b: "b = a + int (Suc n)" using zless_iff_Suc_zadd by blast
  have "DayFromYear a < DayFromYear (a + int (Suc n))"
  proof (induction n)
    case 0
    then show ?case using DayFromYear_less [of a] by simp
  next
    case (Suc n)
    have "DayFromYear a < DayFromYear (a + int (Suc n) + 1)"
      using Suc.IH DayFromYear_less [of "a + int (Suc n)"] by (rule less_trans)
    moreover have "a + int (Suc n) + 1 = a + int (Suc (Suc n))" by simp
    ultimately show ?case by (simp only:)
  qed
  with b show ?thesis by simp
qed

lemma DayFromYear_less_iff [simp]: "DayFromYear a < DayFromYear b \<longleftrightarrow> a < b"
  by (metis DayFromYear_strict_mono not_less_iff_gr_or_eq order_less_asym)

lemma DayFromYear_le_iff [simp]: "DayFromYear a \<le> DayFromYear b \<longleftrightarrow> a \<le> b"
  by (meson DayFromYear_less_iff not_less)

lemma DayFromYear_1970 [simp]: "DayFromYear 1970 = 0"
  by (simp add: DayFromYear_def)

lemma mult_le_iff_le_div:
  fixes k a t :: int
  assumes "0 < k"
  shows "k * a \<le> t \<longleftrightarrow> a \<le> t div k"
proof
  assume "k * a \<le> t"
  then have "(k * a) div k \<le> t div k" using assms by (rule zdiv_mono1)
  then show "a \<le> t div k" using assms by simp
next
  assume "a \<le> t div k"
  then have "k * a \<le> k * (t div k)" using assms by simp
  also have "\<dots> \<le> t" using assms pos_mod_sign [of k t] by (metis le_add_same_cancel1 mult_div_mod_eq)
  finally show "k * a \<le> t" .
qed

lemma TimeFromYear_le_iff: "TimeFromYear y \<le> t \<longleftrightarrow> DayFromYear y \<le> Day t"
  by (simp add: TimeFromYear_def Day_def msPerDay_def mult_le_iff_le_div)

end
