(* ===== verification/Footer.thy ===== *)
theory Footer
  imports Js_Time
begin

text \<open>
  The page's footer (\<open>src/app/page.tsx\<close>, lines 1082--1085) prints
  \<open>&copy; {new Date().getFullYear()} Ken Tuei. All Rights Reserved.\<close>: the year of
  the current time in the local time zone, rendered as a decimal string between two
  text nodes. \<open>YearFromTime\<close> is the standard's "largest integral \<open>y\<close> such that
  \<open>TimeFromYear(y) \<le> t\<close>", computed by a search from 1970 upwards or downwards;
  its termination measure is the distance in days to the target, which shrinks
  because \<open>DayFromYear\<close> is strictly increasing. \<open>getFullYear\<close> applies it to the
  local time \<open>t + tz\<close>, \<open>tz\<close> being the time zone offset in milliseconds.

  The page is a client component, so Next.js renders its HTML ahead of time (at
  build time for this static page) and React renders it again in the visitor's
  browser to hydrate it; \<open>hydration_mismatch\<close> compares the two footers.
\<close>

section \<open>Year from time\<close>

function year_up :: "int \<Rightarrow> int \<Rightarrow> int" where
  "year_up d y = (if DayFromYear (y + 1) \<le> d then year_up d (y + 1) else y)"
  by pat_completeness auto
termination
  by (relation "measure (\<lambda>(d, y). nat (d - DayFromYear y))") (auto intro: less_le_trans [OF DayFromYear_less])

function year_down :: "int \<Rightarrow> int \<Rightarrow> int" where
  "year_down d y = (if d < DayFromYear y then year_down d (y - 1) else y)"
  by pat_completeness auto
termination
  by (relation "measure (\<lambda>(d, y). nat (DayFromYear y - d))") auto

definition YearFromDay :: "int \<Rightarrow> int" where
  "YearFromDay d = (if 0 \<le> d then year_up d 1970 else year_down d 1969)"

definition YearFromTime :: "int \<Rightarrow> int" where
  "YearFromTime t = YearFromDay (Day t)"

definition getFullYear :: "int \<Rightarrow> int \<Rightarrow> int" where
  "getFullYear tz t = YearFromTime (t + tz)"

section \<open>Rendering the year\<close>

definition digit_char :: "nat \<Rightarrow> char" where
  "digit_char n = char_of (48 + n)"

fun dec_nat :: "nat \<Rightarrow> string" where
  "dec_nat n = (if n < 10 then [digit_char n] else dec_nat (n div 10) @ [digit_char (n mod 10)])"

definition js_num_str :: "int \<Rightarrow> string" where
  "js_num_str i = (if i < 0 then CHR ''-'' # dec_nat (nat (- i)) else dec_nat (nat i))"

definition parse_dec :: "string \<Rightarrow> nat" where
  "parse_dec s = foldl (\<lambda>acc c. 10 * acc + (of_char c - 48)) 0 s"

definition footer_text :: "int \<Rightarrow> string" where
  "footer_text year = [CHR 0xC2, CHR 0xA9] @ '' '' @ js_num_str year @ '' Ken Tuei. All Rights Reserved.''"

definition hydration_mismatch :: "int \<Rightarrow> int \<Rightarrow> int \<Rightarrow> int \<Rightarrow> bool" where
  "hydration_mismatch tz_server t_build tz_client t_client \<longleftrightarrow>
     footer_text (getFullYear tz_server t_build) \<noteq> footer_text (getFullYear tz_client t_client)"

declare year_up.simps [simp del] year_down.simps [simp del] dec_nat.simps [simp del]

section \<open>Lemmas\<close>

lemma year_up_bounds:
  "DayFromYear y \<le> d \<Longrightarrow> DayFromYear (year_up d y) \<le> d \<and> d < DayFromYear (year_up d y + 1)"
proof (induction d y rule: year_up.induct)
  case (1 d y)
  then show ?case by (cases "DayFromYear (y + 1) \<le> d") (simp_all add: year_up.simps [of d y])
qed

lemma year_down_bounds:
  "d < DayFromYear (y + 1) \<Longrightarrow> DayFromYear (year_down d y) \<le> d \<and> d < DayFromYear (year_down d y + 1)"
proof (induction d y rule: year_down.induct)
  case (1 d y)
  then show ?case by (cases "d < DayFromYear y") (simp_all add: year_down.simps [of d y])
qed

lemma YearFromDay_bounds:
  "DayFromYear (YearFromDay d) \<le> d \<and> d < DayFromYear (YearFromDay d + 1)"
proof (cases "0 \<le> d")
  case True
  then show ?thesis using year_up_bounds [of 1970 d] by (simp add: YearFromDay_def)
next
  case False
  then show ?thesis using year_down_bounds [of d 1969] by (simp add: YearFromDay_def)
qed

lemma YearFromTime_bounds:
  "TimeFromYear (YearFromTime t) \<le> t \<and> t < TimeFromYear (YearFromTime t + 1)"
  using YearFromDay_bounds [of "Day t"]
  by (simp add: YearFromTime_def TimeFromYear_le_iff not_le [symmetric])

lemma less_TimeFromYear_iff: "t < TimeFromYear y \<longleftrightarrow> Day t < DayFromYear y"
  by (simp add: not_le [symmetric] TimeFromYear_le_iff)

lemma YearFromTime_eqI:
  assumes "TimeFromYear y \<le> t" and "t < TimeFromYear (y + 1)"
  shows "YearFromTime t = y"
proof -
  let ?Y = "YearFromTime t"
  have y: "DayFromYear y \<le> Day t" "Day t < DayFromYear (y + 1)"
    using assms by (simp_all add: TimeFromYear_le_iff less_TimeFromYear_iff)
  have Y: "DayFromYear ?Y \<le> Day t" "Day t < DayFromYear (?Y + 1)"
    using YearFromTime_bounds [of t] by (simp_all add: TimeFromYear_le_iff less_TimeFromYear_iff)
  have "DayFromYear y < DayFromYear (?Y + 1)" using y(1) Y(2) by (rule le_less_trans)
  moreover have "DayFromYear ?Y < DayFromYear (y + 1)" using Y(1) y(2) by (rule le_less_trans)
  ultimately show ?thesis by simp
qed

lemma of_char_digit_char: "n < 10 \<Longrightarrow> of_char (digit_char n) = 48 + n"
  by (simp add: digit_char_def)

lemma dec_nat_digits: "c \<in> set (dec_nat n) \<Longrightarrow> 48 \<le> (of_char c :: nat) \<and> of_char c \<le> (57 :: nat)"
proof (induction n rule: dec_nat.induct)
  case (1 n)
  then show ?case
    by (cases "n < 10") (auto simp: dec_nat.simps [of n] of_char_digit_char)
qed

lemma parse_dec_snoc: "parse_dec (s @ [c]) = 10 * parse_dec s + (of_char c - 48)"
  by (simp add: parse_dec_def)

lemma parse_dec_nat: "parse_dec (dec_nat n) = n"
proof (induction n rule: dec_nat.induct)
  case (1 n)
  show ?case
  proof (cases "n < 10")
    case True
    then show ?thesis by (simp add: dec_nat.simps [of n] parse_dec_def of_char_digit_char)
  next
    case False
    with "1.IH" show ?thesis by (simp add: dec_nat.simps [of n] parse_dec_snoc of_char_digit_char)
  qed
qed

lemma dec_nat_inj: "dec_nat m = dec_nat n \<Longrightarrow> m = n"
  by (metis parse_dec_nat)

lemma dec_nat_not_minus: "dec_nat n \<noteq> CHR ''-'' # s"
proof
  assume "dec_nat n = CHR ''-'' # s"
  then have "CHR ''-'' \<in> set (dec_nat n)" by simp
  from dec_nat_digits [OF this] show False by simp
qed

lemma js_num_str_inj: "js_num_str a = js_num_str b \<Longrightarrow> a = b"
proof -
  assume e: "js_num_str a = js_num_str b"
  consider "a < 0" "b < 0" | "a < 0" "\<not> b < 0" | "\<not> a < 0" "b < 0" | "\<not> a < 0" "\<not> b < 0"
    by blast
  then show "a = b"
  proof cases
    case 1
    with e have "nat (- a) = nat (- b)" by (simp add: js_num_str_def dec_nat_inj)
    with 1 show ?thesis by simp
  next
    case 2
    with e dec_nat_not_minus [of "nat b" "dec_nat (nat (- a))"] show ?thesis
      by (simp add: js_num_str_def)
  next
    case 3
    with e dec_nat_not_minus [of "nat a" "dec_nat (nat (- b))"] show ?thesis
      by (simp add: js_num_str_def)
  next
    case 4
    with e have "nat a = nat b" by (simp add: js_num_str_def dec_nat_inj)
    with 4 show ?thesis by simp
  qed
qed

lemma footer_text_inj: "footer_text a = footer_text b \<longleftrightarrow> a = b"
  by (auto simp: footer_text_def dest: js_num_str_inj)

lemma getFullYear_new_year:
  "getFullYear 0 1767222000000 = 2025" "getFullYear 10800000 1767222000000 = 2026"
  by (simp_all add: getFullYear_def YearFromTime_eqI TimeFromYear_def DayFromYear_def msPerDay_def)

text \<open>
  \<open>getFullYear\<close> computes the year the standard defines: the search returns
  the largest \<open>y\<close> whose first millisecond \<open>TimeFromYear(y)\<close> is not after the
  local time, i.e. a year \<open>y\<close> has begun at local time \<open>t + tz\<close> exactly when it is
  not after the year the footer prints.
\<close>

lemma getFullYear_spec: "TimeFromYear y \<le> t + tz \<longleftrightarrow> y \<le> getFullYear tz t"
proof -
  let ?Y = "getFullYear tz t"
  have Y: "DayFromYear ?Y \<le> Day (t + tz)" "Day (t + tz) < DayFromYear (?Y + 1)"
    using YearFromTime_bounds [of "t + tz"]
    by (simp_all add: getFullYear_def TimeFromYear_le_iff less_TimeFromYear_iff)
  show ?thesis
  proof
    assume "TimeFromYear y \<le> t + tz"
    then have "DayFromYear y \<le> Day (t + tz)" by (simp add: TimeFromYear_le_iff)
    then have "DayFromYear y < DayFromYear (?Y + 1)" using Y(2) by (rule le_less_trans)
    then show "y \<le> ?Y" by simp
  next
    assume "y \<le> ?Y"
    then have "DayFromYear y \<le> DayFromYear ?Y" by simp
    then have "DayFromYear y \<le> Day (t + tz)" using Y(1) by (rule order_trans)
    then show "TimeFromYear y \<le> t + tz" by (simp add: TimeFromYear_le_iff)
  qed
qed

text \<open>
  The footer rendered ahead of time and the footer rendered in the visitor's
  browser differ exactly when the two renderings see different years (another
  year since the build, or another time zone at the turn of the year), and React
  then reports a hydration mismatch; the decimal rendering of the year is
  injective, since reading its digits back gives the number.
\<close>

lemma footer_hydration_mismatch:
  "hydration_mismatch tz_server t_build tz_client t_client \<longleftrightarrow>
   getFullYear tz_server t_build \<noteq> getFullYear tz_client t_client"
  by (simp add: hydration_mismatch_def footer_text_inj)

section \<open>Properties\<close>

text \<open>
  C32. The footer shows the visitor's local calendar year: whenever the local time
  \<open>t + tz\<close> lies in year \<open>y\<close> (between the first millisecond of \<open>y\<close> and that of
  \<open>y + 1\<close>), the paragraph reads \<open>\<copyright> y Ken Tuei. All Rights Reserved.\<close> with
  \<open>y\<close> in decimal.
\<close>

theorem footer_shows_local_year:
  assumes "0 \<le> y" and "TimeFromYear y \<le> t + tz" and "t + tz < TimeFromYear (y + 1)"
  shows "footer_text (getFullYear tz t) =
           [CHR 0xC2, CHR 0xA9] @ '' '' @ dec_nat (nat y) @ '' Ken Tuei. All Rights Reserved.''"
proof -
  have "getFullYear tz t = y"
    using assms(2,3) by (simp add: getFullYear_def YearFromTime_eqI add.commute)
  with assms(1) show ?thesis by (simp add: footer_text_def js_num_str_def)
qed

theorem footer_shows_local_year_witness:
  "0 \<le> (2026::int) \<and> TimeFromYear 2026 \<le> 1767222000000 + 10800000 \<and>
   1767222000000 + 10800000 < TimeFromYear (2026 + 1) \<and>
   footer_text (getFullYear 10800000 1767222000000) =
     [CHR 0xC2, CHR 0xA9] @ '' 2026 Ken Tuei. All Rights Reserved.''"
proof -
  have h: "0 \<le> (2026::int)" "TimeFromYear 2026 \<le> 1767222000000 + 10800000"
    "1767222000000 + 10800000 < TimeFromYear (2026 + 1)"
    by (simp_all add: TimeFromYear_def DayFromYear_def msPerDay_def)
  have d: "dec_nat (nat 2026) = ''2026''"
    using char_of_char [of "CHR ''0''"] char_of_char [of "CHR ''2''"] char_of_char [of "CHR ''6''"]
    by (simp add: dec_nat.simps digit_char_def)
  from footer_shows_local_year [OF h] d h show ?thesis by simp
qed

end
