(* ===== verification/Static_Sections.thy ===== *)
theory Static_Sections
  imports Email_Input Footer Projects
begin

text \<open>
  The sections of \<open>src/app/page.tsx\<close> without state or handlers, as the data they
  display: the hero's text, actions and profile card (lines 250--320), the about
  section's paragraphs (lines 322--363), the three services (lines 364--396), the
  three skill groups with their badges (lines 457--597), the three experience
  entries (lines 600--653) and the contact details (lines 962--1010). Text is as
  the browser shows it: JSX drops whitespace that contains a line break and joins
  the lines of a text with one space, and \<open>{" "}\<close> is a space. Non-ASCII
  characters are written as their UTF-8 bytes. The hero's two actions are a
  \<open>button\<close> without a handler outside any form, which does nothing when
  clicked, and a link to the resume.
  The periods are strings such as \<open>"Feb 2024 - Dec 2024"\<close>; \<open>parse_period\<close>
  reads them back, which checks that each period is well formed, ends no earlier
  than it starts, and that the entries are listed newest first.
\<close>

section \<open>Data\<close>

record hero =
  hero_heading :: string
  hero_paragraphs :: "string list"
  profile_name :: string
  profile_role :: string
  profile_links :: "string list"

definition hero_section :: hero where
  "hero_section =
    \<lparr>hero_heading = ''Hi, I'm Ken Tuei'',
     hero_paragraphs =
       [''I hold a degree in Software Engineering and I'm passionate about Software Development, '' @
        ''Cloud Computing, and Web Technologies.'',
        ''I'm also a certified IBM Cloud Practitioner.''],
     profile_name = ''KEN TUEI'', profile_role = ''Full Stack Web Developer'',
     profile_links = [''https://github.com/KenTuei'', ''https://www.linkedin.com/in/ken-kipkirui-tuei-2965271b8'']\<rparr>"

definition about_paragraphs :: "string list" where
  "about_paragraphs =
    [''Hello! I'm Ken - a Full-Stack Web Developer and IT Professional passionate about building '' @
     ''functional and visually appealing web applications. I specialize in integrating modern web '' @
     ''technologies to create data-driven solutions.'',
     ''Proficient in JavaScript (React.js, Angular), Python (Flask), SQL, and cloud technologies. '' @
     ''I also work with tools like modern frameworks and development best practices.'',
     ''I'm a certified IBM Cloud Practitioner and currently open to exciting new opportunities - '' @
     ''feel free to reach out!'']"

record service =
  service_icon :: string
  service_title :: string
  service_text :: string

definition services :: "service list" where
  "services =
    [\<lparr>service_icon = ''Monitor'', service_title = ''Web Development'',
      service_text = ''I build responsive and high-performance websites and web applications using '' @
        ''modern technologies.''\<rparr>,
     \<lparr>service_icon = ''Smartphone'', service_title = ''Mobile App Development'',
      service_text = ''I create cross-platform mobile applications that work seamlessly on both iOS '' @
        ''and Android devices.''\<rparr>,
     \<lparr>service_icon = ''Figma'', service_title = ''Full-Stack Development'',
      service_text = ''I build comprehensive, end-to-end web applications, handling both the front-end '' @
        ''user interface and the back-end server logic and databases.''\<rparr>]"

record skill =
  skill_badge :: string
  skill_name :: string
  skill_kind :: string

definition skill_groups :: "(string \<times> skill list) list" where
  "skill_groups =
    [(''Languages'',
      [\<lparr>skill_badge = ''5'', skill_name = ''HTML5'', skill_kind = ''Markup Language''\<rparr>,
       \<lparr>skill_badge = ''JS'', skill_name = ''JavaScript'', skill_kind = ''Programming Language''\<rparr>,
       \<lparr>skill_badge = ''Py'', skill_name = ''Python'', skill_kind = ''Programming Language''\<rparr>,
       \<lparr>skill_badge = ''SQL'', skill_name = ''SQL'', skill_kind = ''Database Language''\<rparr>]),
     (''Frameworks & Libraries'',
      [\<lparr>skill_badge = ''FL'', skill_name = ''Flask'', skill_kind = ''Python Web Framework''\<rparr>,
       \<lparr>skill_badge = ''R'', skill_name = ''React'', skill_kind = ''JavaScript Library''\<rparr>,
       \<lparr>skill_badge = ''SA'', skill_name = ''SQLAlchemy'', skill_kind = ''Python SQL Toolkit''\<rparr>,
       \<lparr>skill_badge = ''A'', skill_name = ''Angular'', skill_kind = ''TypeScript Framework''\<rparr>]),
     (''Tools & Technologies'',
      [\<lparr>skill_badge = ''Git'', skill_name = ''Git'', skill_kind = ''Version Control''\<rparr>,
       \<lparr>skill_badge = ''TW'', skill_name = ''Tailwind CSS'', skill_kind = ''CSS Framework''\<rparr>,
       \<lparr>skill_badge = ''IBM'', skill_name = ''IBM'', skill_kind = ''Cloud Platform''\<rparr>,
       \<lparr>skill_badge = ''CSS'', skill_name = ''CSS3'', skill_kind = ''Styling Language''\<rparr>])]"

record job =
  job_title :: string
  job_org :: string
  job_period :: string
  job_points :: "string list"

definition experiences :: "job list" where
  "experiences =
    [\<lparr>job_title = ''Freelance Web Developer'', job_org = ''Nairobi, Kenya'',
      job_period = ''Feb 2024 - Dec 2024'',
      job_points =
        [''Worked on various client projects, building and maintaining web applications tailored to '' @
         ''client requirements'',
         ''Developed responsive user interfaces using React and Tailwind CSS'',
         ''Ensured timely delivery of features while maintaining code quality and usability standards'']\<rparr>,
     \<lparr>job_title = ''IT Attach'' @ [CHR 0xC3, CHR 0xA9],
      job_org = ''National Health Insurance Fund (NHIF)'', job_period = ''Jan 2024 - Dec 2024'',
      job_points =
        [''Assisted in troubleshooting and resolving hardware, software, and network issues across '' @
         ''NHIF offices'',
         ''Participated in collecting, cleaning, and organizing healthcare data for analysis and reporting'',
         ''Assisted in generating periodic reports'']\<rparr>,
     \<lparr>job_title = ''Guest & Staff'', job_org = ''Ministry of Education (Kenya Music Festival)'',
      job_period = ''2023 - 2024'',
      job_points =
        [''Attended the 97th Kenya Music Festival (National Level) and contributed to activities '' @
         ''celebrating music, arts, and culture'',
         ''Participated in the 2nd Kenya Music Festival International Conference, engaging with '' @
         ''stakeholders on the role of creative industries in sustainable development'',
         ''Awarded a Certificate of Appreciation and a Certificate of Participation for active '' @
         ''involvement and contribution'']\<rparr>]"

datatype hero_action = Plain_Button string | External_Link string string

definition hero_actions :: "hero_action list" where
  "hero_actions =
    [Plain_Button ''View Projects'',
     External_Link ''View Resume''
       ''https://macro.com/app/pdf/230ff6b9-e298-4bfa-ad83-30c071cbad36?pdf_page_number=1&pdf_page_y=0'']"

record contact_details =
  cd_location :: string
  cd_email :: string
  cd_phone :: string
  cd_links :: "string list"

definition contact_info :: contact_details where
  "contact_info =
    \<lparr>cd_location = ''Nairobi, Kenya'', cd_email = ''kentuei05@gmail.com'', cd_phone = ''+254115728094'',
     cd_links =
       [''https://github.com/KenTuei'', ''https://www.linkedin.com/in/ken-kipkirui-tuei-2965271b8'',
        ''https://www.facebook.com/ken.tuei.whittle?mibextid=wwXIfr&rdid=4ydSz1mdGnQlitUl&share_url='' @
        ''https%3A%2F%2Fwww.facebook.com%2Fshare%2F1CFRPuZQyo%2F%3Fmibextid%3DwwXIfr'']\<rparr>"

section \<open>Reading the periods\<close>

definition month_names :: "string list" where
  "month_names = [''Jan'', ''Feb'', ''Mar'', ''Apr'', ''May'', ''Jun'', ''Jul'', ''Aug'', ''Sep'',
     ''Oct'', ''Nov'', ''Dec'']"

definition is_digit :: "char \<Rightarrow> bool" where
  "is_digit c \<longleftrightarrow> (48::nat) \<le> of_char c \<and> of_char c \<le> (57::nat)"

definition parse_year :: "string \<Rightarrow> nat option" where
  "parse_year s = (if s \<noteq> [] \<and> list_all is_digit s then Some (parse_dec s) else None)"

text \<open>A month and year (or a year alone) as a month count; a bare year counts from January.\<close>

definition parse_month_year :: "string \<Rightarrow> nat option" where
  "parse_month_year s =
     (case split_on (CHR '' '') (strip_ws s) of
        [y] \<Rightarrow> map_option (\<lambda>y. 12 * y) (parse_year y)
      | [m, y] \<Rightarrow>
          (case map_of (zip month_names [0..<12]) m of
             Some k \<Rightarrow> map_option (\<lambda>y. 12 * y + k) (parse_year y)
           | None \<Rightarrow> None)
      | _ \<Rightarrow> None)"

definition parse_period :: "string \<Rightarrow> (nat \<times> nat) option" where
  "parse_period s =
     (case split_on (CHR ''-'') s of
        [a, b] \<Rightarrow>
          (case (parse_month_year a, parse_month_year b) of
             (Some x, Some y) \<Rightarrow> Some (x, y)
           | _ \<Rightarrow> None)
      | _ \<Rightarrow> None)"

definition period_ok :: "string \<Rightarrow> bool" where
  "period_ok s = (case parse_period s of Some (x, y) \<Rightarrow> x \<le> y | None \<Rightarrow> False)"

definition period_start :: "string \<Rightarrow> nat" where
  "period_start s = (case parse_period s of Some (x, y) \<Rightarrow> x | None \<Rightarrow> 0)"

section \<open>Lemmas\<close>

lemma experiences_periods:
  "list_all (\<lambda>j. period_ok (job_period j)) experiences \<and>
   sorted_wrt (\<ge>) (map (\<lambda>j. period_start (job_period j)) experiences)"
  by (simp add: experiences_def period_ok_def period_start_def parse_period_def
      parse_month_year_def parse_year_def is_digit_def month_names_def upt_rec parse_dec_def
      strip_ws_def ascii_ws_def)

text \<open>
  The contact details are usable as written: the address shown is a valid e-mail
  address of the HTML standard's grammar, the phone number is in international
  form (a plus sign and at most 15 digits), and every social link, here and under
  the hero's profile, is an absolute URL.
\<close>

lemma contact_info_wellformed:
  "email_lang (cd_email contact_info) \<and>
   (\<exists>ds. cd_phone contact_info = CHR ''+'' # ds \<and> list_all is_digit ds \<and> length ds \<le> 15) \<and>
   list_all (\<lambda>h. href_kind h = Absolute h) (cd_links contact_info @ profile_links hero_section)"
proof -
  have "valid_email (cd_email contact_info)"
    by (simp add: contact_info_def email_eval)
  then have "email_lang (cd_email contact_info)" by (simp add: valid_email_iff)
  moreover have "\<exists>ds. cd_phone contact_info = CHR ''+'' # ds \<and> list_all is_digit ds \<and> length ds \<le> 15"
    by (simp add: contact_info_def is_digit_def)
  moreover have "list_all (\<lambda>h. href_kind h = Absolute h) (cd_links contact_info @ profile_links hero_section)"
    by (simp add: contact_info_def hero_section_def href_kind_def)
  ultimately show ?thesis by blast
qed

end
