(* ===== verification/Spec2Isabelle.thy ===== *)
theory Spec2Isabelle
  imports Page Contact_Email Layout Projects Footer Static_Sections
begin

text \<open>
  \<^bold>\<open>A verification development of the one-page portfolio site.\<close>

  \<^bold>\<open>The program.\<close> \<open>src/app/page.tsx\<close> is a single React client component
  \<open>App\<close>; \<open>src/app/layout.tsx\<close> only wraps it in \<open>html\<close>/\<open>body\<close> and sets the
  page metadata. \<open>App\<close> keeps a handful of independent \<open>useState\<close> slots, each
  read and written by one section of the page: the contact form (\<open>formData\<close>,
  \<open>status\<close>, \<open>emailJsLoaded\<close>), the certification lightbox (\<open>modalOpen\<close>,
  \<open>modalImageSrc\<close>, \<open>modalImageAlt\<close>), the work-process tabs (\<open>activeStep\<close>) and
  the mobile menu (\<open>menuOpen\<close>). One \<open>useEffect\<close> inserts the EmailJS CDN script
  and removes it on unmount; the script's \<open>onload\<close> sets \<open>emailJsLoaded\<close>, the
  only link between two slices. The contact form's submit handler calls
  \<open>window.emailjs.send\<close>, whose promise later fulfils or rejects. Everything else
  (hero, about, services, skills, experience, projects) is static markup, with
  links whose targets the browser resolves, and the footer prints the current year.

  \<^bold>\<open>The theories.\<close>
  \<^item> \<open>Prelude\<close>: JavaScript objects as maps (\<open>js_object\<close>), array reads that may give
    \<open>undefined\<close> (\<open>js_index\<close>), \<open>remove_nth\<close>, and the collections
    \<open>handler_simps\<close> and \<open>guard_simps\<close> into which the components put their
    handler equations and browser-side enabling conditions.
  \<^item> \<open>Contact_Spec\<close>: the contract of the contact form as the specification words
    it (a record of four fields, four statuses, the list of payloads sent) as the
    step relation \<open>spec_step\<close>. Nothing in it is mapped to code.
  \<^item> \<open>Email_Input\<close>: what the browser does for the form's controls, from the
    HTML standard (browser behaviour, not code of the repository, so nothing in it
    is mapped to lines): the \<^emph>\<open>valid e-mail address\<close> check as an executable
    checker \<open>valid_email\<close> (split at \<open>@\<close> and at dots) proved equal to the
    standard's grammar \<open>email_lang\<close> (\<open>valid_email_iff\<close>), and the value
    sanitization of text inputs, email inputs and textareas, with their
    idempotence.
  \<^item> \<open>Contact_Form\<close>: the form's state record \<open>contact_state\<close>, the handlers
    \<open>handleChange\<close>, \<open>handleSubmit\<close> (with \<open>emailjs_send\<close>), the promise
    continuations \<open>send_fulfilled\<close>/\<open>send_rejected\<close> and \<open>script_onload\<close>
    (page.tsx lines 26--106), and the rendered form (lines 1013--1077): the
    kind of each control and the value it reports (\<open>control_of\<close>,
    \<open>control_value\<close>), the \<open>required\<close> and \<open>type="email"\<close> checks
    \<open>form_valid\<close> (with \<open>type_mismatch\<close>), the disabled button \<open>submit_disabled\<close>,
    labels and messages. \<open>contact_step\<close> is the browser's dispatch of the form's
    events with their guards; \<open>contact_dispatch\<close>/\<open>contact_run\<close> compute it. An
    outstanding \<open>emailjs.send\<close> is an element of the queue \<open>pending\<close>, and every call
    is logged in \<open>sent\<close>; promises settle by their own events, in any order, so the
    interleaving of typing, clicking and network completion is explicit.
  \<^item> \<open>Contact_Email\<close>: the address field through the whole flow: the stored
    value is always sanitized (the invariant \<open>email_clean\<close>), a malformed
    address blocks the submission, and every request sent carries an address of
    the grammar.
  \<^item> \<open>Cert_Modal\<close>: \<open>openModal\<close>, \<open>closeModal\<close> (lines 44--58), the four
    certificate cards (lines 809--959) and the modal's markup (lines 1088--1107),
    with DOM event bubbling (\<open>bubble_path\<close>, terminating by the depth measure) and
    \<open>e.target === e.currentTarget\<close>.
  \<^item> \<open>Work_Process\<close>: the \<open>steps\<close> data and \<open>renderTerminalOutput\<close> (lines
    108--170, with the \<open>TypeError\<close> of \<open>undefined.title\<close> as an error value), the
    tab labels and \<open>setActiveStep(index + 1)\<close> (lines 409--437).
  \<^item> \<open>Nav_Menu\<close>: the two hand-written link lists, the section ids they point to,
    the hamburger toggle and which links each viewport shows (lines 174--248).
  \<^item> \<open>Script_Loader\<close>: the effect of lines 60--70 over a body of nodes with
    identities: \<open>effect_mount\<close> appends a fresh script, \<open>effect_cleanup\<close> calls
    \<open>removeChild\<close>, which fails with \<open>NotFoundError\<close> on a detached node.
  \<^item> \<open>Image_Fallback\<close>: the \<open>onError\<close> handlers of the six images (hero and
    about profile pictures, lines 291--345, without a null check; the four
    certificates, lines 820--953, with one) over a frame given as its children with
    their \<open>style.display\<close>; a thrown \<open>TypeError\<close> is a value next to the state the
    handler leaves.
  \<^item> \<open>Projects\<close>: the three project cards (lines 656--800) as data, and where
    their links lead when the browser resolves them (\<open>project_links\<close>: every
    "Live Demo" link opens \<open>/YOUR_LIVE_DEMO_LINK_HERE\<close>, which is no route of the
    app).
  \<^item> \<open>Js_Time\<close> and \<open>Footer\<close>: the footer's \<open>new Date().getFullYear()\<close>
    (line 1084) over the ECMAScript date arithmetic (\<open>DayFromYear\<close>,
    \<open>TimeFromYear\<close>, \<open>Day\<close>: browser semantics, not mapped to lines). The year
    is found by a search from 1970 that terminates because \<open>DayFromYear\<close> is
    strictly increasing (its measure is the distance in days); the decimal rendering
    of the year reads back to the number, so the footer text determines the year.
    The prerendered and the hydrated footer are compared in
    \<open>hydration_mismatch\<close>.
  \<^item> \<open>Static_Sections\<close>: the hero, about, services, skills, experience and
    contact-details sections as the data and text they display (lines 250--363,
    364--396, 457--653, 962--1010); the experience periods are read back by
    \<open>parse_period\<close> (\<open>experiences_periods\<close>: each is well formed and ends no
    earlier than it starts, and the entries are newest first), and the contact
    details are usable (\<open>contact_info_wellformed\<close>: the address shown is in the
    e-mail grammar of \<open>Email_Input\<close>, the phone number is international, the
    social links are absolute).
  \<^item> \<open>Layout\<close>: \<open>src/app/layout.tsx\<close>, the metadata and \<open>RootLayout\<close> as a
    markup tree around the page (no state, no handler, nothing to prove beyond the
    definitions).
  \<^item> \<open>Page\<close>: the whole component, \<open>page_state\<close>, and \<open>page_step\<close>, one rule per
    section's event (including a click on a navigation link, which sets the
    location's fragment, and an image's load error, which runs that image's
    \<open>onError\<close>) plus the mount/unmount of the effect and other code appending to
    the body; \<open>page_dispatch\<close>/\<open>page_run\<close> compute it (\<open>page_dispatch_iff\<close>).
    The sections' events happen only while the component is mounted (an
    unmounted component renders nothing to click, and React drops its state
    updates); the script's \<open>onload\<close> may fire only once the effect has inserted a
    script (a removed script still loads, so any inserted script counts).
  \<^item> this theory: the properties that span components.

  \<^bold>\<open>What is proved.\<close> For each component: an invariant on its reachable states by
  rule induction (\<open>contact_inv\<close>, \<open>modal_inv\<close>, the range of \<open>activeStep\<close>,
  \<open>loader_inv\<close>), the functional behaviour of each handler on every branch, error
  branches included (script not loaded, rejected send, \<open>TypeError\<close>,
  \<open>NotFoundError\<close>), and liveness: a pending send can settle, and from every
  reachable page while the component is mounted a visitor can still get a message
  sent (\<open>message_can_be_sent\<close>, composing the page's steps into such a run). Edits
  typed while a send is outstanding are lost when it fulfils
  (\<open>edit_while_sending_discarded\<close>). The contact form refines its contract
  (\<open>contact_refines_spec\<close>: every run of the handlers is a run of \<open>spec_step\<close>
  through the abstraction \<open>abs_contact\<close>). The loader's cleanup undoes its mount
  (a round trip). Across components: the component is mounted exactly while the
  effect's script is a child of the body (\<open>script_in_body_while_mounted\<close>),
  \<open>window.emailjs.send\<close> is called only after the inserted script has loaded, and
  the cleanup never throws on the page as written. For the address field: the
  executable check equals the grammar, the stored value is always sanitized, a
  malformed address blocks the submission, and only well-formed addresses are
  sent. For the images: every fallback of the page works, the unchecked handler
  agrees with the checked one except for the exception it throws without a
  placeholder, and on every reachable page the frames keep their shape (a
  well-formedness invariant). A link of the mobile dropdown leaves it open. For the
  footer: the text printed is the copyright line with the calendar year of the
  visitor's local time (\<open>footer_shows_local_year\<close>: the year \<open>y\<close> whose
  \<open>TimeFromYear\<close> interval contains the time shifted by the zone offset); supporting
  lemmas show the year search agrees with the standard's \<open>YearFromTime\<close> and that
  the prerendered and hydrated footers differ exactly when their years do. The
  claims are numbered C1--C35 in the texts before their theorems; each theorem with
  a hypothesis has a \<open>_witness\<close> theorem applying it to a concrete run evaluated by
  \<open>simp\<close>.

  \<^bold>\<open>Bounds.\<close> The program has no loops over unbounded data and no machine
  integers: \<open>activeStep\<close> is a JavaScript number set only to \<open>index + 1\<close> for an
  array index, modelled as \<open>int\<close>; list indices are \<open>nat\<close>. No fuel is needed:
  the only recursion (event bubbling, list walks, decimal digits) is structural or
  by a measure, the year search included (the distance in days to the target).
  Time values are JavaScript numbers holding integers of magnitude at most
  8.64e15 milliseconds, exact in a double, so they are \<open>int\<close> with floor division.

  \<^bold>\<open>Not modelled.\<close> Styling (class names, icons, layout) and the global
  stylesheet; the imports and the global \<open>Window\<close> declaration at the top of
  \<open>page.tsx\<close> (types only); scrolling to a section after its fragment is set; the EmailJS
  library itself (only its observable effect: one logged request and a promise that
  settles later); network timing; image loading itself (a load error is an event, and
  an image may report several, an over-approximation); the overlay's blocking of
  clicks behind the open modal (again an over-approximation). React is taken to
  flush the state updates of one discrete event before the next event is handled,
  so a disabled button is disabled for the next click.
\<close>

section \<open>Properties spanning components\<close>

lemma page_inv_reach:
  "page_reach p \<Longrightarrow> contact_inv (contact p) \<and> modal_inv (modal p) \<and> loader_inv p \<and> link_inv p"
  using page_reach_slices [of p] contact_reach_inv modal_reach_inv loader_inv_reach link_inv_reach
  by blast

lemma page_init_mount: "page_step page_init Mount (page_init\<lparr>loader := effect_mount loader_init, mounted := True\<rparr>)"
  using page_step.mount [of page_init] by (simp add: page_init_def)

lemma page_reach_mounted: "page_reach (page_init\<lparr>loader := effect_mount loader_init, mounted := True\<rparr>)"
  by (rule page_reach.step [OF page_reach.init page_init_mount])



text \<open>
  C26. \<open>window.emailjs.send\<close> is called only once the EmailJS script has loaded,
  and that script is one the effect inserted: in every reachable state where a
  request has been sent, \<open>emailJsLoaded\<close> holds and the effect has created a script.
\<close>

theorem send_after_script_loaded:
  assumes "page_reach p" and "sent (contact p) \<noteq> []"
  shows "emailJsLoaded (contact p) \<and> created (loader p) \<noteq> []"
  using page_inv_reach [OF assms(1)] assms(2) by (simp add: link_inv_def)

theorem send_after_script_loaded_witness:
  "\<exists>c. contact_run contact_init (sample_fill @ [Form_Submit]) = Some c \<and>
       page_reach (page_init\<lparr>loader := effect_mount loader_init, mounted := True, contact := c\<rparr>) \<and>
       sent c \<noteq> [] \<and> emailJsLoaded c"
proof -
  obtain c where run: "contact_run contact_init (sample_fill @ [Form_Submit]) = Some c"
    and ne: "pending c \<noteq> []"
    using sample_submitted by blast
  let ?p = "page_init\<lparr>loader := effect_mount loader_init, mounted := True\<rparr>"
  from run have tr: "contact_trace contact_init (sample_fill @ [Form_Submit]) c"
    by (simp add: contact_run_trace)
  have "created (loader ?p) \<noteq> []" by (simp add: effect_mount_def)
  from page_reach_contact_trace [OF tr page_reach_mounted _ _ this]
  have r: "page_reach (?p\<lparr>contact := c\<rparr>)" by (simp add: page_init_def)
  from run have s: "sent c \<noteq> []" by (auto simp: contact_eval)
  from send_after_script_loaded [OF r] s have "emailJsLoaded c" by simp
  with run r s show ?thesis by auto
qed

text \<open>
  C27. On the page as written the effect's cleanup never throws: whenever the
  component is mounted, unmounting succeeds and removes exactly one EmailJS script
  from the body, whatever other nodes were appended meanwhile.
\<close>

theorem unmount_succeeds:
  assumes "page_reach p" and "mounted p"
  shows "\<exists>p'. page_step p Unmount p' \<and> \<not> mounted p' \<and>
           Suc (count_emailjs (body (loader p'))) = count_emailjs (body (loader p))"
proof -
  from page_inv_reach [OF assms(1)] have "loader_inv p" by blast
  from mounted_cleanup_ok [OF this assms(2)] obtain l where
    l: "effect_cleanup (loader p) = Inr l" "Suc (count_emailjs (body l)) = count_emailjs (body (loader p))"
    by blast
  from page_step.unmount [OF assms(2) l(1)] l(2) show ?thesis by auto
qed

theorem unmount_succeeds_witness:
  "\<exists>p'. page_step (page_init\<lparr>loader := effect_mount loader_init, mounted := True\<rparr>) Unmount p' \<and>
        count_emailjs (body (loader p')) = 0"
proof -
  have m: "mounted (page_init\<lparr>loader := effect_mount loader_init, mounted := True\<rparr>)" by simp
  have c: "count_emailjs (body (loader (page_init\<lparr>loader := effect_mount loader_init, mounted := True\<rparr>))) = 1"
    by (simp add: effect_mount_def loader_init_def count_emailjs_def)
  from unmount_succeeds [OF page_reach_mounted m] c show ?thesis by auto
qed

text \<open>
  C34. The image frames keep their shape on every reachable page: each of the six
  frames is still its image followed by its own placeholder, exactly one of the two
  is shown, and no \<open>onError\<close> handler has thrown, however many load errors occurred.
\<close>

theorem frames_well_formed:
  assumes "page_reach p"
  shows "uncaught p = [] \<and> map (map kind) (frames p) = map (map kind \<circ> snd) page_frames \<and>
         list_all frame_ok (frames p)"
  using frames_inv_reach [OF assms] by (simp add: frames_inv_def)

theorem frames_well_formed_witness:
  "\<exists>p. page_run page_init [Mount, Img_Error 0, Img_Error 2] = Some p \<and> page_reach p \<and>
       uncaught p = [] \<and> shown (hd (frames p)) = [Fallback ''KT'']"
proof -
  have "page_run page_init [Mount, Img_Error 0, Img_Error 2] \<noteq> None"
    by (simp add: page_init_def page_frames_def hero_frame_def about_frame_def card_frame_def
        cert_cards_def frame_pair_onError img_elem_def fallback_elem_def effect_mount_def loader_init_def)
  then obtain p where run: "page_run page_init [Mount, Img_Error 0, Img_Error 2] = Some p" by blast
  then have r: "page_reach p" by (rule page_run_reach) (rule page_reach.init)
  from run have "shown (hd (frames p)) = [Fallback ''KT'']"
    by (auto simp: page_init_def page_frames_def hero_frame_def about_frame_def card_frame_def
        cert_cards_def frame_pair_onError img_elem_def fallback_elem_def shown_def
        effect_mount_def loader_init_def)
  with frames_well_formed [OF r] run r show ?thesis by blast
qed

text \<open>
  C35. Following a link of the mobile dropdown navigates to its section but leaves
  the dropdown open: the links have no handler that resets \<open>menuOpen\<close>, and they
  can only be clicked while it is open.
\<close>

theorem mobile_link_keeps_menu_open:
  assumes "page_step p (Link_Click Narrow i) p'"
  shows "menuOpen p \<and> menuOpen p' \<and> i < length desktop_links \<and> hash p' = link_href (desktop_links ! i)"
  using assms
  by (auto elim!: page_step_LinkE simp: visible_links_def mobile_links_eq_desktop split: if_splits)

theorem mobile_link_keeps_menu_open_witness:
  "page_step (page_init\<lparr>mounted := True, menuOpen := True\<rparr>) (Link_Click Narrow 0)
     (page_init\<lparr>mounted := True, menuOpen := True, hash := ''#about''\<rparr>) \<and>
   menuOpen (page_init\<lparr>mounted := True, menuOpen := True, hash := ''#about''\<rparr>)"
proof -
  have s: "page_step (page_init\<lparr>mounted := True, menuOpen := True\<rparr>) (Link_Click Narrow 0)
     (page_init\<lparr>mounted := True, menuOpen := True, hash := ''#about''\<rparr>)"
    using page_step.link [of "page_init\<lparr>mounted := True, menuOpen := True\<rparr>" 0 Narrow]
    by (simp add: visible_links_def mobile_links_def)
  from mobile_link_keeps_menu_open [OF s] s show ?thesis by simp
qed

text \<open>
  C20. From every reachable page while the component is mounted, the visitor can
  still send a message: after any outstanding send settles, filling in the form and
  submitting it makes exactly one more request, with what was typed, and the status
  becomes success.
\<close>

theorem message_can_be_sent:
  assumes "page_reach p" and "mounted p"
  shows "\<exists>c'. page_reach (p\<lparr>contact := c'\<rparr>) \<and> status c' = Success \<and>
           (\<exists>r. sent c' = sent (contact p) @ [r] \<and> template_params r ''email'' = Some ''ann@example.org'' \<and>
                template_params r ''message'' = Some ''Hi there'')"
proof -
  have reach: "contact_reach (contact p)" using page_reach_slices [OF assms(1)] by blast
  obtain es c1 where t1: "contact_trace (contact p) es c1" and c1: "pending c1 = []"
    "status c1 \<noteq> Sending" "sent c1 = sent (contact p)"
    using contact_settle [OF reach] by blast
  obtain c2 where run: "contact_run c1 (sample_fill @ [Form_Submit, Send_Resolve 0]) = Some c2"
    and c2: "status c2 = Success" and r: "\<exists>r. sent c2 = sent c1 @ [r] \<and>
      template_params r ''email'' = Some ''ann@example.org'' \<and> template_params r ''message'' = Some ''Hi there''"
    using contact_session [OF c1(1,2)] by blast
  from run have t2: "contact_trace c1 (sample_fill @ [Form_Submit, Send_Resolve 0]) c2"
    by (simp add: contact_run_trace)
  have "page_reach (p\<lparr>contact := c2\<rparr>)"
    using page_reach_contact_trace [OF contact_trace_append [OF t1 t2] assms(1) _ assms(2) mounted_created [OF assms]] by simp
  with c2 r c1(3) show ?thesis by auto
qed

theorem message_can_be_sent_witness:
  "page_reach (page_init\<lparr>loader := effect_mount loader_init, mounted := True\<rparr>) \<and>
   mounted (page_init\<lparr>loader := effect_mount loader_init, mounted := True\<rparr>) \<and>
   (\<exists>c'. page_reach (page_init\<lparr>loader := effect_mount loader_init, mounted := True, contact := c'\<rparr>) \<and>
        status c' = Success)"
proof -
  have m: "mounted (page_init\<lparr>loader := effect_mount loader_init, mounted := True\<rparr>)" by simp
  from message_can_be_sent [OF page_reach_mounted m] page_reach_mounted m show ?thesis by auto
qed

end
